theory Spec2Isabelle
  imports Complex_Main "HOL-Library.Monad_Syntax"
begin

chapter \<open>motion-svg: the interpolation and playback engine\<close>

text \<open>
  A shallow embedding of the TypeScript sources of motion-svg.  Conventions:

  \<^item> A JavaScript \<open>number\<close> is a \<^typ>\<open>real\<close>: the rounding and the signed zeros of
    IEEE doubles are not modelled.  \<open>NaN\<close> is not a \<^typ>\<open>real\<close>: a number that the
    source can compute as \<open>NaN\<close> from well-formed arguments is a \<^typ>\<open>real option\<close>,
    with \<^term>\<open>None\<close> for \<open>NaN\<close>.  The one number that the API documents as possibly
    infinite, the iteration budget of a loop trigger, ranges over the type \<open>number\<close>
    below.
  \<^item> An optional field \<open>f?: T\<close> is a field of type \<open>T option\<close>; \<open>undefined\<close> is
    \<^term>\<open>None\<close>.
  \<^item> A \<open>throw\<close> of the validating constructors is the left injection of a sum.  A
    call that yields no value of the model (a loop that never ends, a call of
    \<open>undefined\<close> or of an inherited property that throws, a time or an eased progress
    that is \<open>NaN\<close>) is \<^term>\<open>None\<close>.
  \<^item> Module-level mutable variables (counters, registries) are explicit arguments and
    results.
  \<^item> Source names are kept.  A leading underscore is dropped (\<open>_findBracket\<close> is
    \<open>findBracket\<close>), and a name that HOL already uses gets a prime (\<open>at'\<close>, \<open>id'\<close>,
    \<open>type'\<close>, \<open>end'\<close>, \<open>closed'\<close>, \<open>round'\<close>); so does a parameter or a local
    variable whose name is a field of a record.  Where two records share a field name the field is
    written with its record (\<open>Keyframe.opacity\<close>, \<open>ActorState.opacity\<close>).
\<close>

section \<open>types.ts: the data model\<close>

record Point =
  x :: real
  y :: real

text \<open>\<open>scale: number | Point\<close>\<close>

datatype Scale = ScaleNumber real | ScalePoint Point

datatype StrokeAlign = center | inside | outside

text \<open>
  \<open>EasingCurve = EasingName | CubicBezierCurve\<close>.  At run time an easing name is a string
  that indexes the table \<open>easingFunctions\<close>.
\<close>

datatype EasingCurve = EasingName string | CubicBezierCurve real real real real

record Keyframe =
  at' :: real
  position :: "Point option"
  scale :: "Scale option"
  rotation :: "real option"
  opacity :: "real option"
  fill :: "string option"
  stroke :: "string option"
  strokeWidth :: "real option"
  strokeAlign :: "StrokeAlign option"
  blurRadius :: "real option"
  backdropBlur :: "real option"
  width :: "real option"
  height :: "real option"
  pathD :: "string option"
  curve :: "EasingCurve option"

record TimelineConfig =
  keyframes :: "Keyframe list"

record Timeline =
  id' :: string
  actorId :: string
  keyframes :: "Keyframe list"
  duration :: real

text \<open>
  Of an \<open>Actor\<close> the engine reads the identifier and the origin.  The functions below
  take any extension of this record, so the remaining fields of the interface
  (\<open>paths\<close>, \<open>position\<close>, \<open>z\<close>, ...) may be present.
\<close>

record Actor =
  id' :: string
  origin :: Point

text \<open>
  The iteration budget \<open>iterations?: number\<close> of a loop trigger: a real, \<open>Infinity\<close> or
  \<open>-Infinity\<close>.
\<close>

datatype number = Finite real | Infinity | MinusInfinity

text \<open>
  \<open>TriggerConfig\<close> is a union of six interfaces discriminated by the string \<open>type\<close>.
  At run time it is one object with a tag and optional fields, which is how it is
  modelled: the validation dispatches on the tag and reads the fields of that variant.
\<close>

record TriggerConfig =
  type' :: string
  target :: "string option"
  reverse :: "bool option"
  toggle :: "bool option"
  iterations :: "number option"
  direction :: "string option"
  delay :: "real option"
  start :: "real option"
  end' :: "real option"
  threshold :: "real option"
  once :: "bool option"

record TriggerBinding =
  timelineId :: string
  config :: TriggerConfig

text \<open>\<open>new Error(message)\<close>\<close>

datatype error = Error string

section \<open>trigger/trigger.ts\<close>

text \<open>\<open>n < 0\<close> on the iteration budget.\<close>

fun number_less_zero :: "number \<Rightarrow> bool" where
  "number_less_zero (Finite r) = (r < 0)"
| "number_less_zero Infinity = False"
| "number_less_zero MinusInfinity = True"

definition validateTrigger :: "TriggerConfig \<Rightarrow> error + unit" where
  "validateTrigger c =
    (if type' c = ''hover'' then Inr ()
     else if type' c = ''click'' then Inr ()
     else if type' c = ''loop'' then
       (if (case iterations c of None \<Rightarrow> False | Some n \<Rightarrow> number_less_zero n)
        then Inl (Error ''motion-svg: loop trigger iterations must be >= 0 (or Infinity).'')
        else if (case delay c of None \<Rightarrow> False | Some d \<Rightarrow> d < 0)
        then Inl (Error ''motion-svg: loop trigger delay must be >= 0.'')
        else Inr ())
     else if type' c = ''scroll'' then
       (if (case start c of None \<Rightarrow> False | Some s \<Rightarrow> s < 0 \<or> s > 1)
        then Inl (Error ''motion-svg: scroll trigger start must be between 0 and 1.'')
        else if (case end' c of None \<Rightarrow> False | Some e \<Rightarrow> e < 0 \<or> e > 1)
        then Inl (Error ''motion-svg: scroll trigger end must be between 0 and 1.'')
        else Inr ())
     else if type' c = ''appear'' then
       (if (case threshold c of None \<Rightarrow> False | Some h \<Rightarrow> h < 0 \<or> h > 1)
        then Inl (Error ''motion-svg: appear trigger threshold must be between 0 and 1.'')
        else Inr ())
     else if type' c = ''manual'' then Inr ()
     else Inl (Error (''motion-svg: unknown trigger type '' @ [CHR 0x22] @ type' c @ [CHR 0x22] @ ''.'')))"

text \<open>
  \<open>trigger(tl, config)\<close>.  The binding holds \<open>{ ...config }\<close>, a fresh object with the
  fields of \<open>config\<close>; as a value it is \<open>config\<close>.
\<close>

definition trigger :: "Timeline \<Rightarrow> TriggerConfig \<Rightarrow> error + TriggerBinding" where
  "trigger tml c =
    (case validateTrigger c of
       Inl e \<Rightarrow> Inl e
     | Inr _ \<Rightarrow> Inr \<lparr>timelineId = Timeline.id' tml, config = c\<rparr>)"

text \<open>The condition under which the specification says that binding fails.\<close>

definition trigger_invalid :: "TriggerConfig \<Rightarrow> bool" where
  "trigger_invalid c =
    ((type' c = ''loop'' \<and> (\<exists>n. iterations c = Some n \<and> number_less_zero n))
     \<or> (type' c = ''loop'' \<and> (\<exists>d. delay c = Some d \<and> d < 0))
     \<or> (type' c = ''scroll'' \<and> (\<exists>s. start c = Some s \<and> (s < 0 \<or> 1 < s)))
     \<or> (type' c = ''scroll'' \<and> (\<exists>e. end' c = Some e \<and> (e < 0 \<or> 1 < e)))
     \<or> (type' c = ''appear'' \<and> (\<exists>h. threshold c = Some h \<and> (h < 0 \<or> 1 < h)))
     \<or> type' c \<notin> {''hover'', ''click'', ''loop'', ''scroll'', ''appear'', ''manual''})"

text \<open>A configuration with the given tag and no optional field.\<close>

definition bare_config :: "string \<Rightarrow> TriggerConfig" where
  "bare_config ty =
    \<lparr>type' = ty, target = None, reverse = None, toggle = None, iterations = None,
     direction = None, delay = None, start = None, end' = None, threshold = None,
     once = None\<rparr>"

section \<open>timeline/timeline.ts\<close>

text \<open>The decimal digits of a counter, as a template literal prints them.\<close>

function showNat :: "nat \<Rightarrow> string" where
  "showNat n =
    (if n < 10 then [''0123456789'' ! n]
     else showNat (n div 10) @ [''0123456789'' ! (n mod 10)])"
  by pat_completeness auto
termination
  by (relation "measure id") auto

declare showNat.simps [simp del]

text \<open>
  \<open>timeline(actor, config)\<close>.  The module variable \<open>timelineCounter\<close> is an argument and
  a result.  \<open>[...config.keyframes].sort((a, b) => a.at - b.at)\<close> is a stable sort by
  \<open>at\<close>, as \<^const>\<open>sort_key\<close> is.  The object literal \<open>filledFirst\<close> lists the fields
  it sets; a field it does not list (\<open>width\<close>, \<open>height\<close>, \<open>pathD\<close>) is \<open>undefined\<close> in
  the new first keyframe.
\<close>

definition timeline ::
  "'z Actor_scheme \<Rightarrow> TimelineConfig \<Rightarrow> nat \<Rightarrow> error + (Timeline \<times> nat)" where
  "timeline actor cfg timelineCounter =
    (if TimelineConfig.keyframes cfg = [] then
       Inl (Error (''motion-svg: timeline for actor '' @ [CHR 0x22] @ Actor.id' actor
                   @ [CHR 0x22] @ '' needs at least one keyframe.''))
     else
       let counter = timelineCounter + 1;
           sorted' = sort_key at' (TimelineConfig.keyframes cfg);
           first = hd sorted';
           filledFirst =
             \<lparr>at' = at' first,
              position = Some (case position first of None \<Rightarrow> origin actor | Some p \<Rightarrow> p),
              scale = Some (case scale first of None \<Rightarrow> ScaleNumber 1 | Some s \<Rightarrow> s),
              rotation = Some (case rotation first of None \<Rightarrow> 0 | Some r \<Rightarrow> r),
              opacity = Some (case opacity first of None \<Rightarrow> 1 | Some v \<Rightarrow> v),
              fill = fill first,
              stroke = stroke first,
              strokeWidth = strokeWidth first,
              strokeAlign = strokeAlign first,
              blurRadius = blurRadius first,
              backdropBlur = backdropBlur first,
              width = None,
              height = None,
              pathD = None,
              curve = curve first\<rparr>;
           sorted'' = sorted'[0 := filledFirst];
           duration' = at' (last sorted'')
       in Inr (\<lparr>Timeline.id' = ''tl-'' @ Actor.id' actor @ ''-'' @ showNat counter,
                actorId = Actor.id' actor,
                Timeline.keyframes = sorted'',
                duration = duration'\<rparr>, counter))"

section \<open>easing/curves.ts\<close>

text \<open>
  An easing function maps progress to eased progress.  A call that yields no number is
  \<^term>\<open>None\<close>: it does not return (the bisection loop of \<open>cubicBezier\<close> has no bound on
  its iterations), it throws, or it returns a value that is not a number and that the
  arithmetic of the channels turns into \<open>NaN\<close>.
\<close>

type_synonym EasingFunction = "real \<Rightarrow> real option"

subsection \<open>\<open>cubicBezier\<close>\<close>

definition sampleCurveX :: "real \<Rightarrow> real \<Rightarrow> real \<Rightarrow> real \<Rightarrow> real" where
  "sampleCurveX ax bx cx' t = ((ax * t + bx) * t + cx') * t"

definition sampleCurveY :: "real \<Rightarrow> real \<Rightarrow> real \<Rightarrow> real \<Rightarrow> real" where
  "sampleCurveY ay by cy' t = ((ay * t + by) * t + cy') * t"

definition sampleCurveDerivativeX :: "real \<Rightarrow> real \<Rightarrow> real \<Rightarrow> real \<Rightarrow> real" where
  "sampleCurveDerivativeX ax bx cx' t = (3 * ax * t + 2 * bx) * t + cx'"

text \<open>
  The Newton-Raphson loop of \<open>solveCurveX\<close>, \<open>for (let i = 0; i < 8; i++)\<close>, by the
  number of iterations that remain.  \<^term>\<open>Some t\<close> is \<open>return t\<close>; \<^term>\<open>None\<close> is
  leaving the loop, by \<open>break\<close> or at its end.
\<close>

fun newtonRaphson :: "real \<Rightarrow> real \<Rightarrow> real \<Rightarrow> real \<Rightarrow> nat \<Rightarrow> real \<Rightarrow> real option" where
  "newtonRaphson ax bx cx' xv 0 t = None"
| "newtonRaphson ax bx cx' xv (Suc k) t =
    (if \<bar>sampleCurveX ax bx cx' t - xv\<bar> < 1 / 10 ^ 7 then Some t
     else if \<bar>sampleCurveDerivativeX ax bx cx' t\<bar> < 1 / 10 ^ 7 then None
     else newtonRaphson ax bx cx' xv k
            (t - (sampleCurveX ax bx cx' t - xv) / sampleCurveDerivativeX ax bx cx' t))"

text \<open>The bisection fallback, \<open>while (lo < hi) { ... }\<close> followed by \<open>return t\<close>.\<close>

partial_function (option) bisection ::
  "real \<Rightarrow> real \<Rightarrow> real \<Rightarrow> real \<Rightarrow> real \<Rightarrow> real \<Rightarrow> real \<Rightarrow> real option" where
  "bisection ax bx cx' xv lo hi t =
    (if lo < hi then
       (if \<bar>sampleCurveX ax bx cx' t - xv\<bar> < 1 / 10 ^ 7 then Some t
        else if xv > sampleCurveX ax bx cx' t
          then bisection ax bx cx' xv t hi ((t + hi) / 2)
          else bisection ax bx cx' xv lo t ((lo + t) / 2))
     else Some t)"

definition solveCurveX :: "real \<Rightarrow> real \<Rightarrow> real \<Rightarrow> real \<Rightarrow> real option" where
  "solveCurveX ax bx cx' xv =
    (case newtonRaphson ax bx cx' xv 8 xv of
       Some t \<Rightarrow> Some t
     | None \<Rightarrow> bisection ax bx cx' xv 0 1 xv)"

definition cubicBezier :: "real \<Rightarrow> real \<Rightarrow> real \<Rightarrow> real \<Rightarrow> EasingFunction" where
  "cubicBezier px1 py1 px2 py2 =
    (let cx' = 3 * px1;
         bx = 3 * (px2 - px1) - cx';
         ax = 1 - cx' - bx;
         cy' = 3 * py1;
         by = 3 * (py2 - py1) - cy';
         ay = 1 - cy' - by
     in (\<lambda>t. if t \<le> 0 then Some 0
             else if t \<ge> 1 then Some 1
             else map_option (sampleCurveY ay by cy') (solveCurveX ax bx cx' t)))"

subsection \<open>The built-in easing functions\<close>

definition c1 :: real where "c1 = 1.70158"
definition c2 :: real where "c2 = c1 * 1.525"
definition c3 :: real where "c3 = c1 + 1"
definition c4 :: real where "c4 = (2 * pi) / 3"
definition c5 :: real where "c5 = (2 * pi) / 4.5"

text \<open>
  In \<open>n1 * (t -= 1.5 / d1) * t + 0.75\<close> the assignment yields the new \<open>t\<close>, which is
  also the second factor.
\<close>

definition bounceOut :: "real \<Rightarrow> real" where
  "bounceOut t =
    (let n1 = 7.5625; d1 = 2.75 in
     if t < 1 / d1 then n1 * t * t
     else if t < 2 / d1 then (let u = t - 1.5 / d1 in n1 * u * u + 0.75)
     else if t < 2.5 / d1 then (let u = t - 2.25 / d1 in n1 * u * u + 0.9375)
     else (let u = t - 2.625 / d1 in n1 * u * u + 0.984375))"

text \<open>
  The table \<open>easingFunctions\<close> as the module creates it.  The table is mutable (a plugin
  adds and removes entries), so the resolver takes the current table as an argument.
\<close>

definition easingTable :: "(string \<times> (real \<Rightarrow> real)) list" where
  "easingTable =
    [(''linear'', \<lambda>t. t),
     (''easeIn'', \<lambda>t. 1 - cos ((t * pi) / 2)),
     (''easeOut'', \<lambda>t. sin ((t * pi) / 2)),
     (''easeInOut'', \<lambda>t. - (cos (pi * t) - 1) / 2),
     (''easeInQuad'', \<lambda>t. t * t),
     (''easeOutQuad'', \<lambda>t. 1 - (1 - t) * (1 - t)),
     (''easeInOutQuad'', \<lambda>t. if t < 0.5 then 2 * t * t else 1 - (- 2 * t + 2) ^ 2 / 2),
     (''easeInCubic'', \<lambda>t. t * t * t),
     (''easeOutCubic'', \<lambda>t. 1 - (1 - t) ^ 3),
     (''easeInOutCubic'', \<lambda>t. if t < 0.5 then 4 * t * t * t else 1 - (- 2 * t + 2) ^ 3 / 2),
     (''easeInQuart'', \<lambda>t. t * t * t * t),
     (''easeOutQuart'', \<lambda>t. 1 - (1 - t) ^ 4),
     (''easeInOutQuart'', \<lambda>t. if t < 0.5 then 8 * t * t * t * t else 1 - (- 2 * t + 2) ^ 4 / 2),
     (''easeInBack'', \<lambda>t. c3 * t * t * t - c1 * t * t),
     (''easeOutBack'', \<lambda>t. 1 + c3 * (t - 1) ^ 3 + c1 * (t - 1) ^ 2),
     (''easeInOutBack'', \<lambda>t.
        if t < 0.5 then ((2 * t) ^ 2 * ((c2 + 1) * 2 * t - c2)) / 2
        else ((2 * t - 2) ^ 2 * ((c2 + 1) * (t * 2 - 2) + c2) + 2) / 2),
     (''easeInElastic'', \<lambda>t.
        if t = 0 then 0 else if t = 1 then 1
        else - (2 powr (10 * t - 10)) * sin ((t * 10 - 10.75) * c4)),
     (''easeOutElastic'', \<lambda>t.
        if t = 0 then 0 else if t = 1 then 1
        else 2 powr (- 10 * t) * sin ((t * 10 - 0.75) * c4) + 1),
     (''easeInOutElastic'', \<lambda>t.
        if t = 0 then 0 else if t = 1 then 1
        else if t < 0.5 then - (2 powr (20 * t - 10) * sin ((20 * t - 11.125) * c5)) / 2
        else (2 powr (- 20 * t + 10) * sin ((20 * t - 11.125) * c5)) / 2 + 1),
     (''easeInBounce'', \<lambda>t. 1 - bounceOut (1 - t)),
     (''easeOutBounce'', bounceOut),
     (''easeInOutBounce'', \<lambda>t.
        if t < 0.5 then (1 - bounceOut (1 - 2 * t)) / 2 else (1 + bounceOut (2 * t - 1)) / 2)]"

definition easingFunctions :: "string \<rightharpoonup> EasingFunction" where
  "easingFunctions = map_of (map (\<lambda>(name, f). (name, \<lambda>t. Some (f t))) easingTable)"

text \<open>
  \<open>easingFunctions[curve]\<close> reads a property of an object: where the table has no entry
  of that name, the value is what the object inherits from \<open>Object.prototype\<close>, and
  \<open>?? easingFunctions.linear\<close> applies only when there is none.  The resolver's result
  is called as \<open>f(raw)\<close>, without a receiver.  For the properties of
  \<open>Object.prototype\<close> this call

  \<^item> returns a \<open>Number\<close> object for \<open>constructor\<close> (\<open>Object(raw)\<close>), which the arithmetic
    and the comparisons of the channels read as \<open>raw\<close>;
  \<^item> returns \<open>false\<close> for \<open>isPrototypeOf\<close>, the argument being a number, which they
    read as 0;
  \<^item> returns the string \<open>[object Undefined]\<close> for \<open>toString\<close>, which the arithmetic
    turns into \<open>NaN\<close>: no number;
  \<^item> throws a \<open>TypeError\<close> for \<open>hasOwnProperty\<close>, \<open>propertyIsEnumerable\<close>,
    \<open>toLocaleString\<close>, \<open>valueOf\<close>, \<open>__defineGetter__\<close>, \<open>__defineSetter__\<close>,
    \<open>__lookupGetter__\<close> and \<open>__lookupSetter__\<close>, which need a receiver, and for
    \<open>__proto__\<close>, whose value is the prototype itself and not a function.
\<close>

definition inheritedProperties :: "(string \<times> EasingFunction) list" where
  "inheritedProperties =
    [(''constructor'', \<lambda>t. Some t),
     (''isPrototypeOf'', \<lambda>t. Some 0),
     (''toString'', \<lambda>t. None),
     (''hasOwnProperty'', \<lambda>t. None),
     (''propertyIsEnumerable'', \<lambda>t. None),
     (''toLocaleString'', \<lambda>t. None),
     (''valueOf'', \<lambda>t. None),
     (''__defineGetter__'', \<lambda>t. None),
     (''__defineSetter__'', \<lambda>t. None),
     (''__lookupGetter__'', \<lambda>t. None),
     (''__lookupSetter__'', \<lambda>t. None),
     (''__proto__'', \<lambda>t. None)]"

text \<open>\<open>easingFunctions[name]\<close> for the table \<open>reg\<close>; \<^term>\<open>None\<close> is \<open>undefined\<close>.\<close>

definition property :: "(string \<rightharpoonup> EasingFunction) \<Rightarrow> string \<Rightarrow> EasingFunction option" where
  "property reg name =
    (case reg name of Some f \<Rightarrow> Some f | None \<Rightarrow> map_of inheritedProperties name)"

text \<open>
  \<open>getEasingFunction(curve)\<close> with the current table \<open>reg\<close>.  \<open>!curve\<close> holds for
  \<open>undefined\<close> and for the empty string.  The result is \<^term>\<open>None\<close> when the table has
  neither the name nor \<open>linear\<close>; calling that result throws.
\<close>

definition getEasingFunction ::
  "(string \<rightharpoonup> EasingFunction) \<Rightarrow> EasingCurve option \<Rightarrow> EasingFunction option" where
  "getEasingFunction reg curve' =
    (case curve' of
       None \<Rightarrow> property reg ''linear''
     | Some (EasingName name) \<Rightarrow>
         (if name = [] then property reg ''linear''
          else (case property reg name of
                  Some f \<Rightarrow> Some f
                | None \<Rightarrow> property reg ''linear''))
     | Some (CubicBezierCurve px1 py1 px2 py2) \<Rightarrow> Some (cubicBezier px1 py1 px2 py2))"

section \<open>Host primitives\<close>

text \<open>
  The sources call a few built-in operations on strings whose results are not
  reconstructed here; they are the fields of a record that the functions take as an
  argument, and every theorem holds for every value of it.

  \<^item> \<open>parseNumbers\<close>: \<open>s.match(/-?\d*\.?\d+(?:e[+-]?\d+)?/gi)\<close> mapped through \<open>Number\<close>,
    the body of the function of that name in \<open>pathMorph.ts\<close>;
  \<^item> \<open>numberToString\<close>: \<open>Number.prototype.toString()\<close>;
  \<^item> \<open>matchUrlId\<close>: \<open>ref.match(/url\(#(.+)\)/)?.[1]\<close>;
  \<^item> \<open>parseInt16\<close>: \<open>parseInt(s, 16)\<close>, which is \<open>NaN\<close> (\<^term>\<open>None\<close>) when \<open>s\<close> does
    not start with a hexadecimal numeral;
  \<^item> \<open>dateNow36\<close>: \<open>Date.now().toString(36)\<close>, the clock read at the call whose number
    is given.
\<close>

record Host =
  parseNumbers :: "string \<Rightarrow> real list"
  numberToString :: "real \<Rightarrow> string"
  matchUrlId :: "string \<Rightarrow> string option"
  parseInt16 :: "string \<Rightarrow> real option"
  dateNow36 :: "nat \<Rightarrow> string"

section \<open>timeline/pathMorph.ts\<close>

subsection \<open>Types\<close>

text \<open>\<open>CommandType\<close> is one of the letters \<open>M L H V C S Q T A Z\<close>.\<close>

type_synonym CommandType = char

record PathCommand =
  type' :: CommandType
  relative :: bool
  params :: "real list"

record CubicSegment =
  cx1 :: real
  cy1 :: real
  cx2 :: real
  cy2 :: real
  x :: real
  y :: real

record NormalizedPath =
  startX :: real
  startY :: real
  segments :: "CubicSegment list"
  closed' :: bool

subsection \<open>Parsing\<close>

definition isCommandLetter :: "char \<Rightarrow> bool" where
  "isCommandLetter c = (c \<in> set ''MmLlHhVvCcSsQqTtAaZz'')"

text \<open>
  \<open>d.split(CMD_RE)\<close>: the pieces between the command letters, with the letters (the
  capture group of the expression) between them.
\<close>

fun split_CMD_RE :: "string \<Rightarrow> string \<Rightarrow> string list" where
  "split_CMD_RE [] piece = [piece]"
| "split_CMD_RE (c # cs) piece =
    (if isCommandLetter c then piece # [c] # split_CMD_RE cs []
     else split_CMD_RE cs (piece @ [c]))"

text \<open>\<open>String.prototype.trim\<close> on the white space of Latin-1.\<close>

definition isWhiteSpace :: "char \<Rightarrow> bool" where
  "isWhiteSpace c =
    (c \<in> set [CHR 0x09, CHR 0x0A, CHR 0x0B, CHR 0x0C, CHR 0x0D, CHR 0x20, CHR 0xA0])"

definition trim :: "string \<Rightarrow> string" where
  "trim s = rev (dropWhile isWhiteSpace (rev (dropWhile isWhiteSpace s)))"

definition toUpperCase :: "char \<Rightarrow> char" where
  "toUpperCase c =
    (case map_of (zip ''mlhvcsqtaz'' ''MLHVCSQTAZ'') c of Some u \<Rightarrow> u | None \<Rightarrow> c)"

definition paramCounts :: "CommandType \<Rightarrow> nat" where
  "paramCounts ty =
    (case map_of (zip ''MLHVCSQTAZ'' [2, 2, 1, 1, 6, 4, 4, 2, 7, 0]) ty of
       Some k \<Rightarrow> k | None \<Rightarrow> 0)"

definition toAbsolute ::
  "CommandType \<Rightarrow> real list \<Rightarrow> real \<Rightarrow> real \<Rightarrow> bool \<Rightarrow> real list" where
  "toAbsolute ty ps curX curY isRelative =
    (if \<not> isRelative then ps
     else if ty = CHR ''M'' \<or> ty = CHR ''L'' \<or> ty = CHR ''T'' then
       [ps ! 0 + curX, ps ! 1 + curY]
     else if ty = CHR ''H'' then [ps ! 0 + curX]
     else if ty = CHR ''V'' then [ps ! 0 + curY]
     else if ty = CHR ''C'' then
       [ps ! 0 + curX, ps ! 1 + curY, ps ! 2 + curX, ps ! 3 + curY, ps ! 4 + curX, ps ! 5 + curY]
     else if ty = CHR ''S'' then
       [ps ! 0 + curX, ps ! 1 + curY, ps ! 2 + curX, ps ! 3 + curY]
     else if ty = CHR ''Q'' then
       [ps ! 0 + curX, ps ! 1 + curY, ps ! 2 + curX, ps ! 3 + curY]
     else if ty = CHR ''A'' then
       [ps ! 0, ps ! 1, ps ! 2, ps ! 3, ps ! 4, ps ! 5 + curX, ps ! 6 + curY]
     else ps)"

text \<open>The variables of \<open>parsePathD\<close> that its loops update.\<close>

record parse_vars =
  commands :: "PathCommand list"
  curX :: real
  curY :: real
  startX :: real
  startY :: real

text \<open>
  The complete parameter groups of a command: \<open>nums.slice(j, j + count)\<close> for
  \<open>j = 0, count, 2 * count, ...\<close> until a group is short.
\<close>

fun param_groups :: "nat \<Rightarrow> real list \<Rightarrow> real list list" where
  "param_groups count nums =
    (if count = 0 \<or> length nums < count then []
     else take count nums # param_groups count (drop count nums))"

declare param_groups.simps [simp del]

text \<open>
  One pass of the inner loop, for one group.  \<open>first'\<close> says that the group is the
  first of its command (\<open>j > count\<close> is false after the increment).
\<close>

definition parse_group ::
  "CommandType \<Rightarrow> bool \<Rightarrow> parse_vars \<Rightarrow> bool \<times> real list \<Rightarrow> parse_vars" where
  "parse_group ty isRelative v g =
    (let first' = fst g; group = snd g;
         abs' = toAbsolute ty group (parse_vars.curX v) (parse_vars.curY v) isRelative;
         implicitType = (if ty = CHR ''M'' \<and> \<not> first' then CHR ''L'' else ty);
         v1 = v\<lparr>commands := commands v
                 @ [\<lparr>PathCommand.type' = implicitType, relative = False, params = abs'\<rparr>]\<rparr>
     in if ty = CHR ''M'' then
          v1\<lparr>parse_vars.curX := abs' ! 0, parse_vars.curY := abs' ! 1,
             parse_vars.startX := abs' ! 0, parse_vars.startY := abs' ! 1\<rparr>
        else if ty = CHR ''L'' \<or> ty = CHR ''T'' then
          v1\<lparr>parse_vars.curX := abs' ! 0, parse_vars.curY := abs' ! 1\<rparr>
        else if ty = CHR ''H'' then v1\<lparr>parse_vars.curX := abs' ! 0\<rparr>
        else if ty = CHR ''V'' then v1\<lparr>parse_vars.curY := abs' ! 0\<rparr>
        else if ty = CHR ''C'' then
          v1\<lparr>parse_vars.curX := abs' ! 4, parse_vars.curY := abs' ! 5\<rparr>
        else if ty = CHR ''S'' then
          v1\<lparr>parse_vars.curX := abs' ! 2, parse_vars.curY := abs' ! 3\<rparr>
        else if ty = CHR ''Q'' then
          v1\<lparr>parse_vars.curX := abs' ! 2, parse_vars.curY := abs' ! 3\<rparr>
        else if ty = CHR ''A'' then
          v1\<lparr>parse_vars.curX := abs' ! 5, parse_vars.curY := abs' ! 6\<rparr>
        else v1)"

text \<open>
  The outer loop, \<open>while (i < tokens.length)\<close>, on the tokens from index \<open>i\<close> on.  A
  token that is not a command letter is skipped (\<open>i++\<close>); a command takes the next
  token as its parameters, whatever it is (\<open>i += 2\<close>).
\<close>

fun parse_tokens :: "Host \<Rightarrow> string list \<Rightarrow> parse_vars \<Rightarrow> parse_vars" where
  "parse_tokens h [] v = v"
| "parse_tokens h (raw # rest) v =
    (let letter = trim raw in
     if \<not> (length letter = 1 \<and> isCommandLetter (hd letter)) then parse_tokens h rest v
     else
       let isRelative = (hd letter \<noteq> toUpperCase (hd letter));
           ty = toUpperCase (hd letter);
           paramStr = (case rest of [] \<Rightarrow> [] | s # _ \<Rightarrow> s);
           nums = parseNumbers h paramStr;
           count = paramCounts ty
       in if ty = CHR ''Z'' then
            parse_tokens h (drop 1 rest)
              (v\<lparr>commands := commands v
                     @ [\<lparr>PathCommand.type' = CHR ''Z'', relative = False, params = []\<rparr>],
                 parse_vars.curX := parse_vars.startX v,
                 parse_vars.curY := parse_vars.startY v\<rparr>)
          else if count = 0 then parse_tokens h (drop 1 rest) v
          else
            let groups = param_groups count nums;
                flagged = zip (map (\<lambda>k. k = 0) [0 ..< length groups]) groups
            in parse_tokens h (drop 1 rest) (foldl (parse_group ty isRelative) v flagged))"

definition parsePathD :: "Host \<Rightarrow> string \<Rightarrow> PathCommand list" where
  "parsePathD h d =
    (let tokens = filter (\<lambda>s. length (trim s) > 0) (split_CMD_RE d [])
     in commands (parse_tokens h tokens
          \<lparr>commands = [], parse_vars.curX = 0, parse_vars.curY = 0,
           parse_vars.startX = 0, parse_vars.startY = 0\<rparr>))"

subsection \<open>Normalising to cubic segments\<close>

definition lerp :: "real \<Rightarrow> real \<Rightarrow> real \<Rightarrow> real" where
  "lerp a b t = a + (b - a) * t"

definition lineToCubic :: "real \<Rightarrow> real \<Rightarrow> real \<Rightarrow> real \<Rightarrow> CubicSegment" where
  "lineToCubic px1 py1 px2 py2 =
    \<lparr>cx1 = px1 + (px2 - px1) / 3,
     cy1 = py1 + (py2 - py1) / 3,
     cx2 = px1 + 2 * (px2 - px1) / 3,
     cy2 = py1 + 2 * (py2 - py1) / 3,
     x = px2,
     y = py2\<rparr>"

definition quadToCubic ::
  "real \<Rightarrow> real \<Rightarrow> real \<Rightarrow> real \<Rightarrow> real \<Rightarrow> real \<Rightarrow> CubicSegment" where
  "quadToCubic x0 y0 qx qy ex ey =
    \<lparr>cx1 = x0 + 2 / 3 * (qx - x0),
     cy1 = y0 + 2 / 3 * (qy - y0),
     cx2 = ex + 2 / 3 * (qx - ex),
     cy2 = ey + 2 / 3 * (qy - ey),
     x = ex,
     y = ey\<rparr>"

definition angleBetween :: "real \<Rightarrow> real \<Rightarrow> real \<Rightarrow> real \<Rightarrow> real" where
  "angleBetween ux uy vx vy =
    (let dot = ux * vx + uy * vy;
         len = sqrt (ux * ux + uy * uy) * sqrt (vx * vx + vy * vy);
         angle = arccos (max (- 1) (min 1 (dot / len)))
     in if ux * vy - uy * vx < 0 then - angle else angle)"

definition arcSegmentToCubic ::
  "real \<Rightarrow> real \<Rightarrow> real \<Rightarrow> real \<Rightarrow> real \<Rightarrow> real \<Rightarrow> real \<Rightarrow> CubicSegment" where
  "arcSegmentToCubic ccx ccy rx ry phi theta1 theta2 =
    (let alpha = sin (theta2 - theta1)
           * (sqrt (4 + 3 * tan ((theta2 - theta1) / 2) ^ 2) - 1) / 3;
         cosPhi = cos phi;
         sinPhi = sin phi;
         p1x = rx * cos theta1;
         p1y = ry * sin theta1;
         p2x = rx * cos theta2;
         p2y = ry * sin theta2;
         d1x = - rx * sin theta1;
         d1y = ry * cos theta1;
         d2x = - rx * sin theta2;
         d2y = ry * cos theta2
     in \<lparr>cx1 = ccx + cosPhi * (p1x + alpha * d1x) - sinPhi * (p1y + alpha * d1y),
         cy1 = ccy + sinPhi * (p1x + alpha * d1x) + cosPhi * (p1y + alpha * d1y),
         cx2 = ccx + cosPhi * (p2x - alpha * d2x) - sinPhi * (p2y - alpha * d2y),
         cy2 = ccy + sinPhi * (p2x - alpha * d2x) + cosPhi * (p2y - alpha * d2y),
         x = ccx + cosPhi * p2x - sinPhi * p2y,
         y = ccy + sinPhi * p2x + cosPhi * p2y\<rparr>)"

definition arcToCubics ::
  "real \<Rightarrow> real \<Rightarrow> real \<Rightarrow> real \<Rightarrow> real \<Rightarrow> real \<Rightarrow> real \<Rightarrow> real \<Rightarrow> real
    \<Rightarrow> CubicSegment list" where
  "arcToCubics px1 py1 rx0 ry0 xAxisRotation largeArc sweep px2 py2 =
    (if rx0 = 0 \<or> ry0 = 0 then [lineToCubic px1 py1 px2 py2]
     else
       let phi = (xAxisRotation * pi) / 180;
           cosPhi = cos phi;
           sinPhi = sin phi;
           dx2 = (px1 - px2) / 2;
           dy2 = (py1 - py2) / 2;
           x1p = cosPhi * dx2 + sinPhi * dy2;
           y1p = - sinPhi * dx2 + cosPhi * dy2;
           x1pSq = x1p * x1p;
           y1pSq = y1p * y1p;
           lambda = x1pSq / (rx0 * rx0) + y1pSq / (ry0 * ry0);
           rx = (if lambda > 1 then rx0 * sqrt lambda else rx0);
           ry = (if lambda > 1 then ry0 * sqrt lambda else ry0);
           rxSq = rx * rx;
           rySq = ry * ry;
           num0 = rxSq * rySq - rxSq * y1pSq - rySq * x1pSq;
           den = rxSq * y1pSq + rySq * x1pSq;
           num = (if num0 < 0 then 0 else num0);
           sq = sqrt (num / den);
           sign = (if largeArc = sweep then - 1 else 1);
           cxp = sign * sq * (rx * y1p / ry);
           cyp = sign * sq * - (ry * x1p / rx);
           ccx = cosPhi * cxp - sinPhi * cyp + (px1 + px2) / 2;
           ccy = sinPhi * cxp + cosPhi * cyp + (py1 + py2) / 2;
           theta1 = angleBetween 1 0 ((x1p - cxp) / rx) ((y1p - cyp) / ry);
           dtheta0 = angleBetween ((x1p - cxp) / rx) ((y1p - cyp) / ry)
                       ((- x1p - cxp) / rx) ((- y1p - cyp) / ry);
           dtheta1 = (if sweep = 0 \<and> dtheta0 > 0 then dtheta0 - 2 * pi else dtheta0);
           dtheta = (if sweep = 1 \<and> dtheta1 < 0 then dtheta1 + 2 * pi else dtheta1);
           segCount = nat \<lceil>\<bar>dtheta\<bar> / (pi / 2)\<rceil>;
           segAngle = dtheta / real segCount
       in map (\<lambda>i. arcSegmentToCubic ccx ccy rx ry phi
                     (theta1 + real i * segAngle) (theta1 + (real i + 1) * segAngle))
            [0 ..< segCount])"

text \<open>The variables of \<open>normalizeToCubic\<close> that its loop updates.\<close>

record normalize_vars =
  curX :: real
  curY :: real
  startX :: real
  startY :: real
  lastCx :: real
  lastCy :: real
  lastQx :: real
  lastQy :: real
  lastType :: CommandType
  segments :: "CubicSegment list"
  pathStartX :: real
  pathStartY :: real

text \<open>
  The body of the loop: the \<open>switch\<close> on \<open>cmd.type\<close>, then \<open>lastType = cmd.type\<close>.
  \<open>p\<close> is read at the indices of the command's arity.
\<close>

definition normalize_step :: "normalize_vars \<Rightarrow> PathCommand \<Rightarrow> normalize_vars" where
  "normalize_step v cmd =
    (let p = params cmd; ty = PathCommand.type' cmd;
         v' =
          (if ty = CHR ''M'' then
             v\<lparr>curX := p ! 0, curY := p ! 1, startX := p ! 0, startY := p ! 1,
               pathStartX := p ! 0, pathStartY := p ! 1\<rparr>
           else if ty = CHR ''L'' then
             v\<lparr>segments := segments v @ [lineToCubic (curX v) (curY v) (p ! 0) (p ! 1)],
               curX := p ! 0, curY := p ! 1\<rparr>
           else if ty = CHR ''H'' then
             v\<lparr>segments := segments v @ [lineToCubic (curX v) (curY v) (p ! 0) (curY v)],
               curX := p ! 0\<rparr>
           else if ty = CHR ''V'' then
             v\<lparr>segments := segments v @ [lineToCubic (curX v) (curY v) (curX v) (p ! 0)],
               curY := p ! 0\<rparr>
           else if ty = CHR ''C'' then
             v\<lparr>segments := segments v
                 @ [\<lparr>cx1 = p ! 0, cy1 = p ! 1, cx2 = p ! 2, cy2 = p ! 3, x = p ! 4, y = p ! 5\<rparr>],
               lastCx := p ! 2, lastCy := p ! 3, curX := p ! 4, curY := p ! 5\<rparr>
           else if ty = CHR ''S'' then
             (let rcx = (if lastType v = CHR ''C'' \<or> lastType v = CHR ''S''
                         then 2 * curX v - lastCx v else curX v);
                  rcy = (if lastType v = CHR ''C'' \<or> lastType v = CHR ''S''
                         then 2 * curY v - lastCy v else curY v)
              in v\<lparr>segments := segments v
                     @ [\<lparr>cx1 = rcx, cy1 = rcy, cx2 = p ! 0, cy2 = p ! 1, x = p ! 2, y = p ! 3\<rparr>],
                   lastCx := p ! 0, lastCy := p ! 1, curX := p ! 2, curY := p ! 3\<rparr>)
           else if ty = CHR ''Q'' then
             v\<lparr>segments := segments v
                 @ [quadToCubic (curX v) (curY v) (p ! 0) (p ! 1) (p ! 2) (p ! 3)],
               lastQx := p ! 0, lastQy := p ! 1, curX := p ! 2, curY := p ! 3\<rparr>
           else if ty = CHR ''T'' then
             (let rqx = (if lastType v = CHR ''Q'' \<or> lastType v = CHR ''T''
                         then 2 * curX v - lastQx v else curX v);
                  rqy = (if lastType v = CHR ''Q'' \<or> lastType v = CHR ''T''
                         then 2 * curY v - lastQy v else curY v)
              in v\<lparr>segments := segments v
                     @ [quadToCubic (curX v) (curY v) rqx rqy (p ! 0) (p ! 1)],
                   lastQx := rqx, lastQy := rqy, curX := p ! 0, curY := p ! 1\<rparr>)
           else if ty = CHR ''A'' then
             v\<lparr>segments := segments v
                 @ arcToCubics (curX v) (curY v) (p ! 0) (p ! 1) (p ! 2) (p ! 3) (p ! 4)
                     (p ! 5) (p ! 6),
               curX := p ! 5, curY := p ! 6\<rparr>
           else if ty = CHR ''Z'' then
             (if curX v \<noteq> startX v \<or> curY v \<noteq> startY v
              then v\<lparr>segments := segments v
                       @ [lineToCubic (curX v) (curY v) (startX v) (startY v)],
                     curX := startX v, curY := startY v\<rparr>
              else v\<lparr>curX := startX v, curY := startY v\<rparr>)
           else v)
     in v'\<lparr>lastType := ty\<rparr>)"

definition normalizeToCubic :: "PathCommand list \<Rightarrow> NormalizedPath" where
  "normalizeToCubic cmds =
    (let v = foldl normalize_step
               \<lparr>curX = 0, curY = 0, startX = 0, startY = 0, lastCx = 0, lastCy = 0,
                lastQx = 0, lastQy = 0, lastType = CHR ''M'', segments = [],
                pathStartX = 0, pathStartY = 0\<rparr> cmds
     in \<lparr>NormalizedPath.startX = pathStartX v,
         NormalizedPath.startY = pathStartY v,
         NormalizedPath.segments = segments v,
         closed' = (length cmds > 0 \<and> PathCommand.type' (last cmds) = CHR ''Z'')\<rparr>)"

subsection \<open>Balancing\<close>

text \<open>\<open>Math.hypot\<close> of two arguments.\<close>

definition hypot :: "real \<Rightarrow> real \<Rightarrow> real" where
  "hypot a b = sqrt (a * a + b * b)"

definition segmentLength :: "real \<Rightarrow> real \<Rightarrow> CubicSegment \<Rightarrow> real" where
  "segmentLength sx sy s =
    (let chord = hypot (x s - sx) (y s - sy);
         controlNet = hypot (cx1 s - sx) (cy1 s - sy)
           + hypot (cx2 s - cx1 s) (cy2 s - cy1 s)
           + hypot (x s - cx2 s) (y s - cy2 s)
     in (chord + controlNet) / 2)"

definition splitCubicAt ::
  "real \<Rightarrow> real \<Rightarrow> CubicSegment \<Rightarrow> real \<Rightarrow> CubicSegment \<times> CubicSegment" where
  "splitCubicAt x0 y0 seg t =
    (let ax = lerp x0 (cx1 seg) t;
         ay = lerp y0 (cy1 seg) t;
         bx = lerp (cx1 seg) (cx2 seg) t;
         by = lerp (cy1 seg) (cy2 seg) t;
         ccx = lerp (cx2 seg) (x seg) t;
         ccy = lerp (cy2 seg) (y seg) t;
         dx = lerp ax bx t;
         dy = lerp ay by t;
         ex = lerp bx ccx t;
         ey = lerp by ccy t;
         fx = lerp dx ex t;
         fy = lerp dy ey t
     in (\<lparr>cx1 = ax, cy1 = ay, cx2 = dx, cy2 = dy, x = fx, y = fy\<rparr>,
         \<lparr>cx1 = ex, cy1 = ey, cx2 = ccx, cy2 = ccy, x = x seg, y = y seg\<rparr>))"

text \<open>
  The first loop of \<open>subdivideAtLongest\<close>, from index \<open>i\<close> on: it carries the index and
  the length of the longest segment so far and the end point of the previous segment.
\<close>

fun longest_loop ::
  "CubicSegment list \<Rightarrow> nat \<Rightarrow> nat \<Rightarrow> real \<Rightarrow> real \<Rightarrow> real \<Rightarrow> nat" where
  "longest_loop [] i longestIdx longestLen prevX prevY = longestIdx"
| "longest_loop (s # ss) i longestIdx longestLen prevX prevY =
    (let len = segmentLength prevX prevY s in
     if len > longestLen then longest_loop ss (i + 1) i len (x s) (y s)
     else longest_loop ss (i + 1) longestIdx longestLen (x s) (y s))"

text \<open>
  The second loop: the start point of segment \<open>longestIdx\<close> is the end point of the
  segment before it, or the start of the path.
\<close>

definition segment_start :: "CubicSegment list \<Rightarrow> nat \<Rightarrow> real \<Rightarrow> real \<Rightarrow> real \<times> real" where
  "segment_start segs longestIdx sx sy =
    (if longestIdx = 0 then (sx, sy)
     else (x (segs ! (longestIdx - 1)), y (segs ! (longestIdx - 1))))"

text \<open>\<open>result.splice(longestIdx, 1, first, second)\<close> on a copy of the segments.\<close>

definition subdivideAtLongest ::
  "CubicSegment list \<Rightarrow> real \<Rightarrow> real \<Rightarrow> CubicSegment list" where
  "subdivideAtLongest segs sx0 sy0 =
    (if length segs = 0 then segs
     else
       let longestIdx = longest_loop segs 0 0 0 sx0 sy0;
           start' = segment_start segs longestIdx sx0 sy0;
           seg = segs ! longestIdx;
           halves = splitCubicAt (fst start') (snd start') seg 0.5
       in take longestIdx segs @ [fst halves, snd halves] @ drop (longestIdx + 1) segs)"

text \<open>
  The two loops of \<open>balanceCommands\<close>, \<open>while (segsA.length < segsB.length) segsA =
  subdivideAtLongest(segsA, ...)\<close>.  Nothing bounds their iterations, so each is a
  partial function: \<^term>\<open>None\<close> is a loop that does not end.
\<close>

partial_function (option) subdivide_until ::
  "CubicSegment list \<Rightarrow> nat \<Rightarrow> real \<Rightarrow> real \<Rightarrow> CubicSegment list option" where
  "subdivide_until segs n sx sy =
    (if length segs < n then subdivide_until (subdivideAtLongest segs sx sy) n sx sy
     else Some segs)"

definition balanceCommands ::
  "NormalizedPath \<Rightarrow> NormalizedPath \<Rightarrow> (NormalizedPath \<times> NormalizedPath) option" where
  "balanceCommands a b =
    (case subdivide_until (NormalizedPath.segments a) (length (NormalizedPath.segments b))
            (NormalizedPath.startX a) (NormalizedPath.startY a) of
       None \<Rightarrow> None
     | Some segsA \<Rightarrow>
         (case subdivide_until (NormalizedPath.segments b) (length segsA)
                 (NormalizedPath.startX b) (NormalizedPath.startY b) of
            None \<Rightarrow> None
          | Some segsB \<Rightarrow>
              Some (a\<lparr>NormalizedPath.segments := segsA\<rparr>,
                    b\<lparr>NormalizedPath.segments := segsB\<rparr>)))"

subsection \<open>Blending\<close>

text \<open>
  \<open>round(n)\<close> is \<open>(Math.round(n * 1000) / 1000).toString()\<close>; \<open>Math.round\<close> rounds to
  the nearest integer, a half upwards.
\<close>

definition round' :: "Host \<Rightarrow> real \<Rightarrow> string" where
  "round' h n = numberToString h (of_int \<lfloor>n * 1000 + 1 / 2\<rfloor> / 1000)"

definition lerp_segment :: "Host \<Rightarrow> real \<Rightarrow> CubicSegment \<times> CubicSegment \<Rightarrow> string" where
  "lerp_segment h t ab =
    (let a = fst ab; b = snd ab in
     '' C'' @ round' h (lerp (cx1 a) (cx1 b) t) @ '','' @ round' h (lerp (cy1 a) (cy1 b) t)
     @ '' '' @ round' h (lerp (cx2 a) (cx2 b) t) @ '','' @ round' h (lerp (cy2 a) (cy2 b) t)
     @ '' '' @ round' h (lerp (x a) (x b) t) @ '','' @ round' h (lerp (y a) (y b) t))"

text \<open>
  \<open>lerpPath(pathA, pathB, t)\<close>.  After balancing the two segment lists have the same
  length, so the loop over the indices of \<open>normA.segments\<close> is a loop over the pairs.
\<close>

definition lerpPath :: "Host \<Rightarrow> string \<Rightarrow> string \<Rightarrow> real \<Rightarrow> string option" where
  "lerpPath h pathA pathB t =
    (if t \<le> 0 then Some pathA
     else if t \<ge> 1 then Some pathB
     else
       (case balanceCommands (normalizeToCubic (parsePathD h pathA))
                             (normalizeToCubic (parsePathD h pathB)) of
          None \<Rightarrow> None
        | Some (normA, normB) \<Rightarrow>
            let sx = lerp (NormalizedPath.startX normA) (NormalizedPath.startX normB) t;
                sy = lerp (NormalizedPath.startY normA) (NormalizedPath.startY normB) t;
                d0 = ''M'' @ round' h sx @ '','' @ round' h sy;
                d1 = d0 @ concat (map (lerp_segment h t)
                       (zip (NormalizedPath.segments normA) (NormalizedPath.segments normB)))
            in Some (if closed' normA \<and> closed' normB then d1 @ '' Z'' else d1)))"

section \<open>timeline/interpolate.ts: brackets and numeric channels\<close>

definition lerpPoint :: "Point \<Rightarrow> Point \<Rightarrow> real \<Rightarrow> Point" where
  "lerpPoint a b t =
    \<lparr>Point.x = lerp (Point.x a) (Point.x b) t, Point.y = lerp (Point.y a) (Point.y b) t\<rparr>"

definition lerpScale :: "Scale \<Rightarrow> Scale \<Rightarrow> real \<Rightarrow> Scale" where
  "lerpScale a b t =
    (let ax = (case a of ScaleNumber v \<Rightarrow> v | ScalePoint p \<Rightarrow> Point.x p);
         ay = (case a of ScaleNumber v \<Rightarrow> v | ScalePoint p \<Rightarrow> Point.y p);
         bx = (case b of ScaleNumber v \<Rightarrow> v | ScalePoint p \<Rightarrow> Point.x p);
         by = (case b of ScaleNumber v \<Rightarrow> v | ScalePoint p \<Rightarrow> Point.y p);
         rx = lerp ax bx t;
         ry = lerp ay by t
     in if \<bar>rx - ry\<bar> < 0.0001 then ScaleNumber rx
        else ScalePoint \<lparr>Point.x = rx, Point.y = ry\<rparr>)"

text \<open>
  \<open>_findBracket\<close>: the loop over the keyframes carries \<open>prev\<close>; \<open>continue\<close> skips a
  keyframe without the property and \<open>break\<close> ends the loop at the first keyframe after
  \<open>timeMs\<close> that has it.
\<close>

fun findBracket_loop ::
  "Keyframe list \<Rightarrow> real \<Rightarrow> (Keyframe \<Rightarrow> bool) \<Rightarrow> Keyframe option
    \<Rightarrow> Keyframe option \<times> Keyframe option" where
  "findBracket_loop [] timeMs has prev = (prev, None)"
| "findBracket_loop (kf # kfs) timeMs has prev =
    (if \<not> has kf then findBracket_loop kfs timeMs has prev
     else if at' kf \<le> timeMs then findBracket_loop kfs timeMs has (Some kf)
     else (prev, Some kf))"

definition findBracket ::
  "Keyframe list \<Rightarrow> real \<Rightarrow> (Keyframe \<Rightarrow> bool) \<Rightarrow> Keyframe option \<times> Keyframe option" where
  "findBracket kfs timeMs has = findBracket_loop kfs timeMs has None"

text \<open>\<open>_easedT\<close>: the easing comes from the target keyframe.\<close>

definition easedT ::
  "(string \<rightharpoonup> EasingFunction) \<Rightarrow> Keyframe \<Rightarrow> Keyframe \<Rightarrow> real \<Rightarrow> real option" where
  "easedT reg prev next timeMs =
    (let dur = at' next - at' prev;
         raw = (if dur > 0 then (timeMs - at' prev) / dur else 0)
     in case getEasingFunction reg (curve next) of
          None \<Rightarrow> None
        | Some f \<Rightarrow> f raw)"

text \<open>
  The channel helpers.  \<open>get(p)!\<close> is \<open>get(p)\<close>: the bracket holds only keyframes that
  define the property, so the value is there (\<open>findBracket_has\<close> below).
\<close>

definition interpNum ::
  "(string \<rightharpoonup> EasingFunction) \<Rightarrow> Keyframe list \<Rightarrow> real \<Rightarrow> (Keyframe \<Rightarrow> real option)
    \<Rightarrow> real \<Rightarrow> real option" where
  "interpNum reg kfs t get def =
    (case findBracket kfs t (\<lambda>kf. get kf \<noteq> None) of
       (None, None) \<Rightarrow> Some def
     | (None, Some n) \<Rightarrow> Some (case get n of None \<Rightarrow> def | Some v \<Rightarrow> v)
     | (Some p, None) \<Rightarrow> Some (the (get p))
     | (Some p, Some n) \<Rightarrow> map_option (lerp (the (get p)) (the (get n))) (easedT reg p n t))"

definition interpOptNum ::
  "(string \<rightharpoonup> EasingFunction) \<Rightarrow> Keyframe list \<Rightarrow> real \<Rightarrow> (Keyframe \<Rightarrow> real option)
    \<Rightarrow> real option option" where
  "interpOptNum reg kfs t get =
    (case findBracket kfs t (\<lambda>kf. get kf \<noteq> None) of
       (None, None) \<Rightarrow> Some None
     | (None, Some n) \<Rightarrow> Some (get n)
     | (Some p, None) \<Rightarrow> Some (get p)
     | (Some p, Some n) \<Rightarrow>
         map_option (\<lambda>e. Some (lerp (the (get p)) (the (get n)) e)) (easedT reg p n t))"

definition interpPoint ::
  "(string \<rightharpoonup> EasingFunction) \<Rightarrow> Keyframe list \<Rightarrow> real \<Rightarrow> (Keyframe \<Rightarrow> Point option)
    \<Rightarrow> Point \<Rightarrow> Point option" where
  "interpPoint reg kfs t get def =
    (case findBracket kfs t (\<lambda>kf. get kf \<noteq> None) of
       (None, None) \<Rightarrow> Some def
     | (None, Some n) \<Rightarrow> Some (case get n of None \<Rightarrow> def | Some v \<Rightarrow> v)
     | (Some p, None) \<Rightarrow> Some (the (get p))
     | (Some p, Some n) \<Rightarrow>
         map_option (lerpPoint (the (get p)) (the (get n))) (easedT reg p n t))"

definition interpScale ::
  "(string \<rightharpoonup> EasingFunction) \<Rightarrow> Keyframe list \<Rightarrow> real \<Rightarrow> Scale option" where
  "interpScale reg kfs t =
    (case findBracket kfs t (\<lambda>kf. scale kf \<noteq> None) of
       (None, None) \<Rightarrow> Some (ScaleNumber 1)
     | (None, Some n) \<Rightarrow> Some (the (scale n))
     | (Some p, None) \<Rightarrow> Some (the (scale p))
     | (Some p, Some n) \<Rightarrow>
         map_option (lerpScale (the (scale p)) (the (scale n))) (easedT reg p n t))"

text \<open>\<open>_interpSnap\<close> takes no easing and always returns.\<close>

definition interpSnap ::
  "Keyframe list \<Rightarrow> real \<Rightarrow> (Keyframe \<Rightarrow> 'a option) \<Rightarrow> 'a option" where
  "interpSnap kfs t get =
    (case findBracket kfs t (\<lambda>kf. get kf \<noteq> None) of
       (None, None) \<Rightarrow> None
     | (None, Some n) \<Rightarrow> get n
     | (Some p, _) \<Rightarrow> get p)"

subsection \<open>The bracket in the words of the specification\<close>

text \<open>
  \<open>prev\<close> is the last keyframe at or before the query time that defines the property,
  \<open>next\<close> the first keyframe strictly after it that defines the property.
\<close>

definition spec_prev :: "Keyframe list \<Rightarrow> real \<Rightarrow> (Keyframe \<Rightarrow> bool) \<Rightarrow> Keyframe option" where
  "spec_prev kfs t has =
    (case filter (\<lambda>kf. has kf \<and> at' kf \<le> t) kfs of
       [] \<Rightarrow> None
     | k # ks \<Rightarrow> Some (last (k # ks)))"

definition spec_next :: "Keyframe list \<Rightarrow> real \<Rightarrow> (Keyframe \<Rightarrow> bool) \<Rightarrow> Keyframe option" where
  "spec_next kfs t has =
    (case filter (\<lambda>kf. has kf \<and> t < at' kf) kfs of
       [] \<Rightarrow> None
     | k # ks \<Rightarrow> Some k)"

section \<open>timeline/interpolate.ts: colours and gradients\<close>

record GradientStop =
  offset :: real
  color :: string
  opacity :: "real option"

datatype GradientUnits = userSpaceOnUse | objectBoundingBox

record LinearGradientDef =
  id' :: string
  x1 :: real
  y1 :: real
  x2 :: real
  y2 :: real
  stops :: "GradientStop list"
  gradientUnits :: "GradientUnits option"
  gradientTransform :: "string option"

record RadialGradientDef =
  id' :: string
  cx :: real
  cy :: real
  r :: real
  fx :: "real option"
  fy :: "real option"
  stops :: "GradientStop list"
  gradientUnits :: "GradientUnits option"
  gradientTransform :: "string option"

text \<open>\<open>GradientDef = LinearGradientDef | RadialGradientDef\<close>, by the tag \<open>type\<close>.\<close>

datatype GradientDef = LinearGradient LinearGradientDef | RadialGradient RadialGradientDef

text \<open>The fields that both variants have: \<open>g.id\<close>, \<open>g.stops\<close>, \<open>g.gradientUnits\<close>.\<close>

fun gradient_id :: "GradientDef \<Rightarrow> string" where
  "gradient_id (LinearGradient g) = LinearGradientDef.id' g"
| "gradient_id (RadialGradient g) = RadialGradientDef.id' g"

fun gradient_stops :: "GradientDef \<Rightarrow> GradientStop list" where
  "gradient_stops (LinearGradient g) = LinearGradientDef.stops g"
| "gradient_stops (RadialGradient g) = RadialGradientDef.stops g"

fun gradient_units :: "GradientDef \<Rightarrow> GradientUnits option" where
  "gradient_units (LinearGradient g) = LinearGradientDef.gradientUnits g"
| "gradient_units (RadialGradient g) = RadialGradientDef.gradientUnits g"

text \<open>\<open>{ ...g, id, stops }\<close>\<close>

fun with_id_stops :: "GradientDef \<Rightarrow> string \<Rightarrow> GradientStop list \<Rightarrow> GradientDef" where
  "with_id_stops (LinearGradient g) i ss =
    LinearGradient (g\<lparr>LinearGradientDef.id' := i, LinearGradientDef.stops := ss\<rparr>)"
| "with_id_stops (RadialGradient g) i ss =
    RadialGradient (g\<lparr>RadialGradientDef.id' := i, RadialGradientDef.stops := ss\<rparr>)"

subsection \<open>Hexadecimal colours\<close>

text \<open>\<open>hex.replace(/^#/, '')\<close>\<close>

definition strip_hash :: "string \<Rightarrow> string" where
  "strip_hash hex = (case hex of c # cs \<Rightarrow> if c = CHR ''#'' then cs else hex | [] \<Rightarrow> [])"

definition parseHexToRgb ::
  "Host \<Rightarrow> string \<Rightarrow> (real option \<times> real option \<times> real option) option" where
  "parseHexToRgb h hex =
    (let s = strip_hash hex in
     if length s = 3 then
       Some (parseInt16 h [s ! 0, s ! 0], parseInt16 h [s ! 1, s ! 1], parseInt16 h [s ! 2, s ! 2])
     else if length s = 6 then
       Some (parseInt16 h (take 2 s), parseInt16 h (take 2 (drop 2 s)),
             parseInt16 h (take 2 (drop 4 s)))
     else None)"

text \<open>
  The channel of a blend, \<open>rgbA[i] + (rgbB[i] - rgbA[i]) * t\<close>: it is \<open>NaN\<close> when one of
  the parsed channels is.
\<close>

definition blend_channel :: "real option \<Rightarrow> real option \<Rightarrow> real \<Rightarrow> real option" where
  "blend_channel a b t =
    (case (a, b) of (Some va, Some vb) \<Rightarrow> Some (va + (vb - va) * t) | _ \<Rightarrow> None)"

text \<open>
  \<open>clamp\<close> rounds (\<open>Math.round\<close>, a half upwards) and clips to \<open>0..255\<close>; \<open>hex\<close> prints
  the result in base 16 with lower-case digits, padded to two.  \<open>Math.round\<close>,
  \<open>Math.min\<close> and \<open>Math.max\<close> keep a \<open>NaN\<close>, which \<open>toString(16)\<close> prints as \<open>NaN\<close>;
  \<open>padStart(2, '0')\<close> adds nothing to these three letters.
\<close>

definition clamp :: "real option \<Rightarrow> int option" where
  "clamp v = map_option (\<lambda>u. max 0 (min 255 \<lfloor>u + 1 / 2\<rfloor>)) v"

definition hex :: "real option \<Rightarrow> string" where
  "hex v =
    (case clamp v of
       None \<Rightarrow> ''NaN''
     | Some k \<Rightarrow> [''0123456789abcdef'' ! nat (k div 16), ''0123456789abcdef'' ! nat (k mod 16)])"

definition rgbToHex :: "real option \<Rightarrow> real option \<Rightarrow> real option \<Rightarrow> string" where
  "rgbToHex rr gg bb = ''#'' @ hex rr @ hex gg @ hex bb"

text \<open>\<open>!s\<close> for \<open>s: string | undefined\<close>: undefined or empty.\<close>

definition falsy :: "string option \<Rightarrow> bool" where
  "falsy s = (s = None \<or> s = Some [])"

definition lerpColor :: "Host \<Rightarrow> string option \<Rightarrow> string option \<Rightarrow> real \<Rightarrow> string option" where
  "lerpColor h a b t =
    (if falsy a \<and> falsy b then None
     else if falsy a then b
     else if falsy b then a
     else if a = b then a
     else
       (case (parseHexToRgb h (the a), parseHexToRgb h (the b)) of
          (Some (ar, ag, ab), Some (br, bg, bb)) \<Rightarrow>
            Some (rgbToHex (blend_channel ar br t) (blend_channel ag bg t) (blend_channel ab bb t))
        | _ \<Rightarrow> if t < 0.5 then a else b))"

subsection \<open>Gradient stops\<close>

text \<open>
  The search of \<open>normalizeStops\<close> for the stops around an offset: the first adjacent
  pair \<open>stops[j], stops[j + 1]\<close> that encloses it.
\<close>

fun surrounding_stops :: "GradientStop list \<Rightarrow> real \<Rightarrow> (GradientStop \<times> GradientStop) option" where
  "surrounding_stops (s0 # s1 # rest) targetOffset =
    (if offset s0 \<le> targetOffset \<and> offset s1 \<ge> targetOffset then Some (s0, s1)
     else surrounding_stops (s1 # rest) targetOffset)"
| "surrounding_stops _ targetOffset = None"

definition blend_color :: "Host \<Rightarrow> string \<Rightarrow> string \<Rightarrow> real \<Rightarrow> string" where
  "blend_color h ca cb t =
    (case (parseHexToRgb h ca, parseHexToRgb h cb) of
       (Some (ar, ag, ab), Some (br, bg, bb)) \<Rightarrow>
         rgbToHex (blend_channel ar br t) (blend_channel ag bg t) (blend_channel ab bb t)
     | _ \<Rightarrow> if t < 0.5 then ca else cb)"

definition blend_opacity :: "real option \<Rightarrow> real option \<Rightarrow> real \<Rightarrow> real option" where
  "blend_opacity oa ob t =
    (if oa \<noteq> None \<or> ob \<noteq> None
     then Some (lerp (case oa of None \<Rightarrow> 1 | Some v \<Rightarrow> v) (case ob of None \<Rightarrow> 1 | Some v \<Rightarrow> v) t)
     else None)"

definition normalizeStops :: "Host \<Rightarrow> GradientStop list \<Rightarrow> nat \<Rightarrow> GradientStop list" where
  "normalizeStops h ss count =
    (if length ss = count then ss
     else if length ss = 0 then
       map (\<lambda>i. \<lparr>offset = (if count > 1 then real i / (real count - 1) else 0),
                  color = ''#000000'', opacity = None\<rparr>) [0 ..< count]
     else
       map (\<lambda>i.
          let targetOffset = (if count > 1 then real i / (real count - 1) else 0);
              lohi = (case surrounding_stops ss targetOffset of
                        Some p \<Rightarrow> p | None \<Rightarrow> (ss ! 0, ss ! (length ss - 1)));
              lo = fst lohi; hi = snd lohi;
              range = offset hi - offset lo;
              localT = (if range > 0 then (targetOffset - offset lo) / range else 0)
          in \<lparr>offset = targetOffset,
              color = blend_color h (color lo) (color hi) localT,
              opacity = blend_opacity (GradientStop.opacity lo) (GradientStop.opacity hi) localT\<rparr>)
         [0 ..< count])"

subsection \<open>\<open>lerpGradientDef\<close>\<close>

text \<open>\<open>Math.atan2(y, x)\<close> on the reals.\<close>

definition atan2 :: "real \<Rightarrow> real \<Rightarrow> real" where
  "atan2 v u =
    (if u > 0 then arctan (v / u)
     else if u < 0 then (if v \<ge> 0 then arctan (v / u) + pi else arctan (v / u) - pi)
     else if v > 0 then pi / 2
     else if v < 0 then - pi / 2
     else 0)"

text \<open>
  The stops of the blend: \<open>stopsA.map((sa, i) => ...)\<close> with \<open>sb = stopsB[i] ?? sa\<close>.
\<close>

definition blend_stops ::
  "Host \<Rightarrow> GradientStop list \<Rightarrow> GradientStop list \<Rightarrow> real \<Rightarrow> GradientStop list" where
  "blend_stops h stopsA stopsB t =
    map (\<lambda>i.
       let sa = stopsA ! i;
           sb = (if i < length stopsB then stopsB ! i else sa)
       in \<lparr>offset = lerp (offset sa) (offset sb) t,
           color = blend_color h (color sa) (color sb) t,
           opacity = blend_opacity (GradientStop.opacity sa) (GradientStop.opacity sb) t\<rparr>)
      [0 ..< length stopsA]"

text \<open>
  The squares under the root of a half-length, \<open>dxA * dxA\<close> and the like, are products
  of doubles.  A product whose magnitude is at most \<open>1 / 2 ^ 1075\<close>, half of the least
  positive double, is rounded to zero: it underflows.  A direction vector that is not
  zero then gets the half-length zero, which the polar form is there to avoid; so this
  much of the rounding is modelled, here and only here.  (The sum of two squares is
  zero only if both are, and the root of a positive double is positive.)
\<close>

definition underflows :: "real \<Rightarrow> bool" where
  "underflows v = (\<bar>v\<bar> \<le> 1 / 2 ^ 1075)"

definition square :: "real \<Rightarrow> real" where
  "square v = (if underflows (v * v) then 0 else v * v)"

text \<open>
  \<open>lerpGradientDef(a, b, t)\<close>.  The module variable \<open>_gradIdCounter\<close> is an argument and
  a result.
\<close>

definition lerpGradientDef ::
  "Host \<Rightarrow> GradientDef \<Rightarrow> GradientDef \<Rightarrow> real \<Rightarrow> nat \<Rightarrow> GradientDef \<times> nat" where
  "lerpGradientDef h a b t gradIdCounter =
    (let count = max (length (gradient_stops a)) (length (gradient_stops b));
         stopsA = normalizeStops h (gradient_stops a) count;
         stopsB = normalizeStops h (gradient_stops b) count;
         stops' = blend_stops h stopsA stopsB t;
         counter = gradIdCounter + 1;
         ident = ''__interp_'' @ showNat counter @ ''_'' @ dateNow36 h counter
     in case (a, b) of
          (LinearGradient la, LinearGradient lb) \<Rightarrow>
            let cxA = (x1 la + x2 la) / 2; cyA = (y1 la + y2 la) / 2;
                cxB = (x1 lb + x2 lb) / 2; cyB = (y1 lb + y2 lb) / 2;
                dxA = x2 la - x1 la; dyA = y2 la - y1 la;
                dxB = x2 lb - x1 lb; dyB = y2 lb - y1 lb;
                lenA = sqrt (square dxA + square dyA) / 2;
                lenB = sqrt (square dxB + square dyB) / 2;
                angA = atan2 dyA dxA;
                angB = atan2 dyB dxB;
                delta0 = angB - angA;
                delta1 = (if delta0 > pi then delta0 - 2 * pi else delta0);
                delta = (if delta1 < - pi then delta1 + 2 * pi else delta1);
                ang = angA + delta * t;
                ccx = lerp cxA cxB t;
                ccy = lerp cyA cyB t;
                len = lerp lenA lenB t
            in (LinearGradient
                  \<lparr>LinearGradientDef.id' = ident,
                   x1 = ccx - len * cos ang,
                   y1 = ccy - len * sin ang,
                   x2 = ccx + len * cos ang,
                   y2 = ccy + len * sin ang,
                   LinearGradientDef.stops = stops',
                   LinearGradientDef.gradientUnits =
                     (case LinearGradientDef.gradientUnits lb of
                        Some u \<Rightarrow> Some u | None \<Rightarrow> LinearGradientDef.gradientUnits la),
                   LinearGradientDef.gradientTransform = None\<rparr>, counter)
        | (RadialGradient ra, RadialGradient rb) \<Rightarrow>
            (RadialGradient
               \<lparr>RadialGradientDef.id' = ident,
                cx = lerp (cx ra) (cx rb) t,
                cy = lerp (cy ra) (cy rb) t,
                r = lerp (r ra) (r rb) t,
                fx = (if fx ra \<noteq> None \<or> fx rb \<noteq> None
                      then Some (lerp (case fx ra of None \<Rightarrow> cx ra | Some v \<Rightarrow> v)
                                      (case fx rb of None \<Rightarrow> cx rb | Some v \<Rightarrow> v) t)
                      else None),
                fy = (if fy ra \<noteq> None \<or> fy rb \<noteq> None
                      then Some (lerp (case fy ra of None \<Rightarrow> cy ra | Some v \<Rightarrow> v)
                                      (case fy rb of None \<Rightarrow> cy rb | Some v \<Rightarrow> v) t)
                      else None),
                stops = stops',
                gradientUnits =
                  (case RadialGradientDef.gradientUnits rb of
                     Some u \<Rightarrow> Some u | None \<Rightarrow> RadialGradientDef.gradientUnits ra),
                gradientTransform = None\<rparr>, counter)
        | _ \<Rightarrow>
            (if t < 0.5 then (with_id_stops a ident stops', counter)
             else (with_id_stops b ident stops', counter)))"

subsection \<open>Colour or gradient\<close>

record ColorResult =
  color :: "string option"
  gradient :: "GradientDef option"

text \<open>\<open>Array.prototype.find\<close>\<close>

definition resolveGradient :: "Host \<Rightarrow> string \<Rightarrow> GradientDef list \<Rightarrow> GradientDef option" where
  "resolveGradient h ref gradients =
    (case matchUrlId h ref of
       None \<Rightarrow> None
     | Some i \<Rightarrow> if i = [] then None else find (\<lambda>g. gradient_id g = i) gradients)"

definition startsWith_url :: "string \<Rightarrow> bool" where
  "startsWith_url s = (take 4 s = ''url('')"

text \<open>Both object literals of \<open>resolveResult\<close> have the colour and no gradient.\<close>

definition resolveResult :: "Host \<Rightarrow> string \<Rightarrow> GradientDef list \<Rightarrow> ColorResult" where
  "resolveResult h v gradients =
    (if startsWith_url v then
       (case resolveGradient h v gradients of
          Some g \<Rightarrow> \<lparr>color = Some v, gradient = None\<rparr>
        | None \<Rightarrow> \<lparr>color = Some v, gradient = None\<rparr>)
     else \<lparr>color = Some v, gradient = None\<rparr>)"

definition colorToUniformGradient ::
  "Host \<Rightarrow> string \<Rightarrow> GradientDef \<Rightarrow> nat \<Rightarrow> GradientDef \<times> nat" where
  "colorToUniformGradient h c target' gradIdCounter =
    (let stops' = map (\<lambda>s. \<lparr>offset = offset s, GradientStop.color = c,
                             opacity = GradientStop.opacity s\<rparr>) (gradient_stops target');
         counter = gradIdCounter + 1;
         ident = ''__uniform_'' @ showNat counter @ ''_'' @ dateNow36 h counter
     in case target' of
          LinearGradient g \<Rightarrow>
            (LinearGradient
               \<lparr>LinearGradientDef.id' = ident, x1 = x1 g, y1 = y1 g, x2 = x2 g, y2 = y2 g,
                LinearGradientDef.stops = stops',
                LinearGradientDef.gradientUnits = LinearGradientDef.gradientUnits g,
                LinearGradientDef.gradientTransform = None\<rparr>, counter)
        | RadialGradient g \<Rightarrow>
            (RadialGradient
               \<lparr>RadialGradientDef.id' = ident, cx = cx g, cy = cy g, r = r g,
                fx = fx g, fy = fy g, stops = stops',
                gradientUnits = RadialGradientDef.gradientUnits g,
                gradientTransform = None\<rparr>, counter))"

definition lerpColorOrGradient ::
  "Host \<Rightarrow> string option \<Rightarrow> string option \<Rightarrow> real \<Rightarrow> GradientDef list \<Rightarrow> nat
    \<Rightarrow> ColorResult \<times> nat" where
  "lerpColorOrGradient h a b t gradients gradIdCounter =
    (if falsy a \<and> falsy b then (\<lparr>color = None, gradient = None\<rparr>, gradIdCounter)
     else if falsy a then (resolveResult h (the b) gradients, gradIdCounter)
     else if falsy b then (resolveResult h (the a) gradients, gradIdCounter)
     else if a = b then (resolveResult h (the a) gradients, gradIdCounter)
     else
       let sa = the a; sb = the b;
           aIsGrad = startsWith_url sa;
           bIsGrad = startsWith_url sb
       in if \<not> aIsGrad \<and> \<not> bIsGrad then
            (\<lparr>color = lerpColor h a b t, gradient = None\<rparr>, gradIdCounter)
          else if aIsGrad \<and> bIsGrad then
            (case (resolveGradient h sa gradients, resolveGradient h sb gradients) of
               (Some gradA, Some gradB) \<Rightarrow>
                 let blended = lerpGradientDef h gradA gradB t gradIdCounter
                 in (\<lparr>color = Some (''url(#'' @ gradient_id (fst blended) @ '')''),
                      gradient = Some (fst blended)\<rparr>, snd blended)
             | _ \<Rightarrow> (\<lparr>color = Some (if t < 0.5 then sa else sb), gradient = None\<rparr>, gradIdCounter))
          else
            let colorVal = (if aIsGrad then sb else sa);
                gradRef = (if aIsGrad then sa else sb)
            in case resolveGradient h gradRef gradients of
                 Some gradDef \<Rightarrow>
                   let uniform = colorToUniformGradient h colorVal gradDef gradIdCounter;
                       blended =
                         (if aIsGrad then lerpGradientDef h gradDef (fst uniform) t (snd uniform)
                          else lerpGradientDef h (fst uniform) gradDef t (snd uniform))
                   in (\<lparr>color = Some (''url(#'' @ gradient_id (fst blended) @ '')''),
                        gradient = Some (fst blended)\<rparr>, snd blended)
               | None \<Rightarrow>
                   (\<lparr>color = Some (if t < 0.5 then sa else sb), gradient = None\<rparr>, gradIdCounter))"

definition interpColor ::
  "(string \<rightharpoonup> EasingFunction) \<Rightarrow> Host \<Rightarrow> Keyframe list \<Rightarrow> real
    \<Rightarrow> (Keyframe \<Rightarrow> string option) \<Rightarrow> GradientDef list \<Rightarrow> nat
    \<Rightarrow> (ColorResult \<times> nat) option" where
  "interpColor reg h kfs t get gradients gradIdCounter =
    (case findBracket kfs t (\<lambda>kf. get kf \<noteq> None) of
       (None, None) \<Rightarrow> Some (\<lparr>color = None, gradient = None\<rparr>, gradIdCounter)
     | (None, Some n) \<Rightarrow> Some (resolveResult h (the (get n)) gradients, gradIdCounter)
     | (Some p, None) \<Rightarrow> Some (resolveResult h (the (get p)) gradients, gradIdCounter)
     | (Some p, Some n) \<Rightarrow>
         map_option (\<lambda>e. lerpColorOrGradient h (get p) (get n) e gradients gradIdCounter)
           (easedT reg p n t))"

definition interpPath ::
  "(string \<rightharpoonup> EasingFunction) \<Rightarrow> Host \<Rightarrow> Keyframe list \<Rightarrow> real \<Rightarrow> string option option" where
  "interpPath reg h kfs t =
    (case findBracket kfs t (\<lambda>kf. pathD kf \<noteq> None) of
       (None, None) \<Rightarrow> Some None
     | (None, Some n) \<Rightarrow> Some (pathD n)
     | (Some p, None) \<Rightarrow> Some (pathD p)
     | (Some p, Some n) \<Rightarrow>
         (case easedT reg p n t of
            None \<Rightarrow> None
          | Some e \<Rightarrow> map_option Some (lerpPath h (the (pathD p)) (the (pathD n)) e)))"

section \<open>core/PluginSystem.ts\<close>

text \<open>
  The two hooks that the interpolation runs, and the list \<open>_plugins\<close> of the manager.
  To make a call of a hook observable, \<open>run\<close> records the plugin and the hook it calls.
\<close>

record ActorState =
  position :: Point
  scale :: Scale
  rotation :: real
  opacity :: real
  fill :: "string option"
  stroke :: "string option"
  strokeWidth :: "real option"
  strokeAlign :: "StrokeAlign option"
  blurRadius :: "real option"
  backdropBlur :: "real option"
  width :: "real option"
  height :: "real option"
  fillGradient :: "GradientDef option"
  strokeGradient :: "GradientDef option"
  pathD :: "string option"

record MotionSvgHooks =
  beforeInterpolate :: "(Keyframe list \<Rightarrow> real \<Rightarrow> Keyframe list) option"
  afterInterpolate :: "(ActorState \<Rightarrow> string \<Rightarrow> real \<Rightarrow> ActorState) option"

record MotionSvgPlugin =
  name :: string
  version :: string
  hooks :: MotionSvgHooks

text \<open>
  What a call of \<open>interpolateKeyframes\<close> reads and writes besides its arguments: the
  counter \<open>_gradIdCounter\<close>, and the calls of hooks made so far (plugin and hook).
\<close>

record Effects =
  gradIdCounter :: nat
  hookCalls :: "(string \<times> string) list"

definition has_beforeInterpolate :: "MotionSvgPlugin list \<Rightarrow> bool" where
  "has_beforeInterpolate ps = list_ex (\<lambda>p. beforeInterpolate (hooks p) \<noteq> None) ps"

definition has_afterInterpolate :: "MotionSvgPlugin list \<Rightarrow> bool" where
  "has_afterInterpolate ps = list_ex (\<lambda>p. afterInterpolate (hooks p) \<noteq> None) ps"

definition run_beforeInterpolate ::
  "MotionSvgPlugin list \<Rightarrow> Keyframe list \<Rightarrow> real \<Rightarrow> Effects \<Rightarrow> Keyframe list \<times> Effects" where
  "run_beforeInterpolate ps kfs timeMs w =
    foldl (\<lambda>(result, w') p.
        case beforeInterpolate (hooks p) of
          None \<Rightarrow> (result, w')
        | Some hook \<Rightarrow>
            (hook result timeMs,
             w'\<lparr>hookCalls := hookCalls w' @ [(name p, ''beforeInterpolate'')]\<rparr>))
      (kfs, w) ps"

definition run_afterInterpolate ::
  "MotionSvgPlugin list \<Rightarrow> ActorState \<Rightarrow> string \<Rightarrow> real \<Rightarrow> Effects \<Rightarrow> ActorState \<times> Effects" where
  "run_afterInterpolate ps st actor timeMs w =
    foldl (\<lambda>(result, w') p.
        case afterInterpolate (hooks p) of
          None \<Rightarrow> (result, w')
        | Some hook \<Rightarrow>
            (hook result actor timeMs,
             w'\<lparr>hookCalls := hookCalls w' @ [(name p, ''afterInterpolate'')]\<rparr>))
      (st, w) ps"

section \<open>timeline/interpolate.ts: \<open>interpolateKeyframes\<close>\<close>

record InterpolateOptions =
  gradients :: "GradientDef list option"
  actorId :: "string option"

text \<open>
  The state that \<open>interpolateKeyframes\<close> builds from the channels, before the
  \<open>afterInterpolate\<close> hook.  \<^term>\<open>None\<close> when a channel returns no value.
\<close>

definition interpolate_channels ::
  "(string \<rightharpoonup> EasingFunction) \<Rightarrow> Host \<Rightarrow> Keyframe list \<Rightarrow> real \<Rightarrow> GradientDef list
    \<Rightarrow> nat \<Rightarrow> (ActorState \<times> nat) option" where
  "interpolate_channels reg h kfs timeMs gs counter =
    do {
      fillResult \<leftarrow> interpColor reg h kfs timeMs Keyframe.fill gs counter;
      strokeResult \<leftarrow> interpColor reg h kfs timeMs Keyframe.stroke gs (snd fillResult);
      position' \<leftarrow> interpPoint reg kfs timeMs Keyframe.position \<lparr>Point.x = 0, Point.y = 0\<rparr>;
      scale' \<leftarrow> interpScale reg kfs timeMs;
      rotation' \<leftarrow> interpNum reg kfs timeMs Keyframe.rotation 0;
      opacity' \<leftarrow> interpNum reg kfs timeMs Keyframe.opacity 1;
      strokeWidth' \<leftarrow> interpOptNum reg kfs timeMs Keyframe.strokeWidth;
      blurRadius' \<leftarrow> interpOptNum reg kfs timeMs Keyframe.blurRadius;
      backdropBlur' \<leftarrow> interpOptNum reg kfs timeMs Keyframe.backdropBlur;
      width' \<leftarrow> interpOptNum reg kfs timeMs Keyframe.width;
      height' \<leftarrow> interpOptNum reg kfs timeMs Keyframe.height;
      pathD' \<leftarrow> interpPath reg h kfs timeMs;
      Some (\<lparr>position = position',
             scale = scale',
             rotation = rotation',
             opacity = opacity',
             fill = color (fst fillResult),
             stroke = color (fst strokeResult),
             strokeWidth = strokeWidth',
             strokeAlign = interpSnap kfs timeMs Keyframe.strokeAlign,
             blurRadius = blurRadius',
             backdropBlur = backdropBlur',
             width = width',
             height = height',
             fillGradient = gradient (fst fillResult),
             strokeGradient = gradient (fst strokeResult),
             pathD = pathD'\<rparr>, snd strokeResult)
    }"

text \<open>
  \<open>interpolateKeyframes(keyframes, timeMs, opts)\<close>, with the easing table \<open>reg\<close>, the
  registered plugins \<open>ps\<close> and the effects so far.
\<close>

definition interpolateKeyframes ::
  "(string \<rightharpoonup> EasingFunction) \<Rightarrow> Host \<Rightarrow> MotionSvgPlugin list \<Rightarrow> Keyframe list \<Rightarrow> real
    \<Rightarrow> InterpolateOptions option \<Rightarrow> Effects \<Rightarrow> (ActorState \<times> Effects) option" where
  "interpolateKeyframes reg h ps keyframes' timeMs opts w =
    (if length keyframes' = 0 then
       Some (\<lparr>position = \<lparr>Point.x = 0, Point.y = 0\<rparr>, scale = ScaleNumber 1, rotation = 0,
              opacity = 1, fill = None, stroke = None, strokeWidth = None,
              strokeAlign = None, blurRadius = None, backdropBlur = None, width = None,
              height = None, fillGradient = None, strokeGradient = None, pathD = None\<rparr>, w)
     else
       let before = (if has_beforeInterpolate ps
                     then run_beforeInterpolate ps keyframes' timeMs w
                     else (keyframes', w));
           kfs = fst before; w1 = snd before;
           gs = (case opts of
                   None \<Rightarrow> []
                 | Some opt \<Rightarrow> (case gradients opt of None \<Rightarrow> [] | Some l \<Rightarrow> l));
           actor = (case opts of
                      None \<Rightarrow> []
                    | Some opt \<Rightarrow> (case actorId opt of None \<Rightarrow> [] | Some a \<Rightarrow> a))
       in case interpolate_channels reg h kfs timeMs gs (gradIdCounter w1) of
            None \<Rightarrow> None
          | Some (state, counter) \<Rightarrow>
              let w2 = w1\<lparr>gradIdCounter := counter\<rparr>
              in Some (if has_afterInterpolate ps
                       then run_afterInterpolate ps state actor timeMs w2
                       else (state, w2)))"

text \<open>\<open>getActorStateAtTime(tl, timeMs, opts)\<close> passes \<open>{ ...opts, actorId: tl.actorId }\<close>.\<close>

definition getActorStateAtTime ::
  "(string \<rightharpoonup> EasingFunction) \<Rightarrow> Host \<Rightarrow> MotionSvgPlugin list \<Rightarrow> Timeline \<Rightarrow> real
    \<Rightarrow> InterpolateOptions option \<Rightarrow> Effects \<Rightarrow> (ActorState \<times> Effects) option" where
  "getActorStateAtTime reg h ps tml timeMs opts w =
    interpolateKeyframes reg h ps (Timeline.keyframes tml) timeMs
      (Some \<lparr>gradients = (case opts of None \<Rightarrow> None | Some opt \<Rightarrow> gradients opt),
             actorId = Some (Timeline.actorId tml)\<rparr>) w"

section \<open>trigger/playback.ts\<close>

datatype PlaybackState = idle | playing | paused | finished

record PlaybackEvent =
  type' :: string
  currentTime :: real
  progress :: real
  playbackRate :: real
  iteration :: "nat option"

text \<open>
  \<open>PlaybackOptions\<close>.  The callbacks \<open>onUpdate\<close> and \<open>onComplete\<close> are outputs: the
  controller below records their calls.
\<close>

record PlaybackOptions =
  timeline' :: Timeline
  trigger' :: "TriggerBinding option"
  gradients :: "GradientDef list option"
  initialRate :: "real option"

text \<open>
  The variables that the closure of \<open>createPlayback\<close> holds, followed by the side of the
  host and by what the controller has put out.

  \<^item> \<open>frames\<close> are the pending requests of \<open>requestAnimationFrame\<close>, by identifier, and
    \<open>timers\<close> counts the pending loop-delay timeouts;
  \<^item> \<open>events\<close> are the calls of \<open>emit\<close>, oldest first, as a handler subscribed to every
    event type from the start receives them; \<open>updates\<close> are the calls of \<open>onUpdate\<close>
    and \<open>completions\<close> counts the calls of \<open>onComplete\<close>;
  \<^item> \<open>effects\<close> are the effects of the calls of \<open>getActorStateAtTime\<close>.
\<close>

record Controller =
  tl' :: Timeline
  gradients' :: "GradientDef list option"
  loopIterations :: number
  loopDirection :: string
  loopDelay :: real
  state :: PlaybackState
  currentTime :: real
  direction :: int
  playbackRate :: real
  totalDuration :: real
  rafId :: "nat option"
  lastFrameTime :: "real option"
  iterationCount :: nat
  hasStarted :: bool
  nextFrameId :: nat
  frames :: "nat list"
  timers :: nat
  events :: "PlaybackEvent list"
  updates :: "(ActorState \<times> real) list"
  completions :: nat
  effects :: Effects

text \<open>
  \<open>createPlayback(options)\<close>.  \<open>loopConfig\<close> is the configuration of the trigger when
  \<open>triggerType === 'loop' && triggerBinding?.config.type === 'loop'\<close>, the condition of
  the three loop settings.
\<close>

definition createPlayback :: "PlaybackOptions \<Rightarrow> Controller" where
  "createPlayback options =
    (let triggerType = (case trigger' options of
                          None \<Rightarrow> ''manual''
                        | Some tb \<Rightarrow> TriggerConfig.type' (config tb));
         loopConfig = (case trigger' options of
                         None \<Rightarrow> None
                       | Some tb \<Rightarrow>
                           if triggerType = ''loop'' \<and> TriggerConfig.type' (config tb) = ''loop''
                           then Some (config tb) else None)
     in \<lparr>tl' = timeline' options,
         gradients' = PlaybackOptions.gradients options,
         loopIterations =
           (case loopConfig of
              Some cf \<Rightarrow> (case iterations cf of None \<Rightarrow> Infinity | Some n \<Rightarrow> n)
            | None \<Rightarrow> Finite 1),
         loopDirection =
           (case loopConfig of
              Some cf \<Rightarrow> (case TriggerConfig.direction cf of None \<Rightarrow> ''normal'' | Some d \<Rightarrow> d)
            | None \<Rightarrow> ''normal''),
         loopDelay =
           (case loopConfig of
              Some cf \<Rightarrow> (case delay cf of None \<Rightarrow> 0 | Some d \<Rightarrow> d)
            | None \<Rightarrow> 0),
         state = idle,
         currentTime = 0,
         direction = 1,
         playbackRate = (case initialRate options of None \<Rightarrow> 1 | Some v \<Rightarrow> v),
         totalDuration = duration (timeline' options),
         rafId = None,
         lastFrameTime = None,
         iterationCount = 0,
         hasStarted = False,
         nextFrameId = 1,
         frames = [],
         timers = 0,
         events = [],
         updates = [],
         completions = 0,
         effects = \<lparr>gradIdCounter = 0, hookCalls = []\<rparr>\<rparr>)"

text \<open>\<open>emit(type, extra)\<close>; \<open>extra\<close> is the iteration of a \<open>repeat\<close> event, or nothing.\<close>

definition emit :: "string \<Rightarrow> nat option \<Rightarrow> Controller \<Rightarrow> Controller" where
  "emit ty extra c =
    c\<lparr>events := events c @
        [\<lparr>PlaybackEvent.type' = ty,
          PlaybackEvent.currentTime = currentTime c,
          progress = (if totalDuration c > 0 then currentTime c / totalDuration c else 0),
          PlaybackEvent.playbackRate = playbackRate c,
          iteration = extra\<rparr>]\<rparr>"

text \<open>\<open>rafId = requestAnimationFrame(tick)\<close> and \<open>cancelAnimationFrame(rafId)\<close>\<close>

definition requestAnimationFrame :: "Controller \<Rightarrow> Controller" where
  "requestAnimationFrame c =
    c\<lparr>rafId := Some (nextFrameId c), frames := frames c @ [nextFrameId c],
      nextFrameId := nextFrameId c + 1\<rparr>"

definition cancelAnimationFrame :: "Controller \<Rightarrow> Controller" where
  "cancelAnimationFrame c =
    (case rafId c of
       None \<Rightarrow> c
     | Some i \<Rightarrow> c\<lparr>frames := removeAll i (frames c), rafId := None\<rparr>)"

text \<open>
  \<open>emitUpdate(timeMs)\<close> evaluates the timeline and passes the state to \<open>onUpdate\<close>.  It
  returns when the evaluation does.
\<close>

definition emitUpdate ::
  "(string \<rightharpoonup> EasingFunction) \<Rightarrow> Host \<Rightarrow> MotionSvgPlugin list \<Rightarrow> real \<Rightarrow> Controller
    \<Rightarrow> Controller option" where
  "emitUpdate reg h ps timeMs c =
    (case getActorStateAtTime reg h ps (tl' c) timeMs
            (Some \<lparr>InterpolateOptions.gradients = gradients' c, actorId = None\<rparr>) (effects c) of
       None \<Rightarrow> None
     | Some (actorState, w) \<Rightarrow>
         Some (c\<lparr>updates := updates c @ [(actorState, timeMs)], effects := w\<rparr>))"

text \<open>\<open>iterationCount >= loopIterations\<close>\<close>

fun count_reaches :: "nat \<Rightarrow> number \<Rightarrow> bool" where
  "count_reaches k (Finite v) = (real k \<ge> v)"
| "count_reaches k Infinity = False"
| "count_reaches k MinusInfinity = True"

text \<open>
  What \<open>tick\<close> does after \<open>iterationCount++\<close> at the upper bound: finish, or repeat and
  apply the loop direction, and then wait for the loop delay or request the next frame.
\<close>

definition upper_bound_hit :: "Controller \<Rightarrow> Controller" where
  "upper_bound_hit c =
    (if count_reaches (iterationCount c) (loopIterations c) then
       (let k1 = emit ''complete'' None (c\<lparr>state := finished\<rparr>)
        in k1\<lparr>completions := completions k1 + 1\<rparr>)
     else
       let k1 = emit ''repeat'' (Some (iterationCount c)) c;
           k2 = (if loopDirection k1 = ''alternate''
                 then k1\<lparr>direction := - 1, currentTime := totalDuration k1\<rparr>
                 else if loopDirection k1 = ''reverse''
                 then k1\<lparr>currentTime := totalDuration k1, direction := - 1\<rparr>
                 else k1\<lparr>currentTime := 0\<rparr>)
       in if loopDelay k2 > 0 then k2\<lparr>state := paused, timers := timers k2 + 1\<rparr>
          else requestAnimationFrame k2)"

text \<open>The same at the lower bound.\<close>

definition lower_bound_hit :: "Controller \<Rightarrow> Controller" where
  "lower_bound_hit c =
    (if count_reaches (iterationCount c) (loopIterations c) then
       (let k1 = emit ''complete'' None (c\<lparr>state := finished\<rparr>)
        in k1\<lparr>completions := completions k1 + 1\<rparr>)
     else
       let k1 = emit ''repeat'' (Some (iterationCount c)) c;
           k2 = (if loopDirection k1 = ''alternate''
                 then k1\<lparr>direction := 1, currentTime := 0\<rparr>
                 else k1)
       in requestAnimationFrame k2)"

text \<open>\<open>tick(now)\<close>\<close>

definition tick ::
  "(string \<rightharpoonup> EasingFunction) \<Rightarrow> Host \<Rightarrow> MotionSvgPlugin list \<Rightarrow> real \<Rightarrow> Controller
    \<Rightarrow> Controller option" where
  "tick reg h ps now c =
    (if state c \<noteq> playing then Some c
     else
       (case lastFrameTime c of
          None \<Rightarrow> Some (requestAnimationFrame (c\<lparr>lastFrameTime := Some now\<rparr>))
        | Some last' \<Rightarrow>
            let rawDelta = now - last';
                delta = rawDelta * of_int (direction c) * \<bar>playbackRate c\<bar>;
                k1 = c\<lparr>lastFrameTime := Some now, currentTime := currentTime c + delta\<rparr>;
                timeScale = duration (tl' k1) / totalDuration k1
            in if currentTime k1 \<ge> totalDuration k1 then
                 (case emitUpdate reg h ps (duration (tl' k1))
                         (k1\<lparr>currentTime := totalDuration k1\<rparr>) of
                    None \<Rightarrow> None
                  | Some k2 \<Rightarrow>
                      let k3 = emit ''frame'' None k2
                      in Some (upper_bound_hit (k3\<lparr>iterationCount := iterationCount k3 + 1\<rparr>)))
               else if currentTime k1 \<le> 0 then
                 (case emitUpdate reg h ps 0 (k1\<lparr>currentTime := 0\<rparr>) of
                    None \<Rightarrow> None
                  | Some k2 \<Rightarrow>
                      let k3 = emit ''frame'' None k2
                      in Some (lower_bound_hit (k3\<lparr>iterationCount := iterationCount k3 + 1\<rparr>)))
               else
                 (case emitUpdate reg h ps
                         (min (currentTime k1 * timeScale) (duration (tl' k1))) k1 of
                    None \<Rightarrow> None
                  | Some k2 \<Rightarrow> Some (requestAnimationFrame (emit ''frame'' None k2)))))"

text \<open>The callback that \<open>tick\<close> passes to \<open>setTimeout\<close> for the loop delay.\<close>

definition delay_elapsed :: "Controller \<Rightarrow> Controller" where
  "delay_elapsed c =
    (if state c = paused
     then requestAnimationFrame (c\<lparr>state := playing, lastFrameTime := None\<rparr>)
     else c)"

subsection \<open>The methods of the controller\<close>

definition play :: "Controller \<Rightarrow> Controller" where
  "play c =
    (let wasIdle = (state c = idle \<or> state c = finished);
         k1 = (if state c = finished
               then c\<lparr>currentTime := (if direction c = 1 then 0 else totalDuration c),
                      iterationCount := 0\<rparr>
               else c);
         k2 = k1\<lparr>state := playing, direction := 1, lastFrameTime := None\<rparr>;
         k3 = (if \<not> hasStarted k2 \<or> wasIdle
               then emit ''start'' None (k2\<lparr>hasStarted := True\<rparr>)
               else k2)
     in requestAnimationFrame (emit ''play'' None k3))"

definition pause :: "Controller \<Rightarrow> Controller" where
  "pause c =
    emit ''pause'' None ((cancelAnimationFrame (c\<lparr>state := paused\<rparr>))\<lparr>lastFrameTime := None\<rparr>)"

definition stop ::
  "(string \<rightharpoonup> EasingFunction) \<Rightarrow> Host \<Rightarrow> MotionSvgPlugin list \<Rightarrow> Controller
    \<Rightarrow> Controller option" where
  "stop reg h ps c =
    (let k1 = (cancelAnimationFrame
                (c\<lparr>state := idle, currentTime := 0, direction := 1, iterationCount := 0,
                   hasStarted := False\<rparr>))\<lparr>lastFrameTime := None\<rparr>
     in map_option (emit ''stop'' None) (emitUpdate reg h ps 0 k1))"

text \<open>
  \<open>seek(timeMs)\<close>.  With a total duration of 0 the cursor is 0 and \<open>timeScale\<close> is
  \<open>NaN\<close> or infinite, so the time that \<open>emitUpdate\<close> gets is \<open>NaN\<close>: the call has no
  result among the controllers of the model.
\<close>

definition seek ::
  "(string \<rightharpoonup> EasingFunction) \<Rightarrow> Host \<Rightarrow> MotionSvgPlugin list \<Rightarrow> real \<Rightarrow> Controller
    \<Rightarrow> Controller option" where
  "seek reg h ps timeMs c =
    (let k1 = c\<lparr>currentTime := max 0 (min timeMs (totalDuration c))\<rparr>
     in if totalDuration k1 = 0 then None
        else
          let timeScale = duration (tl' k1) / totalDuration k1
          in map_option (emit ''seek'' None)
               (emitUpdate reg h ps (min (currentTime k1 * timeScale) (duration (tl' k1))) k1))"

definition reverse' :: "Controller \<Rightarrow> Controller" where
  "reverse' c =
    (let k1 = c\<lparr>direction := (if direction c = 1 then - 1 else 1)\<rparr>;
         k2 = (if state k1 \<noteq> playing
               then requestAnimationFrame (k1\<lparr>state := playing, lastFrameTime := None\<rparr>)
               else k1)
     in emit ''reverse'' None k2)"

definition get_progress :: "Controller \<Rightarrow> real" where
  "get_progress c = (if totalDuration c > 0 then currentTime c / totalDuration c else 0)"

definition set_playbackRate :: "real \<Rightarrow> Controller \<Rightarrow> Controller" where
  "set_playbackRate rate c = c\<lparr>playbackRate := rate\<rparr>"

definition set_totalDuration :: "real \<Rightarrow> Controller \<Rightarrow> Controller" where
  "set_totalDuration d c =
    (let progress' = (if totalDuration c > 0 then currentTime c / totalDuration c else 0);
         k1 = c\<lparr>totalDuration := max 0 d\<rparr>
     in k1\<lparr>currentTime := progress' * totalDuration k1\<rparr>)"

subsection \<open>The host\<close>

text \<open>
  What the host does to a controller that is left to play: it runs the callback of a
  pending frame request with a time stamp, or the callback of a pending loop-delay
  timer.  A request that is not pending has no callback to run.
\<close>

datatype HostStep = Frame nat real | Timeout

fun hostStep ::
  "(string \<rightharpoonup> EasingFunction) \<Rightarrow> Host \<Rightarrow> MotionSvgPlugin list \<Rightarrow> HostStep \<Rightarrow> Controller
    \<Rightarrow> Controller option" where
  "hostStep reg h ps (Frame i now) c =
    (if i \<in> set (frames c) then tick reg h ps now (c\<lparr>frames := removeAll i (frames c)\<rparr>)
     else Some c)"
| "hostStep reg h ps Timeout c =
    (if timers c > 0 then Some (delay_elapsed (c\<lparr>timers := timers c - 1\<rparr>)) else Some c)"

fun hostSteps ::
  "(string \<rightharpoonup> EasingFunction) \<Rightarrow> Host \<Rightarrow> MotionSvgPlugin list \<Rightarrow> HostStep list \<Rightarrow> Controller
    \<Rightarrow> Controller option" where
  "hostSteps reg h ps [] c = Some c"
| "hostSteps reg h ps (s # ss) c =
    (case hostStep reg h ps s c of None \<Rightarrow> None | Some c' \<Rightarrow> hostSteps reg h ps ss c')"

text \<open>The number of events of a type that the controller has emitted.\<close>

definition emitted :: "string \<Rightarrow> Controller \<Rightarrow> nat" where
  "emitted ty c = length (filter (\<lambda>e. PlaybackEvent.type' e = ty) (events c))"

section \<open>Example data\<close>

text \<open>The keyframe \<open>{ at: t }\<close>.\<close>

definition keyframe_at :: "real \<Rightarrow> Keyframe" where
  "keyframe_at t =
    \<lparr>at' = t, Keyframe.position = None, Keyframe.scale = None, Keyframe.rotation = None,
     Keyframe.opacity = None, Keyframe.fill = None, Keyframe.stroke = None,
     Keyframe.strokeWidth = None, Keyframe.strokeAlign = None,
     Keyframe.blurRadius = None, Keyframe.backdropBlur = None, Keyframe.width = None,
     Keyframe.height = None, Keyframe.pathD = None, curve = None\<rparr>"

text \<open>The timeline and the loop configuration of \<open>tests/unit/trigger.test.ts\<close>.\<close>

definition mockTimeline :: Timeline where
  "mockTimeline =
    \<lparr>Timeline.id' = ''tl-1'', Timeline.actorId = ''a-1'',
     Timeline.keyframes = [keyframe_at 0, keyframe_at 1000], duration = 1000\<rparr>"

definition loop_config_5 :: TriggerConfig where
  "loop_config_5 =
    (bare_config ''loop'')
      \<lparr>iterations := Some (Finite 5), TriggerConfig.direction := Some ''alternate'',
       delay := Some 200\<rparr>"

text \<open>
  An actor at the origin and a two-keyframe morph whose first keyframe sets the outline
  and the size of the shape.
\<close>

definition morph_actor :: Actor where
  "morph_actor = \<lparr>Actor.id' = ''a'', origin = \<lparr>Point.x = 0, Point.y = 0\<rparr>\<rparr>"

definition morph_first :: Keyframe where
  "morph_first =
    (keyframe_at 0)\<lparr>Keyframe.width := Some 5, Keyframe.height := Some 5,
      Keyframe.pathD := Some ''M0,0 L10,0''\<rparr>"

definition morph_second :: Keyframe where
  "morph_second = (keyframe_at 1000)\<lparr>Keyframe.pathD := Some ''M0,0 L0,10''\<rparr>"

definition morph_config :: TimelineConfig where
  "morph_config = \<lparr>TimelineConfig.keyframes = [morph_second, morph_first]\<rparr>"

text \<open>\<open>[{at:0, opacity:1}, {at:1000, opacity:0, curve:'linear'}]\<close>\<close>

definition fade_out :: "Keyframe list" where
  "fade_out =
    [(keyframe_at 0)\<lparr>Keyframe.opacity := Some 1\<rparr>,
     (keyframe_at 1000)\<lparr>Keyframe.opacity := Some 0, curve := Some (EasingName ''linear'')\<rparr>]"

text \<open>
  A host whose primitives return nothing.  The examples that take it do not call them.
\<close>

definition example_host :: Host where
  "example_host =
    \<lparr>parseNumbers = (\<lambda>s. []), numberToString = (\<lambda>n. []), matchUrlId = (\<lambda>s. None),
     parseInt16 = (\<lambda>s. None), dateNow36 = (\<lambda>n. [])\<rparr>"

text \<open>The commands of \<open>M0,0\<close> and of \<open>M0,0 L10,0\<close>, and their normalised paths.\<close>

definition point_path :: NormalizedPath where
  "point_path =
    normalizeToCubic [\<lparr>PathCommand.type' = CHR ''M'', relative = False, params = [0, 0]\<rparr>]"

definition line_path :: NormalizedPath where
  "line_path =
    normalizeToCubic
      [\<lparr>PathCommand.type' = CHR ''M'', relative = False, params = [0, 0]\<rparr>,
       \<lparr>PathCommand.type' = CHR ''L'', relative = False, params = [10, 0]\<rparr>]"

text \<open>No keyframe of the list defines the property read by \<open>get\<close>.\<close>

definition never_defines :: "Keyframe list \<Rightarrow> (Keyframe \<Rightarrow> 'a option) \<Rightarrow> bool" where
  "never_defines kfs get = list_all (\<lambda>kf. get kf = None) kfs"

text \<open>
  The track of the property read by \<open>get\<close>: the keyframes of the list that define it,
  in their order, each reduced to its time, its value for the property and its easing
  curve.
\<close>

definition track ::
  "(Keyframe \<Rightarrow> 'a option) \<Rightarrow> Keyframe list \<Rightarrow> (real \<times> 'a option \<times> EasingCurve option) list" where
  "track get kfs = map (\<lambda>kf. (at' kf, get kf, curve kf)) (filter (\<lambda>kf. get kf \<noteq> None) kfs)"

text \<open>
  \<open>[{at:0, opacity:1}, {at:500, fill:'#ff0000'}, {at:1000, opacity:0, curve:'linear'}]\<close>:
  the fade-out above with a keyframe in the middle that sets only \<open>fill\<close>.
\<close>

definition fade_with_fill :: "Keyframe list" where
  "fade_with_fill =
    [(keyframe_at 0)\<lparr>Keyframe.opacity := Some 1\<rparr>,
     (keyframe_at 500)\<lparr>Keyframe.fill := Some ''#ff0000''\<rparr>,
     (keyframe_at 1000)\<lparr>Keyframe.opacity := Some 0, curve := Some (EasingName ''linear'')\<rparr>]"

text \<open>\<open>[{at:0, fill:'#ff0000'}]\<close>, and the effects before any call.\<close>

definition fill_only :: "Keyframe list" where
  "fill_only = [(keyframe_at 0)\<lparr>Keyframe.fill := Some ''#ff0000''\<rparr>]"

definition no_effects :: Effects where
  "no_effects = \<lparr>gradIdCounter = 0, hookCalls = []\<rparr>"

text \<open>The state that \<open>interpolateKeyframes\<close> returns for an empty list.\<close>

definition default_state :: ActorState where
  "default_state =
    \<lparr>position = \<lparr>Point.x = 0, Point.y = 0\<rparr>, scale = ScaleNumber 1, rotation = 0,
     opacity = 1, fill = None, stroke = None, strokeWidth = None, strokeAlign = None,
     blurRadius = None, backdropBlur = None, width = None, height = None,
     fillGradient = None, strokeGradient = None, pathD = None\<rparr>"

text \<open>\<open>[{at:0, rotation:0}, {at:1000, rotation:90, curve:'easeInQuad'}]\<close>\<close>

definition spin :: "Keyframe list" where
  "spin =
    [(keyframe_at 0)\<lparr>Keyframe.rotation := Some 0\<rparr>,
     (keyframe_at 1000)\<lparr>Keyframe.rotation := Some 90,
        curve := Some (EasingName ''easeInQuad'')\<rparr>]"

text \<open>A plugin whose \<open>afterInterpolate\<close> hook sets the stroke width.\<close>

definition outline_plugin :: MotionSvgPlugin where
  "outline_plugin =
    \<lparr>name = ''outline'', version = ''1.0.0'',
     hooks = \<lparr>beforeInterpolate = None,
              afterInterpolate = Some (\<lambda>st actor timeMs. st\<lparr>strokeWidth := Some 2\<rparr>)\<rparr>\<rparr>"

text \<open>A horizontal linear gradient and the same gradient turned by 180 degrees.\<close>

definition gradient_0 :: LinearGradientDef where
  "gradient_0 =
    \<lparr>LinearGradientDef.id' = ''g0'', x1 = 0, y1 = 0, x2 = 10, y2 = 0,
     LinearGradientDef.stops = [], LinearGradientDef.gradientUnits = None,
     LinearGradientDef.gradientTransform = None\<rparr>"

definition gradient_180 :: LinearGradientDef where
  "gradient_180 =
    \<lparr>LinearGradientDef.id' = ''g180'', x1 = 10, y1 = 0, x2 = 0, y2 = 0,
     LinearGradientDef.stops = [], LinearGradientDef.gradientUnits = None,
     LinearGradientDef.gradientTransform = None\<rparr>"





definition angle :: "LinearGradientDef \<Rightarrow> real" where
  "angle g = atan2 (y2 g - y1 g) (x2 g - x1 g)"








text \<open>
  Keyframes that blend from the gradient \<open>g0\<close> to the gradient \<open>g180\<close>, in the stroke
  alone and in both the fill and the stroke; a host whose \<open>matchUrlId\<close> reads the two
  references and whose clock stands at \<open>mh1w2k3z\<close>; and the options that declare the
  two gradients.
\<close>

definition stroke_blend :: "Keyframe list" where
  "stroke_blend =
    [(keyframe_at 0)\<lparr>Keyframe.stroke := Some ''url(#g0)''\<rparr>,
     (keyframe_at 1000)\<lparr>Keyframe.stroke := Some ''url(#g180)''\<rparr>]"

definition fill_stroke_blend :: "Keyframe list" where
  "fill_stroke_blend =
    [(keyframe_at 0)\<lparr>Keyframe.fill := Some ''url(#g0)'', Keyframe.stroke := Some ''url(#g0)''\<rparr>,
     (keyframe_at 1000)\<lparr>Keyframe.fill := Some ''url(#g180)'',
        Keyframe.stroke := Some ''url(#g180)''\<rparr>]"

definition url_host :: Host where
  "url_host =
    example_host\<lparr>matchUrlId :=
      (\<lambda>s. if s = ''url(#g0)'' then Some ''g0''
           else if s = ''url(#g180)'' then Some ''g180'' else None),
      dateNow36 := (\<lambda>n. ''mh1w2k3z'')\<rparr>"

definition two_gradients :: InterpolateOptions where
  "two_gradients =
    \<lparr>InterpolateOptions.gradients =
       Some [LinearGradient gradient_0, LinearGradient gradient_180],
     actorId = None\<rparr>"



text \<open>
  Loop triggers with three iterations on the timeline of the tests, for each loop
  direction, and the options of a controller for them.
\<close>

definition loop_options :: "string \<Rightarrow> PlaybackOptions" where
  "loop_options dir =
    \<lparr>timeline' = mockTimeline,
     trigger' = Some \<lparr>timelineId = ''tl-1'',
       config = (bare_config ''loop'')\<lparr>iterations := Some (Finite 3),
                  TriggerConfig.direction := Some dir\<rparr>\<rparr>,
     PlaybackOptions.gradients = None,
     initialRate = None\<rparr>"

text \<open>
  Such a controller, played and then driven by the host through the given steps, with
  the built-in easing table and no plugin.
\<close>

definition mock_run :: "string \<Rightarrow> HostStep list \<Rightarrow> Controller option" where
  "mock_run dir steps =
    hostSteps easingFunctions example_host [] steps (play (createPlayback (loop_options dir)))"

chapter \<open>Properties\<close>

section \<open>Trigger binding\<close>

lemma validateTrigger_fails_iff:
  "(\<exists>e. validateTrigger c = Inl e) \<longleftrightarrow> trigger_invalid c"
  by (auto simp: validateTrigger_def trigger_invalid_def split: option.splits)

text \<open>
  C7.  Binding fails with a validation error exactly when the configuration is a loop
  with a negative iteration budget or a negative delay, a scroll trigger whose start or
  end lies outside \<open>[0,1]\<close>, an appear trigger whose threshold lies outside \<open>[0,1]\<close>, or
  carries an unrecognised type tag.  Otherwise it succeeds, and the binding carries the
  identifier of the timeline and the configuration, unchanged (nothing is clamped).
  \<open>{type:'loop', iterations:-1}\<close> and \<open>{type:'scroll', start:1.5}\<close> both fail.
\<close>

theorem trigger_validation:
  "((\<exists>e. trigger tml c = Inl e) \<longleftrightarrow> trigger_invalid c)
   \<and> (\<not> trigger_invalid c \<longrightarrow>
        trigger tml c = Inr \<lparr>timelineId = Timeline.id' tml, config = c\<rparr>)
   \<and> (\<exists>e. trigger tml ((bare_config ''loop'')\<lparr>iterations := Some (Finite (- 1))\<rparr>) = Inl e)
   \<and> (\<exists>e. trigger tml ((bare_config ''scroll'')\<lparr>start := Some (3 / 2)\<rparr>) = Inl e)"
proof -
  have fails: "(\<exists>e. trigger tml c = Inl e) \<longleftrightarrow> trigger_invalid c"
    using validateTrigger_fails_iff [of c]
    by (auto simp: trigger_def split: sum.splits)
  have ok: "\<not> trigger_invalid c \<longrightarrow>
      trigger tml c = Inr \<lparr>timelineId = Timeline.id' tml, config = c\<rparr>"
    using validateTrigger_fails_iff [of c]
    by (auto simp: trigger_def split: sum.splits)
  have loop: "\<exists>e. trigger tml ((bare_config ''loop'')\<lparr>iterations := Some (Finite (- 1))\<rparr>) = Inl e"
    by (simp add: trigger_def validateTrigger_def bare_config_def)
  have scroll: "\<exists>e. trigger tml ((bare_config ''scroll'')\<lparr>start := Some (3 / 2)\<rparr>) = Inl e"
    by (simp add: trigger_def validateTrigger_def bare_config_def)
  from fails ok loop scroll show ?thesis by blast
qed

theorem trigger_validation_witness:
  "\<not> trigger_invalid loop_config_5
   \<and> trigger mockTimeline loop_config_5 = Inr \<lparr>timelineId = ''tl-1'', config = loop_config_5\<rparr>"
proof -
  have valid: "\<not> trigger_invalid loop_config_5"
    by (simp add: trigger_invalid_def loop_config_5_def bare_config_def)
  have "trigger mockTimeline loop_config_5
      = Inr \<lparr>timelineId = Timeline.id' mockTimeline, config = loop_config_5\<rparr>"
    using trigger_validation [of mockTimeline loop_config_5] valid by blast
  then show ?thesis using valid by (simp add: mockTimeline_def)
qed

section \<open>Timeline construction\<close>

lemma showNat_1: "showNat (Suc 0) = ''1''"
  by (simp add: showNat.simps)

text \<open>With no keyframe the constructor throws.\<close>

lemma timeline_empty:
  "TimelineConfig.keyframes cfg = [] \<Longrightarrow> \<exists>e. timeline actor cfg n = Inl e"
  by (simp add: timeline_def)

text \<open>
  With at least one keyframe it returns a timeline whose keyframes are those of the
  configuration sorted by \<open>at\<close>, the first one replaced; the duration is the \<open>at\<close> of the
  last keyframe and the counter is incremented.
\<close>

lemma timeline_nonempty:
  assumes "TimelineConfig.keyframes cfg \<noteq> []"
  shows "\<exists>tml first. timeline actor cfg n = Inr (tml, Suc n)
      \<and> Timeline.keyframes tml = first # tl (sort_key at' (TimelineConfig.keyframes cfg))
      \<and> sorted (map at' (Timeline.keyframes tml))
      \<and> duration tml = at' (last (Timeline.keyframes tml))
      \<and> Timeline.actorId tml = Actor.id' actor"
proof -
  let ?s = "sort_key at' (TimelineConfig.keyframes cfg)"
  from assms have ne: "?s \<noteq> []"
    by (metis length_sort list.size(3) length_0_conv)
  then obtain k ks where s: "?s = k # ks" by (cases ?s) auto
  have "sorted (map at' ?s)"
    by simp
  with s show ?thesis using assms
    by (simp add: timeline_def Let_def)
qed

text \<open>
  C6.  The constructor is to preserve every value set on the first keyframe.  On the
  morph below the first keyframe (by time) sets \<open>width\<close>, \<open>height\<close> and \<open>pathD\<close>; in the
  timeline that is returned these three fields of the first keyframe are \<open>undefined\<close>,
  while the second keyframe keeps its \<open>pathD\<close>.
\<close>

theorem timeline_drops_first_pathD:
  "timeline morph_actor morph_config 0 =
     Inr (\<lparr>Timeline.id' = ''tl-a-1'', Timeline.actorId = ''a'',
           Timeline.keyframes =
             [(keyframe_at 0)\<lparr>Keyframe.position := Some \<lparr>Point.x = 0, Point.y = 0\<rparr>,
                 Keyframe.scale := Some (ScaleNumber 1), Keyframe.rotation := Some 0,
                 Keyframe.opacity := Some 1\<rparr>,
              morph_second],
           duration = 1000\<rparr>, 1)
   \<and> Keyframe.pathD morph_first = Some ''M0,0 L10,0''
   \<and> Keyframe.width morph_first = Some 5 \<and> Keyframe.height morph_first = Some 5"
  by (simp add: timeline_def morph_actor_def morph_config_def morph_first_def
      morph_second_def keyframe_at_def showNat_1)

section \<open>Numeric channels between two keyframes\<close>

lemma spec_prev_Cons:
  "spec_prev (kf # kfs) t has =
    (case spec_prev kfs t has of
       Some p \<Rightarrow> Some p
     | None \<Rightarrow> if has kf \<and> at' kf \<le> t then Some kf else None)"
  by (auto simp: spec_prev_def split: list.splits)

lemma spec_next_Cons:
  "spec_next (kf # kfs) t has =
    (if has kf \<and> t < at' kf then Some kf else spec_next kfs t has)"
  by (auto simp: spec_next_def split: list.splits)

lemma spec_prev_None_later:
  assumes "\<forall>k \<in> set kfs. t < at' k"
  shows "spec_prev kfs t has = None"
proof -
  have "filter (\<lambda>kf. has kf \<and> at' kf \<le> t) kfs = []"
    using assms by (auto simp: filter_empty_conv)
  then show ?thesis by (simp add: spec_prev_def)
qed

lemma findBracket_loop_spec:
  "sorted (map at' kfs) \<Longrightarrow>
   findBracket_loop kfs t has prev =
     ((case spec_prev kfs t has of None \<Rightarrow> prev | Some p \<Rightarrow> Some p), spec_next kfs t has)"
proof (induction kfs arbitrary: prev)
  case Nil
  then show ?case by (simp add: spec_prev_def spec_next_def)
next
  case (Cons kf kfs)
  from Cons.prems have sorted_tl: "sorted (map at' kfs)"
    and le: "\<forall>k \<in> set kfs. at' kf \<le> at' k" by auto
  show ?case
  proof (cases "has kf")
    case False
    with Cons.IH [OF sorted_tl] show ?thesis
      by (simp add: spec_prev_Cons spec_next_Cons split: option.splits)
  next
    case True
    show ?thesis
    proof (cases "at' kf \<le> t")
      case True
      with \<open>has kf\<close> Cons.IH [OF sorted_tl, of "Some kf"] show ?thesis
        by (simp add: spec_prev_Cons spec_next_Cons split: option.splits)
    next
      case False
      with le have "\<forall>k \<in> set kfs. t < at' k" by fastforce
      then have "spec_prev kfs t has = None" by (rule spec_prev_None_later)
      with False \<open>has kf\<close> show ?thesis
        by (simp add: spec_prev_Cons spec_next_Cons)
    qed
  qed
qed

lemma findBracket_spec:
  "sorted (map at' kfs) \<Longrightarrow>
   findBracket kfs t has = (spec_prev kfs t has, spec_next kfs t has)"
  by (simp add: findBracket_def findBracket_loop_spec split: option.splits)

lemma spec_prev_SomeD:
  "spec_prev kfs t has = Some p \<Longrightarrow> p \<in> set kfs \<and> has p \<and> at' p \<le> t"
proof -
  assume a: "spec_prev kfs t has = Some p"
  let ?f = "filter (\<lambda>kf. has kf \<and> at' kf \<le> t) kfs"
  from a obtain k ks where f: "?f = k # ks" and "p = last (k # ks)"
    by (auto simp: spec_prev_def split: list.splits)
  then have "p \<in> set ?f" by (metis last_in_set list.distinct(1))
  then show ?thesis by simp
qed

lemma spec_next_SomeD:
  "spec_next kfs t has = Some n \<Longrightarrow> n \<in> set kfs \<and> has n \<and> t < at' n"
proof -
  assume a: "spec_next kfs t has = Some n"
  let ?f = "filter (\<lambda>kf. has kf \<and> t < at' kf) kfs"
  from a obtain ks where "?f = n # ks"
    by (auto simp: spec_next_def split: list.splits)
  then have "n \<in> set ?f" by (metis list.set_intros(1))
  then show ?thesis by simp
qed

text \<open>
  Whatever the order of the list, the two keyframes of a bracket are keyframes of the
  list that have the property, the first at or before the query time and the second
  after it.
\<close>

lemma findBracket_loop_has:
  assumes "findBracket_loop kfs t has prev = (p, n)"
    and "case prev of None \<Rightarrow> True | Some k \<Rightarrow> has k \<and> at' k \<le> t \<and> k \<in> S"
    and "set kfs \<subseteq> S"
  shows "(case p of None \<Rightarrow> True | Some k \<Rightarrow> has k \<and> at' k \<le> t \<and> k \<in> S)
       \<and> (case n of None \<Rightarrow> True | Some k \<Rightarrow> has k \<and> t < at' k \<and> k \<in> S)"
  using assms
proof (induction kfs arbitrary: prev)
  case Nil
  then show ?case by auto
next
  case (Cons kf kfs)
  from Cons.prems(3) have sub: "set kfs \<subseteq> S" and mem: "kf \<in> S" by auto
  show ?case
  proof (cases "has kf")
    case False
    with Cons.prems(1) have "findBracket_loop kfs t has prev = (p, n)" by simp
    from Cons.IH [OF this Cons.prems(2) sub] show ?thesis .
  next
    case True
    show ?thesis
    proof (cases "at' kf \<le> t")
      case le: True
      with True Cons.prems(1) have 1: "findBracket_loop kfs t has (Some kf) = (p, n)" by simp
      have 2: "case Some kf of None \<Rightarrow> True | Some k \<Rightarrow> has k \<and> at' k \<le> t \<and> k \<in> S"
        using True le mem by simp
      from Cons.IH [OF 1 2 sub] show ?thesis .
    next
      case False
      with True Cons.prems(1) have "p = prev" "n = Some kf" by simp_all
      with Cons.prems(2) True False mem show ?thesis by simp
    qed
  qed
qed

lemma findBracket_has:
  assumes "findBracket kfs t has = (p, n)"
  shows "(case p of None \<Rightarrow> True | Some k \<Rightarrow> has k \<and> at' k \<le> t \<and> k \<in> set kfs)
       \<and> (case n of None \<Rightarrow> True | Some k \<Rightarrow> has k \<and> t < at' k \<and> k \<in> set kfs)"
  using findBracket_loop_has [of kfs t has None p n "set kfs"] assms
  by (simp add: findBracket_def)

lemma easingFunctions_linear: "easingFunctions ''linear'' = Some (\<lambda>t. Some t)"
  by (simp add: easingFunctions_def easingTable_def)

text \<open>
  C2.  On a keyframe list sorted by time, when a numeric property has both a previous
  keyframe (the last at or before the query time that defines it) and a next keyframe
  (the first strictly after the query time that defines it), the channel value is
  \<open>lerp(prev.value, next.value, easing(next.curve)((t - prev.at) / (next.at - prev.at)))\<close>,
  for the required channels (\<open>_interpNum\<close>) and the optional ones (\<open>_interpOptNum\<close>).
  For \<open>[{at:0, opacity:1}, {at:1000, opacity:0, curve:'linear'}]\<close> the opacity at time
  500 is \<open>1/2\<close>.
\<close>

theorem interpNum_between:
  "(sorted (map at' kfs)
     \<and> spec_prev kfs t (\<lambda>kf. get kf \<noteq> None) = Some p
     \<and> spec_next kfs t (\<lambda>kf. get kf \<noteq> None) = Some n
     \<and> get p = Some pv \<and> get n = Some nv
    \<longrightarrow> interpNum reg kfs t get d =
          (case getEasingFunction reg (curve n) of
             None \<Rightarrow> None
           | Some easing \<Rightarrow>
               map_option (lerp pv nv) (easing ((t - at' p) / (at' n - at' p))))
      \<and> interpOptNum reg kfs t get =
          (case getEasingFunction reg (curve n) of
             None \<Rightarrow> None
           | Some easing \<Rightarrow>
               map_option (\<lambda>e. Some (lerp pv nv e)) (easing ((t - at' p) / (at' n - at' p)))))
   \<and> interpNum easingFunctions fade_out 500 Keyframe.opacity 1 = Some (1 / 2)"
proof -
  have general: "interpNum reg kfs t get d =
          (case getEasingFunction reg (curve n) of
             None \<Rightarrow> None
           | Some easing \<Rightarrow>
               map_option (lerp pv nv) (easing ((t - at' p) / (at' n - at' p))))
      \<and> interpOptNum reg kfs t get =
          (case getEasingFunction reg (curve n) of
             None \<Rightarrow> None
           | Some easing \<Rightarrow>
               map_option (\<lambda>e. Some (lerp pv nv e)) (easing ((t - at' p) / (at' n - at' p))))"
    if srt: "sorted (map at' kfs)"
      and p: "spec_prev kfs t (\<lambda>kf. get kf \<noteq> None) = Some p"
      and n: "spec_next kfs t (\<lambda>kf. get kf \<noteq> None) = Some n"
      and pv: "get p = Some pv" and nv: "get n = Some nv"
  proof -
    have br: "findBracket kfs t (\<lambda>kf. get kf \<noteq> None) = (Some p, Some n)"
      using findBracket_spec [OF srt] p n by simp
    from spec_prev_SomeD [OF p] spec_next_SomeD [OF n] have "at' p < at' n" by simp
    then have dur: "at' n - at' p > 0" by simp
    show ?thesis
      using br pv nv dur
      by (simp add: interpNum_def interpOptNum_def easedT_def Let_def split: option.splits)
  qed
  have concrete: "interpNum easingFunctions fade_out 500 Keyframe.opacity 1 = Some (1 / 2)"
    by (simp add: interpNum_def findBracket_def fade_out_def keyframe_at_def easedT_def
        getEasingFunction_def property_def easingFunctions_linear lerp_def)
  from general concrete show ?thesis by blast
qed

theorem interpNum_between_witness:
  "interpNum easingFunctions spin 500 Keyframe.rotation 0 = Some (45 / 2)"
proof -
  let ?p = "(keyframe_at 0)\<lparr>Keyframe.rotation := Some 0\<rparr>"
  let ?n = "(keyframe_at 1000)\<lparr>Keyframe.rotation := Some 90,
    curve := Some (EasingName ''easeInQuad'')\<rparr>"
  have srt: "sorted (map at' spin)"
    by (simp add: spin_def keyframe_at_def)
  have p: "spec_prev spin 500 (\<lambda>kf. Keyframe.rotation kf \<noteq> None) = Some ?p"
    by (simp add: spec_prev_def spin_def keyframe_at_def)
  have n: "spec_next spin 500 (\<lambda>kf. Keyframe.rotation kf \<noteq> None) = Some ?n"
    by (simp add: spec_next_def spin_def keyframe_at_def)
  have pv: "Keyframe.rotation ?p = Some 0" and nv: "Keyframe.rotation ?n = Some 90"
    by simp_all
  have e: "getEasingFunction easingFunctions (Some (EasingName ''easeInQuad''))
      = Some (\<lambda>t. Some (t * t))"
    by (simp add: getEasingFunction_def property_def easingFunctions_def easingTable_def)
  from interpNum_between [of spin 500 Keyframe.rotation ?p ?n 0 90 easingFunctions 0]
    srt p n pv nv
  have "interpNum easingFunctions spin 500 Keyframe.rotation 0 =
      (case getEasingFunction easingFunctions (curve ?n) of
         None \<Rightarrow> None
       | Some easing \<Rightarrow>
           map_option (lerp 0 90) (easing ((500 - at' ?p) / (at' ?n - at' ?p))))"
    by blast
  then show ?thesis
    by (simp add: e lerp_def keyframe_at_def)
qed

section \<open>Balancing two outlines\<close>

lemma longest_loop_bound:
  "longest_loop segs i idx len px py = idx
   \<or> (i \<le> longest_loop segs i idx len px py \<and> longest_loop segs i idx len px py < i + length segs)"
proof (induction segs arbitrary: i idx len px py)
  case Nil
  then show ?case by simp
next
  case (Cons s ss)
  show ?case
  proof (cases "segmentLength px py s > len")
    case True
    with Cons.IH [of "i + 1" i "segmentLength px py s" "x s" "y s"] show ?thesis
      by (auto simp: Let_def)
  next
    case False
    with Cons.IH [of "i + 1" idx len "x s" "y s"] show ?thesis
      by (auto simp: Let_def)
  qed
qed

lemma longest_loop_less:
  "segs \<noteq> [] \<Longrightarrow> longest_loop segs 0 0 0 sx sy < length segs"
  using longest_loop_bound [of segs 0 0 0 sx sy] by auto

lemma subdivideAtLongest_length:
  "segs \<noteq> [] \<Longrightarrow> length (subdivideAtLongest segs sx sy) = length segs + 1"
  using longest_loop_less [of segs sx sy]
  by (simp add: subdivideAtLongest_def Let_def)

lemma subdivideAtLongest_empty: "subdivideAtLongest [] sx sy = []"
  by (simp add: subdivideAtLongest_def)

lemma splitCubicAt_end:
  "x (snd (splitCubicAt x0 y0 seg t)) = x seg \<and> y (snd (splitCubicAt x0 y0 seg t)) = y seg"
  by (simp add: splitCubicAt_def Let_def)

lemma subdivideAtLongest_last:
  assumes "segs \<noteq> []"
  shows "x (last (subdivideAtLongest segs sx sy)) = x (last segs)
       \<and> y (last (subdivideAtLongest segs sx sy)) = y (last segs)"
proof -
  let ?i = "longest_loop segs 0 0 0 sx sy"
  have i: "?i < length segs" using assms by (rule longest_loop_less)
  show ?thesis
  proof (cases "?i + 1 = length segs")
    case True
    then have "drop (?i + 1) segs = []" by simp
    moreover have "segs ! ?i = last segs"
      using True assms by (metis add_diff_cancel_right' last_conv_nth)
    ultimately show ?thesis
      using assms by (simp add: subdivideAtLongest_def Let_def splitCubicAt_end)
  next
    case False
    with i have "drop (?i + 1) segs \<noteq> []" by simp
    then show ?thesis
      using assms by (simp add: subdivideAtLongest_def Let_def)
  qed
qed

lemma subdivide_until_nonempty:
  "segs \<noteq> [] \<Longrightarrow>
   \<exists>segs'. subdivide_until segs n sx sy = Some segs'
     \<and> length segs' = max (length segs) n
     \<and> x (last segs') = x (last segs) \<and> y (last segs') = y (last segs)"
proof (induction "n - length segs" arbitrary: segs)
  case 0
  then show ?case by (subst subdivide_until.simps) (simp add: max_def)
next
  case (Suc k)
  let ?s = "subdivideAtLongest segs sx sy"
  from Suc.prems have len: "length ?s = length segs + 1"
    by (rule subdivideAtLongest_length)
  then have ne: "?s \<noteq> []" by auto
  from Suc.hyps(2) len have "k = n - length ?s" by simp
  from Suc.hyps(1) [OF this ne] obtain segs' where
    r: "subdivide_until ?s n sx sy = Some segs'"
       "length segs' = max (length ?s) n"
       "x (last segs') = x (last ?s)" "y (last segs') = y (last ?s)"
    by blast
  from Suc.hyps(2) have lt: "length segs < n" by simp
  then have "subdivide_until segs n sx sy = subdivide_until ?s n sx sy"
    by (subst subdivide_until.simps) simp
  with r lt len subdivideAtLongest_last [OF Suc.prems, of sx sy] show ?case
    by (simp add: max_def)
qed

lemma subdivide_until_done:
  "n \<le> length segs \<Longrightarrow> subdivide_until segs n sx sy = Some segs"
  by (subst subdivide_until.simps) simp

lemma subdivide_until_Some_not_empty:
  assumes h: "subdivide_until segs m px py = Some res"
  shows "\<not> (segs = [] \<and> 0 < m)"
proof (rule subdivide_until.raw_induct
    [where P = "\<lambda>segs m px py res. \<not> (segs = [] \<and> 0 < m)", OF _ h])
  fix f segs n sx sy segsa
  assume IH: "\<And>n sx sy b res. f n sx sy b = Some res \<Longrightarrow> \<not> (n = [] \<and> 0 < sx)"
    and step: "(if length segs < n then f (subdivideAtLongest segs sx sy) n sx sy
                else Some segs) = Some segsa"
  show "\<not> (segs = [] \<and> 0 < n)"
  proof
    assume e: "segs = [] \<and> 0 < n"
    with step have "f [] n sx sy = Some segsa"
      by (simp add: subdivideAtLongest_empty)
    from IH [OF this] e show False by simp
  qed
qed

lemma subdivide_until_empty_diverges:
  "0 < n \<Longrightarrow> subdivide_until [] n sx sy = None"
  using subdivide_until_Some_not_empty [of "[]" n sx sy] by (cases "subdivide_until [] n sx sy") auto

text \<open>
  When both paths have a segment, balancing returns: both results have the larger of
  the two segment counts, and each keeps its start point and the end point of its last
  segment.
\<close>

lemma balanceCommands_nonempty:
  assumes a: "NormalizedPath.segments a \<noteq> []" and b: "NormalizedPath.segments b \<noteq> []"
  shows "\<exists>a' b'. balanceCommands a b = Some (a', b')
    \<and> length (NormalizedPath.segments a')
        = max (length (NormalizedPath.segments a)) (length (NormalizedPath.segments b))
    \<and> length (NormalizedPath.segments b')
        = max (length (NormalizedPath.segments a)) (length (NormalizedPath.segments b))
    \<and> NormalizedPath.startX a' = NormalizedPath.startX a
    \<and> NormalizedPath.startY a' = NormalizedPath.startY a
    \<and> NormalizedPath.startX b' = NormalizedPath.startX b
    \<and> NormalizedPath.startY b' = NormalizedPath.startY b
    \<and> x (last (NormalizedPath.segments a')) = x (last (NormalizedPath.segments a))
    \<and> y (last (NormalizedPath.segments a')) = y (last (NormalizedPath.segments a))
    \<and> x (last (NormalizedPath.segments b')) = x (last (NormalizedPath.segments b))
    \<and> y (last (NormalizedPath.segments b')) = y (last (NormalizedPath.segments b))"
proof -
  let ?sa = "NormalizedPath.segments a" and ?sb = "NormalizedPath.segments b"
  from subdivide_until_nonempty [OF a, of "length ?sb" "NormalizedPath.startX a" "NormalizedPath.startY a"]
  obtain sa' where
    ra: "subdivide_until ?sa (length ?sb) (NormalizedPath.startX a) (NormalizedPath.startY a) = Some sa'"
        "length sa' = max (length ?sa) (length ?sb)"
        "x (last sa') = x (last ?sa)" "y (last sa') = y (last ?sa)"
    by blast
  from subdivide_until_nonempty [OF b, of "length sa'" "NormalizedPath.startX b" "NormalizedPath.startY b"]
  obtain sb' where
    rb: "subdivide_until ?sb (length sa') (NormalizedPath.startX b) (NormalizedPath.startY b) = Some sb'"
        "length sb' = max (length ?sb) (length sa')"
        "x (last sb') = x (last ?sb)" "y (last sb') = y (last ?sb)"
    by blast
  from ra rb show ?thesis
    by (simp add: balanceCommands_def max_def)
qed

lemma point_path_segments: "NormalizedPath.segments point_path = []"
  by (simp add: point_path_def normalizeToCubic_def normalize_step_def)

lemma line_path_segments: "length (NormalizedPath.segments line_path) = 1"
  by (simp add: line_path_def normalizeToCubic_def normalize_step_def)

text \<open>
  C4.  Balancing is to return two paths with equal segment counts for every pair of
  normalised paths.  For the path of \<open>M0,0\<close>, which has no segment, and the path of
  \<open>M0,0 L10,0\<close>, which has one, it does not return, in either order of the arguments:
  \<open>subdivideAtLongest\<close> returns an empty list unchanged, and the loop that waits for
  its length to grow does not end.
\<close>

theorem balanceCommands_empty_diverges:
  "NormalizedPath.segments point_path = []
   \<and> length (NormalizedPath.segments line_path) = 1
   \<and> balanceCommands point_path line_path = None
   \<and> balanceCommands line_path point_path = None"
proof -
  have 1: "balanceCommands point_path line_path = None"
    by (simp add: balanceCommands_def point_path_segments line_path_segments
        subdivide_until_empty_diverges)
  have "subdivide_until (NormalizedPath.segments line_path) 0 sx sy
      = Some (NormalizedPath.segments line_path)" for sx sy
    by (rule subdivide_until_done) simp
  then have 2: "balanceCommands line_path point_path = None"
    by (simp add: balanceCommands_def point_path_segments line_path_segments
        subdivide_until_empty_diverges)
  from 1 2 point_path_segments line_path_segments show ?thesis by simp
qed

section \<open>Blending two outlines\<close>

text \<open>
  C3.  At a factor \<open>t \<le> 0\<close> the blend returns the first input string and at
  \<open>t \<ge> 1\<close> the second one, each as it was given; nothing is parsed or printed.
\<close>

theorem lerpPath_boundaries:
  "(t \<le> 0 \<longrightarrow> lerpPath h pathA pathB t = Some pathA)
   \<and> (1 \<le> t \<longrightarrow> lerpPath h pathA pathB t = Some pathB)"
  by (simp add: lerpPath_def)

theorem lerpPath_boundaries_witness:
  "\<forall>h. lerpPath h ''M0,0 L10,0 L5,10 Z'' ''M0,0 L10,0 L10,10 L0,10 Z'' 0
        = Some ''M0,0 L10,0 L5,10 Z''
     \<and> lerpPath h ''M0,0 L10,0 L5,10 Z'' ''M0,0 L10,0 L10,10 L0,10 Z'' 1
        = Some ''M0,0 L10,0 L10,10 L0,10 Z''
     \<and> lerpPath h ''M0,0 L10,0'' ''M0,0 L0,10'' (- 1 / 2) = Some ''M0,0 L10,0''
     \<and> lerpPath h ''M0,0 L10,0'' ''M0,0 L0,10'' (3 / 2) = Some ''M0,0 L0,10''"
proof
  fix h
  have le: "(0::real) \<le> 0" "(- 1 / 2 :: real) \<le> 0" and ge: "(1::real) \<le> 1" "(1::real) \<le> 3 / 2"
    by simp_all
  show "lerpPath h ''M0,0 L10,0 L5,10 Z'' ''M0,0 L10,0 L10,10 L0,10 Z'' 0
        = Some ''M0,0 L10,0 L5,10 Z''
     \<and> lerpPath h ''M0,0 L10,0 L5,10 Z'' ''M0,0 L10,0 L10,10 L0,10 Z'' 1
        = Some ''M0,0 L10,0 L10,10 L0,10 Z''
     \<and> lerpPath h ''M0,0 L10,0'' ''M0,0 L0,10'' (- 1 / 2) = Some ''M0,0 L10,0''
     \<and> lerpPath h ''M0,0 L10,0'' ''M0,0 L0,10'' (3 / 2) = Some ''M0,0 L0,10''"
    using lerpPath_boundaries [of 0 h "''M0,0 L10,0 L5,10 Z''" "''M0,0 L10,0 L10,10 L0,10 Z''"]
      lerpPath_boundaries [of 1 h "''M0,0 L10,0 L5,10 Z''" "''M0,0 L10,0 L10,10 L0,10 Z''"]
      lerpPath_boundaries [of "- 1 / 2" h "''M0,0 L10,0''" "''M0,0 L0,10''"]
      lerpPath_boundaries [of "3 / 2" h "''M0,0 L10,0''" "''M0,0 L0,10''"]
      le ge
    by blast
qed

section \<open>Interpolating an empty keyframe list\<close>

lemma interpolateKeyframes_Nil:
  "interpolateKeyframes reg h ps [] t opts w = Some (default_state, w)"
  by (simp add: interpolateKeyframes_def default_state_def)

text \<open>
  C10.  With an empty keyframe list \<open>interpolateKeyframes\<close> returns the default state
  (position \<open>(0,0)\<close>, scale 1, rotation 0, opacity 1, every optional field absent),
  whatever plugins are registered; the effects are unchanged, so no hook is called and
  the gradient counter is not advanced.
\<close>

theorem interpolateKeyframes_empty:
  "interpolateKeyframes reg h ps [] t opts w = Some (default_state, w)"
  by (simp add: interpolateKeyframes_def default_state_def)

section \<open>Independence of the channels\<close>

lemma findBracket_loop_never:
  "list_all (\<lambda>kf. \<not> has kf) kfs \<Longrightarrow> findBracket_loop kfs t has prev = (prev, None)"
  by (induction kfs arbitrary: prev) auto

lemma findBracket_never:
  "never_defines kfs get \<Longrightarrow> findBracket kfs t (\<lambda>kf. get kf \<noteq> None) = (None, None)"
  using findBracket_loop_never [of "\<lambda>kf. get kf \<noteq> None" kfs t None]
  by (simp add: findBracket_def never_defines_def)

lemma interpOptNum_never:
  "never_defines kfs get \<Longrightarrow> interpOptNum reg kfs t get = Some None"
  using findBracket_never [of kfs get t] by (simp add: interpOptNum_def)

lemma interpNum_never:
  "never_defines kfs get \<Longrightarrow> interpNum reg kfs t get d = Some d"
  using findBracket_never [of kfs get t] by (simp add: interpNum_def)

lemma interpPoint_never:
  "never_defines kfs get \<Longrightarrow> interpPoint reg kfs t get d = Some d"
  using findBracket_never [of kfs get t] by (simp add: interpPoint_def)

lemma interpScale_never:
  "never_defines kfs Keyframe.scale \<Longrightarrow> interpScale reg kfs t = Some (ScaleNumber 1)"
  using findBracket_never [of kfs Keyframe.scale t] by (simp add: interpScale_def)

lemma interpSnap_never:
  "never_defines kfs get \<Longrightarrow> interpSnap kfs t get = None"
  using findBracket_never [of kfs get t] by (simp add: interpSnap_def)

lemma interpColor_never:
  "never_defines kfs get \<Longrightarrow>
   interpColor reg h kfs t get gs c = Some (\<lparr>color = None, gradient = None\<rparr>, c)"
  using findBracket_never [of kfs get t] by (simp add: interpColor_def)

lemma interpPath_never:
  "never_defines kfs Keyframe.pathD \<Longrightarrow> interpPath reg h kfs t = Some None"
  using findBracket_never [of kfs Keyframe.pathD t] by (simp add: interpPath_def)

lemma interpolate_channels_SomeD:
  assumes "interpolate_channels reg h kfs t gs c = Some (st, c')"
  shows "\<exists>fr sr.
      interpColor reg h kfs t Keyframe.fill gs c = Some fr
    \<and> interpColor reg h kfs t Keyframe.stroke gs (snd fr) = Some sr
    \<and> interpPoint reg kfs t Keyframe.position \<lparr>Point.x = 0, Point.y = 0\<rparr> = Some (position st)
    \<and> interpScale reg kfs t = Some (scale st)
    \<and> interpNum reg kfs t Keyframe.rotation 0 = Some (rotation st)
    \<and> interpNum reg kfs t Keyframe.opacity 1 = Some (opacity st)
    \<and> interpOptNum reg kfs t Keyframe.strokeWidth = Some (strokeWidth st)
    \<and> interpOptNum reg kfs t Keyframe.blurRadius = Some (blurRadius st)
    \<and> interpOptNum reg kfs t Keyframe.backdropBlur = Some (backdropBlur st)
    \<and> interpOptNum reg kfs t Keyframe.width = Some (width st)
    \<and> interpOptNum reg kfs t Keyframe.height = Some (height st)
    \<and> interpPath reg h kfs t = Some (pathD st)
    \<and> strokeAlign st = interpSnap kfs t Keyframe.strokeAlign
    \<and> fill st = color (fst fr) \<and> fillGradient st = gradient (fst fr)
    \<and> stroke st = color (fst sr) \<and> strokeGradient st = gradient (fst sr)
    \<and> c' = snd sr"
  using assms
  unfolding interpolate_channels_def
  by (auto split: Option.bind_splits)

lemma interpolateKeyframes_no_hooks:
  assumes "\<not> has_beforeInterpolate ps" "\<not> has_afterInterpolate ps" "kfs \<noteq> []"
  shows "interpolateKeyframes reg h ps kfs t opts w =
    map_option (\<lambda>(st, c). (st, w\<lparr>gradIdCounter := c\<rparr>))
      (interpolate_channels reg h kfs t
         (case opts of None \<Rightarrow> [] | Some opt \<Rightarrow> (case InterpolateOptions.gradients opt of None \<Rightarrow> [] | Some l \<Rightarrow> l))
         (gradIdCounter w))"
  using assms
  by (auto simp: interpolateKeyframes_def Let_def split: option.splits)

lemma fill_only_result:
  "interpolateKeyframes easingFunctions example_host [] fill_only 0 None no_effects
    = Some (default_state\<lparr>fill := Some ''#ff0000''\<rparr>, no_effects)"
  by (simp add: interpolateKeyframes_def interpolate_channels_def has_beforeInterpolate_def
      has_afterInterpolate_def fill_only_def keyframe_at_def no_effects_def default_state_def
      interpColor_def interpPoint_def interpScale_def interpNum_def interpOptNum_def
      interpPath_def interpSnap_def findBracket_def resolveResult_def startsWith_url_def)



text \<open>
  The bracket of a property is found in its track: two lists with the same track have
  brackets that agree in time, value and easing curve.
\<close>

lemma findBracket_loop_filter:
  "findBracket_loop (filter has kfs) t has prev = findBracket_loop kfs t has prev"
  by (induction kfs arbitrary: prev) auto

lemma findBracket_loop_track:
  assumes "list_all2 (\<lambda>k k'. at' k = at' k' \<and> get k = get k' \<and> curve k = curve k') l l'"
    and "rel_option (\<lambda>k k'. at' k = at' k' \<and> get k = get k' \<and> curve k = curve k') prev prev'"
  shows "rel_prod
      (rel_option (\<lambda>k k'. at' k = at' k' \<and> get k = get k' \<and> curve k = curve k'))
      (rel_option (\<lambda>k k'. at' k = at' k' \<and> get k = get k' \<and> curve k = curve k'))
      (findBracket_loop l t (\<lambda>kf. get kf \<noteq> None) prev)
      (findBracket_loop l' t (\<lambda>kf. get kf \<noteq> None) prev')"
  using assms by (induction arbitrary: prev prev' rule: list_all2_induct) auto

lemma findBracket_track:
  assumes "track get kfs = track get kfs'"
  obtains p n p' n' where
    "findBracket kfs t (\<lambda>kf. get kf \<noteq> None) = (p, n)"
    "findBracket kfs' t (\<lambda>kf. get kf \<noteq> None) = (p', n')"
    "rel_option (\<lambda>k k'. at' k = at' k' \<and> get k = get k' \<and> curve k = curve k') p p'"
    "rel_option (\<lambda>k k'. at' k = at' k' \<and> get k = get k' \<and> curve k = curve k') n n'"
proof -
  let ?has = "\<lambda>kf. get kf \<noteq> None"
  let ?R = "\<lambda>k k'. at' k = at' k' \<and> get k = get k' \<and> curve k = curve k'"
  from assms have "list_all2 (=) (map (\<lambda>kf. (at' kf, get kf, curve kf)) (filter ?has kfs))
      (map (\<lambda>kf. (at' kf, get kf, curve kf)) (filter ?has kfs'))"
    by (simp add: track_def list.rel_eq)
  then have "list_all2 ?R (filter ?has kfs) (filter ?has kfs')"
    by (simp add: list.rel_map)
  from findBracket_loop_track [OF this, of None None t]
  have "rel_prod (rel_option ?R) (rel_option ?R)
      (findBracket kfs t ?has) (findBracket kfs' t ?has)"
    by (simp add: findBracket_def findBracket_loop_filter)
  then show ?thesis
    by (cases "findBracket kfs t ?has"; cases "findBracket kfs' t ?has") (auto intro: that)
qed

lemma easedT_track:
  assumes "at' p = at' p'" "at' n = at' n'" "curve n = curve n'"
  shows "easedT reg p n t = easedT reg p' n' t"
  unfolding easedT_def assms ..

lemma bracket_rel_cases:
  assumes "rel_option R p p'" "rel_option R n n'"
  obtains (nn) "p = None" "p' = None" "n = None" "n' = None"
  | (ns) kn kn' where "p = None" "p' = None" "n = Some kn" "n' = Some kn'" "R kn kn'"
  | (sn) kp kp' where "p = Some kp" "p' = Some kp'" "n = None" "n' = None" "R kp kp'"
  | (ss) kp kp' kn kn' where "p = Some kp" "p' = Some kp'" "n = Some kn" "n' = Some kn'"
      "R kp kp'" "R kn kn'"
  using assms by (cases p; cases p'; cases n; cases n') auto

lemma interpNum_track:
  assumes "track get kfs = track get kfs'"
  shows "interpNum reg kfs t get d = interpNum reg kfs' t get d"
proof -
  from findBracket_track [OF assms, of t] obtain p n p' n' where
    b: "findBracket kfs t (\<lambda>kf. get kf \<noteq> None) = (p, n)"
       "findBracket kfs' t (\<lambda>kf. get kf \<noteq> None) = (p', n')"
    and r: "rel_option (\<lambda>k k'. at' k = at' k' \<and> get k = get k' \<and> curve k = curve k') p p'"
       "rel_option (\<lambda>k k'. at' k = at' k' \<and> get k = get k' \<and> curve k = curve k') n n'"
    by blast
  from r show ?thesis
  proof (cases rule: bracket_rel_cases)
    case nn
    show ?thesis unfolding interpNum_def b nn by (simp only: prod.case option.case)
  next
    case (ns kn kn')
    then have v: "get kn = get kn'" by simp
    show ?thesis unfolding interpNum_def b ns(1-4) by (simp only: prod.case option.case v)
  next
    case (sn kp kp')
    then have v: "get kp = get kp'" by simp
    show ?thesis unfolding interpNum_def b sn(1-4) by (simp only: prod.case option.case v)
  next
    case (ss kp kp' kn kn')
    then have e: "easedT reg kp kn t = easedT reg kp' kn' t"
      by (intro easedT_track) simp_all
    from ss have v: "get kp = get kp'" "get kn = get kn'" by simp_all
    show ?thesis unfolding interpNum_def b ss(1-4) by (simp only: prod.case option.case e v)
  qed
qed

lemma interpOptNum_track:
  assumes "track get kfs = track get kfs'"
  shows "interpOptNum reg kfs t get = interpOptNum reg kfs' t get"
proof -
  from findBracket_track [OF assms, of t] obtain p n p' n' where
    b: "findBracket kfs t (\<lambda>kf. get kf \<noteq> None) = (p, n)"
       "findBracket kfs' t (\<lambda>kf. get kf \<noteq> None) = (p', n')"
    and r: "rel_option (\<lambda>k k'. at' k = at' k' \<and> get k = get k' \<and> curve k = curve k') p p'"
       "rel_option (\<lambda>k k'. at' k = at' k' \<and> get k = get k' \<and> curve k = curve k') n n'"
    by blast
  from r show ?thesis
  proof (cases rule: bracket_rel_cases)
    case nn
    show ?thesis unfolding interpOptNum_def b nn by (simp only: prod.case option.case)
  next
    case (ns kn kn')
    then have v: "get kn = get kn'" by simp
    show ?thesis unfolding interpOptNum_def b ns(1-4) by (simp only: prod.case option.case v)
  next
    case (sn kp kp')
    then have v: "get kp = get kp'" by simp
    show ?thesis unfolding interpOptNum_def b sn(1-4) by (simp only: prod.case option.case v)
  next
    case (ss kp kp' kn kn')
    then have e: "easedT reg kp kn t = easedT reg kp' kn' t"
      by (intro easedT_track) simp_all
    from ss have v: "get kp = get kp'" "get kn = get kn'" by simp_all
    show ?thesis unfolding interpOptNum_def b ss(1-4) by (simp only: prod.case option.case e v)
  qed
qed

lemma interpPoint_track:
  assumes "track get kfs = track get kfs'"
  shows "interpPoint reg kfs t get d = interpPoint reg kfs' t get d"
proof -
  from findBracket_track [OF assms, of t] obtain p n p' n' where
    b: "findBracket kfs t (\<lambda>kf. get kf \<noteq> None) = (p, n)"
       "findBracket kfs' t (\<lambda>kf. get kf \<noteq> None) = (p', n')"
    and r: "rel_option (\<lambda>k k'. at' k = at' k' \<and> get k = get k' \<and> curve k = curve k') p p'"
       "rel_option (\<lambda>k k'. at' k = at' k' \<and> get k = get k' \<and> curve k = curve k') n n'"
    by blast
  from r show ?thesis
  proof (cases rule: bracket_rel_cases)
    case nn
    show ?thesis unfolding interpPoint_def b nn by (simp only: prod.case option.case)
  next
    case (ns kn kn')
    then have v: "get kn = get kn'" by simp
    show ?thesis unfolding interpPoint_def b ns(1-4) by (simp only: prod.case option.case v)
  next
    case (sn kp kp')
    then have v: "get kp = get kp'" by simp
    show ?thesis unfolding interpPoint_def b sn(1-4) by (simp only: prod.case option.case v)
  next
    case (ss kp kp' kn kn')
    then have e: "easedT reg kp kn t = easedT reg kp' kn' t"
      by (intro easedT_track) simp_all
    from ss have v: "get kp = get kp'" "get kn = get kn'" by simp_all
    show ?thesis unfolding interpPoint_def b ss(1-4) by (simp only: prod.case option.case e v)
  qed
qed

lemma interpScale_track:
  assumes "track Keyframe.scale kfs = track Keyframe.scale kfs'"
  shows "interpScale reg kfs t = interpScale reg kfs' t"
proof -
  from findBracket_track [OF assms, of t] obtain p n p' n' where
    b: "findBracket kfs t (\<lambda>kf. Keyframe.scale kf \<noteq> None) = (p, n)"
       "findBracket kfs' t (\<lambda>kf. Keyframe.scale kf \<noteq> None) = (p', n')"
    and r: "rel_option (\<lambda>k k'. at' k = at' k' \<and> Keyframe.scale k = Keyframe.scale k' \<and> curve k = curve k') p p'"
       "rel_option (\<lambda>k k'. at' k = at' k' \<and> Keyframe.scale k = Keyframe.scale k' \<and> curve k = curve k') n n'"
    by blast
  from r show ?thesis
  proof (cases rule: bracket_rel_cases)
    case nn
    show ?thesis unfolding interpScale_def b nn by (simp only: prod.case option.case)
  next
    case (ns kn kn')
    then have v: "Keyframe.scale kn = Keyframe.scale kn'" by simp
    show ?thesis unfolding interpScale_def b ns(1-4) by (simp only: prod.case option.case v)
  next
    case (sn kp kp')
    then have v: "Keyframe.scale kp = Keyframe.scale kp'" by simp
    show ?thesis unfolding interpScale_def b sn(1-4) by (simp only: prod.case option.case v)
  next
    case (ss kp kp' kn kn')
    then have e: "easedT reg kp kn t = easedT reg kp' kn' t"
      by (intro easedT_track) simp_all
    from ss have v: "Keyframe.scale kp = Keyframe.scale kp'" "Keyframe.scale kn = Keyframe.scale kn'" by simp_all
    show ?thesis unfolding interpScale_def b ss(1-4) by (simp only: prod.case option.case e v)
  qed
qed

lemma interpSnap_track:
  assumes "track get kfs = track get kfs'"
  shows "interpSnap kfs t get = interpSnap kfs' t get"
proof -
  from findBracket_track [OF assms, of t] obtain p n p' n' where
    b: "findBracket kfs t (\<lambda>kf. get kf \<noteq> None) = (p, n)"
       "findBracket kfs' t (\<lambda>kf. get kf \<noteq> None) = (p', n')"
    and r: "rel_option (\<lambda>k k'. at' k = at' k' \<and> get k = get k' \<and> curve k = curve k') p p'"
       "rel_option (\<lambda>k k'. at' k = at' k' \<and> get k = get k' \<and> curve k = curve k') n n'"
    by blast
  from r show ?thesis
  proof (cases rule: bracket_rel_cases)
    case nn
    show ?thesis unfolding interpSnap_def b nn by (simp only: prod.case option.case)
  next
    case (ns kn kn')
    then have v: "get kn = get kn'" by simp
    show ?thesis unfolding interpSnap_def b ns(1-4) by (simp only: prod.case option.case v)
  next
    case (sn kp kp')
    then have v: "get kp = get kp'" by simp
    show ?thesis unfolding interpSnap_def b sn(1-4) by (simp only: prod.case option.case v)
  next
    case (ss kp kp' kn kn')
    then have e: "easedT reg kp kn t = easedT reg kp' kn' t"
      by (intro easedT_track) simp_all
    from ss have v: "get kp = get kp'" "get kn = get kn'" by simp_all
    show ?thesis unfolding interpSnap_def b ss(1-4) by (simp only: prod.case option.case e v)
  qed
qed

lemma interpColor_track:
  assumes "track get kfs = track get kfs'"
  shows "interpColor reg h kfs t get gs c = interpColor reg h kfs' t get gs c"
proof -
  from findBracket_track [OF assms, of t] obtain p n p' n' where
    b: "findBracket kfs t (\<lambda>kf. get kf \<noteq> None) = (p, n)"
       "findBracket kfs' t (\<lambda>kf. get kf \<noteq> None) = (p', n')"
    and r: "rel_option (\<lambda>k k'. at' k = at' k' \<and> get k = get k' \<and> curve k = curve k') p p'"
       "rel_option (\<lambda>k k'. at' k = at' k' \<and> get k = get k' \<and> curve k = curve k') n n'"
    by blast
  from r show ?thesis
  proof (cases rule: bracket_rel_cases)
    case nn
    show ?thesis unfolding interpColor_def b nn by (simp only: prod.case option.case)
  next
    case (ns kn kn')
    then have v: "get kn = get kn'" by simp
    show ?thesis unfolding interpColor_def b ns(1-4) by (simp only: prod.case option.case v)
  next
    case (sn kp kp')
    then have v: "get kp = get kp'" by simp
    show ?thesis unfolding interpColor_def b sn(1-4) by (simp only: prod.case option.case v)
  next
    case (ss kp kp' kn kn')
    then have e: "easedT reg kp kn t = easedT reg kp' kn' t"
      by (intro easedT_track) simp_all
    from ss have v: "get kp = get kp'" "get kn = get kn'" by simp_all
    show ?thesis unfolding interpColor_def b ss(1-4) by (simp only: prod.case option.case e v)
  qed
qed

lemma interpPath_track:
  assumes "track Keyframe.pathD kfs = track Keyframe.pathD kfs'"
  shows "interpPath reg h kfs t = interpPath reg h kfs' t"
proof -
  from findBracket_track [OF assms, of t] obtain p n p' n' where
    b: "findBracket kfs t (\<lambda>kf. Keyframe.pathD kf \<noteq> None) = (p, n)"
       "findBracket kfs' t (\<lambda>kf. Keyframe.pathD kf \<noteq> None) = (p', n')"
    and r: "rel_option (\<lambda>k k'. at' k = at' k' \<and> Keyframe.pathD k = Keyframe.pathD k' \<and> curve k = curve k') p p'"
       "rel_option (\<lambda>k k'. at' k = at' k' \<and> Keyframe.pathD k = Keyframe.pathD k' \<and> curve k = curve k') n n'"
    by blast
  from r show ?thesis
  proof (cases rule: bracket_rel_cases)
    case nn
    show ?thesis unfolding interpPath_def b nn by (simp only: prod.case option.case)
  next
    case (ns kn kn')
    then have v: "Keyframe.pathD kn = Keyframe.pathD kn'" by simp
    show ?thesis unfolding interpPath_def b ns(1-4) by (simp only: prod.case option.case v)
  next
    case (sn kp kp')
    then have v: "Keyframe.pathD kp = Keyframe.pathD kp'" by simp
    show ?thesis unfolding interpPath_def b sn(1-4) by (simp only: prod.case option.case v)
  next
    case (ss kp kp' kn kn')
    then have e: "easedT reg kp kn t = easedT reg kp' kn' t"
      by (intro easedT_track) simp_all
    from ss have v: "Keyframe.pathD kp = Keyframe.pathD kp'" "Keyframe.pathD kn = Keyframe.pathD kn'" by simp_all
    show ?thesis unfolding interpPath_def b ss(1-4) by (simp only: prod.case option.case e v)
  qed
qed

text \<open>
  The counter \<open>_gradIdCounter\<close>: a colour channel advances it by a number that depends
  on the track and not on the value of the counter.
\<close>

lemma snd_lerpGradientDef: "snd (lerpGradientDef h a b t c) = Suc c"
  by (cases a; cases b) (simp_all add: lerpGradientDef_def Let_def)

lemma snd_colorToUniformGradient: "snd (colorToUniformGradient h col g c) = Suc c"
  by (cases g) (simp_all add: colorToUniformGradient_def Let_def)

lemma snd_lerpColorOrGradient:
  "snd (lerpColorOrGradient h a b t gs c) = c + snd (lerpColorOrGradient h a b t gs 0)"
  by (simp add: lerpColorOrGradient_def Let_def snd_lerpGradientDef
      snd_colorToUniformGradient split: option.splits)

lemma interpColor_counter:
  assumes "interpColor reg h kfs t get gs c = Some (res, c')"
  shows "\<exists>k. c' = c + k \<and> (\<forall>d. \<exists>res'. interpColor reg h kfs t get gs d = Some (res', d + k))"
proof (cases "findBracket kfs t (\<lambda>kf. get kf \<noteq> None)")
  case (Pair p n)
  have eq: "interpColor reg h kfs t get gs d =
      (case (p, n) of
         (None, None) \<Rightarrow> Some (\<lparr>color = None, gradient = None\<rparr>, d)
       | (None, Some n) \<Rightarrow> Some (resolveResult h (the (get n)) gs, d)
       | (Some p, None) \<Rightarrow> Some (resolveResult h (the (get p)) gs, d)
       | (Some p, Some n) \<Rightarrow>
           map_option (\<lambda>e. lerpColorOrGradient h (get p) (get n) e gs d) (easedT reg p n t))"
    for d
    unfolding interpColor_def Pair ..
  show ?thesis
  proof (cases p; cases n)
    fix kp kn assume pn: "p = Some kp" "n = Some kn"
    with assms obtain e where e: "easedT reg kp kn t = Some e"
      and c': "c' = snd (lerpColorOrGradient h (get kp) (get kn) e gs c)"
      unfolding eq by auto
    let ?k = "snd (lerpColorOrGradient h (get kp) (get kn) e gs 0)"
    from c' have "c' = c + ?k" using snd_lerpColorOrGradient [of h "get kp" "get kn" e gs c]
      by simp
    moreover have "\<exists>res'. interpColor reg h kfs t get gs d = Some (res', d + ?k)" for d
    proof -
      have "interpColor reg h kfs t get gs d
          = Some (lerpColorOrGradient h (get kp) (get kn) e gs d)"
        unfolding eq pn by (simp add: e)
      also have "lerpColorOrGradient h (get kp) (get kn) e gs d
          = (fst (lerpColorOrGradient h (get kp) (get kn) e gs d), d + ?k)"
        using snd_lerpColorOrGradient [of h "get kp" "get kn" e gs d]
        by (simp add: prod_eq_iff)
      finally show ?thesis by blast
    qed
    ultimately show ?thesis by blast
  next
    assume "p = None" "n = None"
    with assms show ?thesis unfolding eq by auto
  next
    fix kn assume "p = None" "n = Some kn"
    with assms show ?thesis unfolding eq by auto
  next
    fix kp assume "p = Some kp" "n = None"
    with assms show ?thesis unfolding eq by auto
  qed
qed

lemma interpColor_same_counter:
  assumes "interpColor reg h kfs t get gs c = Some (res, e)"
    and "interpColor reg h kfs t get gs d = Some (res', e)"
  shows "c = d"
proof -
  from interpColor_counter [OF assms(1)] obtain k where
    k: "e = c + k" "\<And>d. \<exists>res'. interpColor reg h kfs t get gs d = Some (res', d + k)"
    by blast
  from k(2) [of d] assms(2) have "e = d + k" by auto
  with k(1) show ?thesis by simp
qed

lemma interpolate_channels_Nil:
  "interpolate_channels reg h [] t gs c = Some (default_state, c)"
  by (simp add: interpolate_channels_def default_state_def interpColor_def interpPoint_def
      interpScale_def interpNum_def interpOptNum_def interpPath_def interpSnap_def
      findBracket_def)

lemma interpolateKeyframes_channels:
  assumes "\<not> has_beforeInterpolate ps" "\<not> has_afterInterpolate ps"
    and "interpolateKeyframes reg h ps kfs t opts w = Some (st, w')"
  shows "interpolate_channels reg h kfs t
      (case opts of None \<Rightarrow> []
       | Some opt \<Rightarrow> (case InterpolateOptions.gradients opt of None \<Rightarrow> [] | Some l \<Rightarrow> l))
      (gradIdCounter w) = Some (st, gradIdCounter w')"
proof (cases "kfs = []")
  case True
  with assms(3) show ?thesis
    by (simp add: interpolateKeyframes_Nil interpolate_channels_Nil)
next
  case False
  from assms(3) interpolateKeyframes_no_hooks [OF assms(1,2) False, of reg h t opts w]
  show ?thesis by auto
qed
text \<open>
  The state that the channels build, for two lists: a field agrees where the tracks of
  its property agree.  The stroke is resolved after the fill and with the counter that
  the fill has left, so its generated gradient id counts the ids generated for the
  fill.
\<close>

lemma interpolate_channels_track:
  assumes a: "interpolate_channels reg h kfs t gs c = Some (st, e)"
    and b: "interpolate_channels reg h kfs' t gs c = Some (st', e')"
  shows "(track Keyframe.position kfs = track Keyframe.position kfs' \<longrightarrow>
            position st = position st')
       \<and> (track Keyframe.scale kfs = track Keyframe.scale kfs' \<longrightarrow> scale st = scale st')
       \<and> (track Keyframe.rotation kfs = track Keyframe.rotation kfs' \<longrightarrow>
            rotation st = rotation st')
       \<and> (track Keyframe.opacity kfs = track Keyframe.opacity kfs' \<longrightarrow>
            opacity st = opacity st')
       \<and> (track Keyframe.fill kfs = track Keyframe.fill kfs' \<longrightarrow>
            fill st = fill st' \<and> fillGradient st = fillGradient st')
       \<and> (track Keyframe.stroke kfs = track Keyframe.stroke kfs' \<and> e = e' \<longrightarrow>
            stroke st = stroke st' \<and> strokeGradient st = strokeGradient st')
       \<and> (track Keyframe.strokeWidth kfs = track Keyframe.strokeWidth kfs' \<longrightarrow>
            strokeWidth st = strokeWidth st')
       \<and> (track Keyframe.strokeAlign kfs = track Keyframe.strokeAlign kfs' \<longrightarrow>
            strokeAlign st = strokeAlign st')
       \<and> (track Keyframe.blurRadius kfs = track Keyframe.blurRadius kfs' \<longrightarrow>
            blurRadius st = blurRadius st')
       \<and> (track Keyframe.backdropBlur kfs = track Keyframe.backdropBlur kfs' \<longrightarrow>
            backdropBlur st = backdropBlur st')
       \<and> (track Keyframe.width kfs = track Keyframe.width kfs' \<longrightarrow> width st = width st')
       \<and> (track Keyframe.height kfs = track Keyframe.height kfs' \<longrightarrow> height st = height st')
       \<and> (track Keyframe.pathD kfs = track Keyframe.pathD kfs' \<longrightarrow> pathD st = pathD st')"
proof -
  from interpolate_channels_SomeD [OF a] obtain fr sr where
    ch: "interpColor reg h kfs t Keyframe.fill gs c = Some fr"
      "interpColor reg h kfs t Keyframe.stroke gs (snd fr) = Some sr"
      "interpPoint reg kfs t Keyframe.position \<lparr>Point.x = 0, Point.y = 0\<rparr> = Some (position st)"
      "interpScale reg kfs t = Some (scale st)"
      "interpNum reg kfs t Keyframe.rotation 0 = Some (rotation st)"
      "interpNum reg kfs t Keyframe.opacity 1 = Some (opacity st)"
      "interpOptNum reg kfs t Keyframe.strokeWidth = Some (strokeWidth st)"
      "interpOptNum reg kfs t Keyframe.blurRadius = Some (blurRadius st)"
      "interpOptNum reg kfs t Keyframe.backdropBlur = Some (backdropBlur st)"
      "interpOptNum reg kfs t Keyframe.width = Some (width st)"
      "interpOptNum reg kfs t Keyframe.height = Some (height st)"
      "interpPath reg h kfs t = Some (pathD st)"
      "strokeAlign st = interpSnap kfs t Keyframe.strokeAlign"
      "fill st = color (fst fr)" "fillGradient st = gradient (fst fr)"
      "stroke st = color (fst sr)" "strokeGradient st = gradient (fst sr)"
      "e = snd sr"
    by blast
  from interpolate_channels_SomeD [OF b] obtain fr' sr' where
    ch': "interpColor reg h kfs' t Keyframe.fill gs c = Some fr'"
      "interpColor reg h kfs' t Keyframe.stroke gs (snd fr') = Some sr'"
      "interpPoint reg kfs' t Keyframe.position \<lparr>Point.x = 0, Point.y = 0\<rparr> = Some (position st')"
      "interpScale reg kfs' t = Some (scale st')"
      "interpNum reg kfs' t Keyframe.rotation 0 = Some (rotation st')"
      "interpNum reg kfs' t Keyframe.opacity 1 = Some (opacity st')"
      "interpOptNum reg kfs' t Keyframe.strokeWidth = Some (strokeWidth st')"
      "interpOptNum reg kfs' t Keyframe.blurRadius = Some (blurRadius st')"
      "interpOptNum reg kfs' t Keyframe.backdropBlur = Some (backdropBlur st')"
      "interpOptNum reg kfs' t Keyframe.width = Some (width st')"
      "interpOptNum reg kfs' t Keyframe.height = Some (height st')"
      "interpPath reg h kfs' t = Some (pathD st')"
      "strokeAlign st' = interpSnap kfs' t Keyframe.strokeAlign"
      "fill st' = color (fst fr')" "fillGradient st' = gradient (fst fr')"
      "stroke st' = color (fst sr')" "strokeGradient st' = gradient (fst sr')"
      "e' = snd sr'"
    by blast
  have po: "position st = position st'"
    if "track Keyframe.position kfs = track Keyframe.position kfs'"
    using ch(3) ch'(3) interpPoint_track [OF that, of reg t "\<lparr>Point.x = 0, Point.y = 0\<rparr>"]
    by simp
  have sc: "scale st = scale st'" if "track Keyframe.scale kfs = track Keyframe.scale kfs'"
    using ch(4) ch'(4) interpScale_track [OF that, of reg t] by simp
  have ro: "rotation st = rotation st'"
    if "track Keyframe.rotation kfs = track Keyframe.rotation kfs'"
    using ch(5) ch'(5) interpNum_track [OF that, of reg t 0] by simp
  have op: "opacity st = opacity st'"
    if "track Keyframe.opacity kfs = track Keyframe.opacity kfs'"
    using ch(6) ch'(6) interpNum_track [OF that, of reg t 1] by simp
  have fi: "fill st = fill st' \<and> fillGradient st = fillGradient st'"
    if "track Keyframe.fill kfs = track Keyframe.fill kfs'"
    using ch(1,14,15) ch'(1,14,15) interpColor_track [OF that, of reg h t gs c] by simp
  have sk: "stroke st = stroke st' \<and> strokeGradient st = strokeGradient st'"
    if tr: "track Keyframe.stroke kfs = track Keyframe.stroke kfs'" and ee: "e = e'"
  proof -
    from ch'(2) interpColor_track [OF tr, of reg h t gs "snd fr'"]
    have 1: "interpColor reg h kfs t Keyframe.stroke gs (snd fr') = Some (fst sr', snd sr')"
      by simp
    from ch(2) have 2: "interpColor reg h kfs t Keyframe.stroke gs (snd fr) = Some (fst sr, snd sr')"
      using ee ch(18) ch'(18) by (simp add: prod_eq_iff)
    from interpColor_same_counter [OF 2 1] have "snd fr = snd fr'" .
    with ch(2) 1 have "sr = sr'" by simp
    with ch(16,17) ch'(16,17) show ?thesis by simp
  qed
  have sw: "strokeWidth st = strokeWidth st'"
    if "track Keyframe.strokeWidth kfs = track Keyframe.strokeWidth kfs'"
    using ch(7) ch'(7) interpOptNum_track [OF that, of reg t] by simp
  have sa: "strokeAlign st = strokeAlign st'"
    if "track Keyframe.strokeAlign kfs = track Keyframe.strokeAlign kfs'"
    using ch(13) ch'(13) interpSnap_track [OF that, of t] by simp
  have br: "blurRadius st = blurRadius st'"
    if "track Keyframe.blurRadius kfs = track Keyframe.blurRadius kfs'"
    using ch(8) ch'(8) interpOptNum_track [OF that, of reg t] by simp
  have bb: "backdropBlur st = backdropBlur st'"
    if "track Keyframe.backdropBlur kfs = track Keyframe.backdropBlur kfs'"
    using ch(9) ch'(9) interpOptNum_track [OF that, of reg t] by simp
  have wd: "width st = width st'" if "track Keyframe.width kfs = track Keyframe.width kfs'"
    using ch(10) ch'(10) interpOptNum_track [OF that, of reg t] by simp
  have ht: "height st = height st'" if "track Keyframe.height kfs = track Keyframe.height kfs'"
    using ch(11) ch'(11) interpOptNum_track [OF that, of reg t] by simp
  have pd: "pathD st = pathD st'" if "track Keyframe.pathD kfs = track Keyframe.pathD kfs'"
    using ch(12) ch'(12) interpPath_track [OF that, of reg h t] by simp
  from po sc ro op fi sk sw sa br bb wd ht pd show ?thesis by blast
qed

text \<open>The same state where no keyframe defines a property.\<close>

lemma interpolate_channels_never:
  assumes a: "interpolate_channels reg h kfs t gs c = Some (st, e)"
  shows "(never_defines kfs Keyframe.fill \<longrightarrow> fill st = None \<and> fillGradient st = None)
      \<and> (never_defines kfs Keyframe.stroke \<longrightarrow> stroke st = None \<and> strokeGradient st = None)
      \<and> (never_defines kfs Keyframe.strokeWidth \<longrightarrow> strokeWidth st = None)
      \<and> (never_defines kfs Keyframe.strokeAlign \<longrightarrow> strokeAlign st = None)
      \<and> (never_defines kfs Keyframe.blurRadius \<longrightarrow> blurRadius st = None)
      \<and> (never_defines kfs Keyframe.backdropBlur \<longrightarrow> backdropBlur st = None)
      \<and> (never_defines kfs Keyframe.width \<longrightarrow> width st = None)
      \<and> (never_defines kfs Keyframe.height \<longrightarrow> height st = None)
      \<and> (never_defines kfs Keyframe.pathD \<longrightarrow> pathD st = None)
      \<and> (never_defines kfs Keyframe.position \<longrightarrow> position st = \<lparr>Point.x = 0, Point.y = 0\<rparr>)
      \<and> (never_defines kfs Keyframe.scale \<longrightarrow> scale st = ScaleNumber 1)
      \<and> (never_defines kfs Keyframe.rotation \<longrightarrow> rotation st = 0)
      \<and> (never_defines kfs Keyframe.opacity \<longrightarrow> opacity st = 1)"
proof -
  from interpolate_channels_SomeD [OF a] obtain fr sr where
    ch: "interpColor reg h kfs t Keyframe.fill gs c = Some fr"
      "interpColor reg h kfs t Keyframe.stroke gs (snd fr) = Some sr"
      "interpPoint reg kfs t Keyframe.position \<lparr>Point.x = 0, Point.y = 0\<rparr> = Some (position st)"
      "interpScale reg kfs t = Some (scale st)"
      "interpNum reg kfs t Keyframe.rotation 0 = Some (rotation st)"
      "interpNum reg kfs t Keyframe.opacity 1 = Some (opacity st)"
      "interpOptNum reg kfs t Keyframe.strokeWidth = Some (strokeWidth st)"
      "interpOptNum reg kfs t Keyframe.blurRadius = Some (blurRadius st)"
      "interpOptNum reg kfs t Keyframe.backdropBlur = Some (backdropBlur st)"
      "interpOptNum reg kfs t Keyframe.width = Some (width st)"
      "interpOptNum reg kfs t Keyframe.height = Some (height st)"
      "interpPath reg h kfs t = Some (pathD st)"
      "strokeAlign st = interpSnap kfs t Keyframe.strokeAlign"
      "fill st = color (fst fr)" "fillGradient st = gradient (fst fr)"
      "stroke st = color (fst sr)" "strokeGradient st = gradient (fst sr)"
    by blast
  have f: "never_defines kfs Keyframe.fill \<longrightarrow> fill st = None \<and> fillGradient st = None"
    using ch(1,14,15) interpColor_never [of kfs Keyframe.fill reg h t gs c]
    by auto
  have s: "never_defines kfs Keyframe.stroke \<longrightarrow> stroke st = None \<and> strokeGradient st = None"
    using ch(2,16,17) interpColor_never [of kfs Keyframe.stroke reg h t gs "snd fr"]
    by auto
  have sw: "never_defines kfs Keyframe.strokeWidth \<longrightarrow> strokeWidth st = None"
    using ch(7) interpOptNum_never [of kfs Keyframe.strokeWidth reg t] by auto
  have sa: "never_defines kfs Keyframe.strokeAlign \<longrightarrow> strokeAlign st = None"
    using ch(13) interpSnap_never [of kfs Keyframe.strokeAlign t] by auto
  have br: "never_defines kfs Keyframe.blurRadius \<longrightarrow> blurRadius st = None"
    using ch(8) interpOptNum_never [of kfs Keyframe.blurRadius reg t] by auto
  have bb: "never_defines kfs Keyframe.backdropBlur \<longrightarrow> backdropBlur st = None"
    using ch(9) interpOptNum_never [of kfs Keyframe.backdropBlur reg t] by auto
  have wd: "never_defines kfs Keyframe.width \<longrightarrow> width st = None"
    using ch(10) interpOptNum_never [of kfs Keyframe.width reg t] by auto
  have ht: "never_defines kfs Keyframe.height \<longrightarrow> height st = None"
    using ch(11) interpOptNum_never [of kfs Keyframe.height reg t] by auto
  have pd: "never_defines kfs Keyframe.pathD \<longrightarrow> pathD st = None"
    using ch(12) interpPath_never [of kfs reg h t] by auto
  have po: "never_defines kfs Keyframe.position \<longrightarrow> position st = \<lparr>Point.x = 0, Point.y = 0\<rparr>"
    using ch(3) interpPoint_never [of kfs Keyframe.position reg t] by auto
  have sc: "never_defines kfs Keyframe.scale \<longrightarrow> scale st = ScaleNumber 1"
    using ch(4) interpScale_never [of kfs reg t] by auto
  have ro: "never_defines kfs Keyframe.rotation \<longrightarrow> rotation st = 0"
    using ch(5) interpNum_never [of kfs Keyframe.rotation reg t 0] by auto
  have op: "never_defines kfs Keyframe.opacity \<longrightarrow> opacity st = 1"
    using ch(6) interpNum_never [of kfs Keyframe.opacity reg t 1] by auto
  from f s sw sa br bb wd ht pd po sc ro op show ?thesis by blast
qed

text \<open>The examples: a fade with and without a keyframe that sets only the fill.\<close>

lemma fade_out_result:
  "interpolateKeyframes easingFunctions example_host [] fade_out 250 None no_effects
    = Some (default_state\<lparr>opacity := 3 / 4\<rparr>, no_effects)"
  by (simp add: interpolateKeyframes_def interpolate_channels_def has_beforeInterpolate_def
      has_afterInterpolate_def fade_out_def keyframe_at_def no_effects_def default_state_def
      interpColor_def interpPoint_def interpScale_def interpNum_def interpOptNum_def
      interpPath_def interpSnap_def findBracket_def easedT_def getEasingFunction_def
      property_def easingFunctions_linear lerp_def)

lemma fade_with_fill_returns:
  "\<exists>st w. interpolateKeyframes easingFunctions example_host [] fade_with_fill 250 None
      no_effects = Some (st, w)"
  by (simp add: interpolateKeyframes_def interpolate_channels_def has_beforeInterpolate_def
      has_afterInterpolate_def fade_with_fill_def keyframe_at_def no_effects_def
      interpColor_def interpPoint_def interpScale_def interpNum_def interpOptNum_def
      interpPath_def interpSnap_def findBracket_def easedT_def getEasingFunction_def
      property_def easingFunctions_linear lerp_def resolveResult_def startsWith_url_def)

text \<open>
  C1 (as amended).  Let no plugin implement \<open>beforeInterpolate\<close> or
  \<open>afterInterpolate\<close>.  Then \<open>interpolateKeyframes\<close> resolves every property from its
  track alone, that is from the keyframes that define it, each with its time, its value
  and its easing curve:

  \<^item> two keyframe lists with the same track of a property give, at the same query
    time, the same result for that property, whatever else their keyframes define;
    for \<open>stroke\<close> and \<open>strokeGradient\<close> this holds when the two calls also leave the
    same gradient counter, since the id of a generated gradient carries the counter;
  \<^item> if no keyframe defines a property, an optional property (\<open>fill\<close>, \<open>stroke\<close>,
    \<open>strokeWidth\<close>, \<open>strokeAlign\<close>, \<open>blurRadius\<close>, \<open>backdropBlur\<close>, \<open>width\<close>,
    \<open>height\<close>, \<open>pathD\<close>, and with the colours \<open>fillGradient\<close> and \<open>strokeGradient\<close>) is
    absent, and a required property has its default: position \<open>(0,0)\<close>, scale 1,
    rotation 0, opacity 1.

  The same holds of each channel helper, which then returns.  In particular a keyframe
  that defines only \<open>fill\<close> is in no other track, and creates no hold segment.
\<close>

theorem interpolate_undefined_property:
  assumes nb: "\<not> has_beforeInterpolate ps" and na: "\<not> has_afterInterpolate ps"
  shows
  "((track getColor kfs = track getColor kfs' \<longrightarrow>
        interpColor reg h kfs t getColor gs c = interpColor reg h kfs' t getColor gs c)
    \<and> (track getNum kfs = track getNum kfs' \<longrightarrow>
         interpOptNum reg kfs t getNum = interpOptNum reg kfs' t getNum
         \<and> interpNum reg kfs t getNum d = interpNum reg kfs' t getNum d)
    \<and> (track getPoint kfs = track getPoint kfs' \<longrightarrow>
         interpPoint reg kfs t getPoint dp = interpPoint reg kfs' t getPoint dp)
    \<and> (track Keyframe.scale kfs = track Keyframe.scale kfs' \<longrightarrow>
         interpScale reg kfs t = interpScale reg kfs' t)
    \<and> (track getSnap kfs = track getSnap kfs' \<longrightarrow>
         interpSnap kfs t getSnap = interpSnap kfs' t getSnap)
    \<and> (track Keyframe.pathD kfs = track Keyframe.pathD kfs' \<longrightarrow>
         interpPath reg h kfs t = interpPath reg h kfs' t))
   \<and> ((never_defines kfs getColor \<longrightarrow>
        interpColor reg h kfs t getColor gs c = Some (\<lparr>color = None, gradient = None\<rparr>, c))
    \<and> (never_defines kfs getNum \<longrightarrow>
         interpOptNum reg kfs t getNum = Some None \<and> interpNum reg kfs t getNum d = Some d)
    \<and> (never_defines kfs getPoint \<longrightarrow> interpPoint reg kfs t getPoint dp = Some dp)
    \<and> (never_defines kfs Keyframe.scale \<longrightarrow> interpScale reg kfs t = Some (ScaleNumber 1))
    \<and> (never_defines kfs getSnap \<longrightarrow> interpSnap kfs t getSnap = None)
    \<and> (never_defines kfs Keyframe.pathD \<longrightarrow> interpPath reg h kfs t = Some None))
   \<and> (interpolateKeyframes reg h ps kfs t opts w = Some (st, w1) \<longrightarrow>
       ((never_defines kfs Keyframe.fill \<longrightarrow> fill st = None \<and> fillGradient st = None)
      \<and> (never_defines kfs Keyframe.stroke \<longrightarrow> stroke st = None \<and> strokeGradient st = None)
      \<and> (never_defines kfs Keyframe.strokeWidth \<longrightarrow> strokeWidth st = None)
      \<and> (never_defines kfs Keyframe.strokeAlign \<longrightarrow> strokeAlign st = None)
      \<and> (never_defines kfs Keyframe.blurRadius \<longrightarrow> blurRadius st = None)
      \<and> (never_defines kfs Keyframe.backdropBlur \<longrightarrow> backdropBlur st = None)
      \<and> (never_defines kfs Keyframe.width \<longrightarrow> width st = None)
      \<and> (never_defines kfs Keyframe.height \<longrightarrow> height st = None)
      \<and> (never_defines kfs Keyframe.pathD \<longrightarrow> pathD st = None)
      \<and> (never_defines kfs Keyframe.position \<longrightarrow> position st = \<lparr>Point.x = 0, Point.y = 0\<rparr>)
      \<and> (never_defines kfs Keyframe.scale \<longrightarrow> scale st = ScaleNumber 1)
      \<and> (never_defines kfs Keyframe.rotation \<longrightarrow> rotation st = 0)
      \<and> (never_defines kfs Keyframe.opacity \<longrightarrow> opacity st = 1))
     \<and> (interpolateKeyframes reg h ps kfs' t opts w = Some (st', w1') \<longrightarrow>
         (track Keyframe.position kfs = track Keyframe.position kfs' \<longrightarrow>
            position st = position st')
       \<and> (track Keyframe.scale kfs = track Keyframe.scale kfs' \<longrightarrow> scale st = scale st')
       \<and> (track Keyframe.rotation kfs = track Keyframe.rotation kfs' \<longrightarrow>
            rotation st = rotation st')
       \<and> (track Keyframe.opacity kfs = track Keyframe.opacity kfs' \<longrightarrow>
            opacity st = opacity st')
       \<and> (track Keyframe.fill kfs = track Keyframe.fill kfs' \<longrightarrow>
            fill st = fill st' \<and> fillGradient st = fillGradient st')
       \<and> (track Keyframe.stroke kfs = track Keyframe.stroke kfs'
            \<and> gradIdCounter w1 = gradIdCounter w1' \<longrightarrow>
            stroke st = stroke st' \<and> strokeGradient st = strokeGradient st')
       \<and> (track Keyframe.strokeWidth kfs = track Keyframe.strokeWidth kfs' \<longrightarrow>
            strokeWidth st = strokeWidth st')
       \<and> (track Keyframe.strokeAlign kfs = track Keyframe.strokeAlign kfs' \<longrightarrow>
            strokeAlign st = strokeAlign st')
       \<and> (track Keyframe.blurRadius kfs = track Keyframe.blurRadius kfs' \<longrightarrow>
            blurRadius st = blurRadius st')
       \<and> (track Keyframe.backdropBlur kfs = track Keyframe.backdropBlur kfs' \<longrightarrow>
            backdropBlur st = backdropBlur st')
       \<and> (track Keyframe.width kfs = track Keyframe.width kfs' \<longrightarrow> width st = width st')
       \<and> (track Keyframe.height kfs = track Keyframe.height kfs' \<longrightarrow> height st = height st')
       \<and> (track Keyframe.pathD kfs = track Keyframe.pathD kfs' \<longrightarrow> pathD st = pathD st')))"
proof -
  have channels: "(track getColor kfs = track getColor kfs' \<longrightarrow>
        interpColor reg h kfs t getColor gs c = interpColor reg h kfs' t getColor gs c)
    \<and> (track getNum kfs = track getNum kfs' \<longrightarrow>
         interpOptNum reg kfs t getNum = interpOptNum reg kfs' t getNum
         \<and> interpNum reg kfs t getNum d = interpNum reg kfs' t getNum d)
    \<and> (track getPoint kfs = track getPoint kfs' \<longrightarrow>
         interpPoint reg kfs t getPoint dp = interpPoint reg kfs' t getPoint dp)
    \<and> (track Keyframe.scale kfs = track Keyframe.scale kfs' \<longrightarrow>
         interpScale reg kfs t = interpScale reg kfs' t)
    \<and> (track getSnap kfs = track getSnap kfs' \<longrightarrow>
         interpSnap kfs t getSnap = interpSnap kfs' t getSnap)
    \<and> (track Keyframe.pathD kfs = track Keyframe.pathD kfs' \<longrightarrow>
         interpPath reg h kfs t = interpPath reg h kfs' t)"
    using interpColor_track [of getColor kfs kfs' reg h t gs c]
      interpOptNum_track [of getNum kfs kfs' reg t] interpNum_track [of getNum kfs kfs' reg t d]
      interpPoint_track [of getPoint kfs kfs' reg t dp] interpScale_track [of kfs kfs' reg t]
      interpSnap_track [of getSnap kfs kfs' t] interpPath_track [of kfs kfs' reg h t]
    by blast
  have never: "(never_defines kfs getColor \<longrightarrow>
        interpColor reg h kfs t getColor gs c = Some (\<lparr>color = None, gradient = None\<rparr>, c))
    \<and> (never_defines kfs getNum \<longrightarrow>
         interpOptNum reg kfs t getNum = Some None \<and> interpNum reg kfs t getNum d = Some d)
    \<and> (never_defines kfs getPoint \<longrightarrow> interpPoint reg kfs t getPoint dp = Some dp)
    \<and> (never_defines kfs Keyframe.scale \<longrightarrow> interpScale reg kfs t = Some (ScaleNumber 1))
    \<and> (never_defines kfs getSnap \<longrightarrow> interpSnap kfs t getSnap = None)
    \<and> (never_defines kfs Keyframe.pathD \<longrightarrow> interpPath reg h kfs t = Some None)"
    using interpColor_never [of kfs getColor reg h t gs c]
      interpOptNum_never [of kfs getNum reg t] interpNum_never [of kfs getNum reg t d]
      interpPoint_never [of kfs getPoint reg t dp] interpScale_never [of kfs reg t]
      interpSnap_never [of kfs getSnap t] interpPath_never [of kfs reg h t]
    by blast
  have state: "interpolateKeyframes reg h ps kfs t opts w = Some (st, w1) \<longrightarrow>
       ((never_defines kfs Keyframe.fill \<longrightarrow> fill st = None \<and> fillGradient st = None)
      \<and> (never_defines kfs Keyframe.stroke \<longrightarrow> stroke st = None \<and> strokeGradient st = None)
      \<and> (never_defines kfs Keyframe.strokeWidth \<longrightarrow> strokeWidth st = None)
      \<and> (never_defines kfs Keyframe.strokeAlign \<longrightarrow> strokeAlign st = None)
      \<and> (never_defines kfs Keyframe.blurRadius \<longrightarrow> blurRadius st = None)
      \<and> (never_defines kfs Keyframe.backdropBlur \<longrightarrow> backdropBlur st = None)
      \<and> (never_defines kfs Keyframe.width \<longrightarrow> width st = None)
      \<and> (never_defines kfs Keyframe.height \<longrightarrow> height st = None)
      \<and> (never_defines kfs Keyframe.pathD \<longrightarrow> pathD st = None)
      \<and> (never_defines kfs Keyframe.position \<longrightarrow> position st = \<lparr>Point.x = 0, Point.y = 0\<rparr>)
      \<and> (never_defines kfs Keyframe.scale \<longrightarrow> scale st = ScaleNumber 1)
      \<and> (never_defines kfs Keyframe.rotation \<longrightarrow> rotation st = 0)
      \<and> (never_defines kfs Keyframe.opacity \<longrightarrow> opacity st = 1))
     \<and> (interpolateKeyframes reg h ps kfs' t opts w = Some (st', w1') \<longrightarrow>
         (track Keyframe.position kfs = track Keyframe.position kfs' \<longrightarrow>
            position st = position st')
       \<and> (track Keyframe.scale kfs = track Keyframe.scale kfs' \<longrightarrow> scale st = scale st')
       \<and> (track Keyframe.rotation kfs = track Keyframe.rotation kfs' \<longrightarrow>
            rotation st = rotation st')
       \<and> (track Keyframe.opacity kfs = track Keyframe.opacity kfs' \<longrightarrow>
            opacity st = opacity st')
       \<and> (track Keyframe.fill kfs = track Keyframe.fill kfs' \<longrightarrow>
            fill st = fill st' \<and> fillGradient st = fillGradient st')
       \<and> (track Keyframe.stroke kfs = track Keyframe.stroke kfs'
            \<and> gradIdCounter w1 = gradIdCounter w1' \<longrightarrow>
            stroke st = stroke st' \<and> strokeGradient st = strokeGradient st')
       \<and> (track Keyframe.strokeWidth kfs = track Keyframe.strokeWidth kfs' \<longrightarrow>
            strokeWidth st = strokeWidth st')
       \<and> (track Keyframe.strokeAlign kfs = track Keyframe.strokeAlign kfs' \<longrightarrow>
            strokeAlign st = strokeAlign st')
       \<and> (track Keyframe.blurRadius kfs = track Keyframe.blurRadius kfs' \<longrightarrow>
            blurRadius st = blurRadius st')
       \<and> (track Keyframe.backdropBlur kfs = track Keyframe.backdropBlur kfs' \<longrightarrow>
            backdropBlur st = backdropBlur st')
       \<and> (track Keyframe.width kfs = track Keyframe.width kfs' \<longrightarrow> width st = width st')
       \<and> (track Keyframe.height kfs = track Keyframe.height kfs' \<longrightarrow> height st = height st')
       \<and> (track Keyframe.pathD kfs = track Keyframe.pathD kfs' \<longrightarrow> pathD st = pathD st'))"
  proof
    assume res: "interpolateKeyframes reg h ps kfs t opts w = Some (st, w1)"
    note a = interpolateKeyframes_channels [OF nb na res]
    have tracks: "interpolateKeyframes reg h ps kfs' t opts w = Some (st', w1') \<longrightarrow>
         (track Keyframe.position kfs = track Keyframe.position kfs' \<longrightarrow>
            position st = position st')
       \<and> (track Keyframe.scale kfs = track Keyframe.scale kfs' \<longrightarrow> scale st = scale st')
       \<and> (track Keyframe.rotation kfs = track Keyframe.rotation kfs' \<longrightarrow>
            rotation st = rotation st')
       \<and> (track Keyframe.opacity kfs = track Keyframe.opacity kfs' \<longrightarrow>
            opacity st = opacity st')
       \<and> (track Keyframe.fill kfs = track Keyframe.fill kfs' \<longrightarrow>
            fill st = fill st' \<and> fillGradient st = fillGradient st')
       \<and> (track Keyframe.stroke kfs = track Keyframe.stroke kfs'
            \<and> gradIdCounter w1 = gradIdCounter w1' \<longrightarrow>
            stroke st = stroke st' \<and> strokeGradient st = strokeGradient st')
       \<and> (track Keyframe.strokeWidth kfs = track Keyframe.strokeWidth kfs' \<longrightarrow>
            strokeWidth st = strokeWidth st')
       \<and> (track Keyframe.strokeAlign kfs = track Keyframe.strokeAlign kfs' \<longrightarrow>
            strokeAlign st = strokeAlign st')
       \<and> (track Keyframe.blurRadius kfs = track Keyframe.blurRadius kfs' \<longrightarrow>
            blurRadius st = blurRadius st')
       \<and> (track Keyframe.backdropBlur kfs = track Keyframe.backdropBlur kfs' \<longrightarrow>
            backdropBlur st = backdropBlur st')
       \<and> (track Keyframe.width kfs = track Keyframe.width kfs' \<longrightarrow> width st = width st')
       \<and> (track Keyframe.height kfs = track Keyframe.height kfs' \<longrightarrow> height st = height st')
       \<and> (track Keyframe.pathD kfs = track Keyframe.pathD kfs' \<longrightarrow> pathD st = pathD st')"
    proof
      assume res': "interpolateKeyframes reg h ps kfs' t opts w = Some (st', w1')"
      note b = interpolateKeyframes_channels [OF nb na res']
      from interpolate_channels_track [OF a b]
      show "(track Keyframe.position kfs = track Keyframe.position kfs' \<longrightarrow>
            position st = position st')
       \<and> (track Keyframe.scale kfs = track Keyframe.scale kfs' \<longrightarrow> scale st = scale st')
       \<and> (track Keyframe.rotation kfs = track Keyframe.rotation kfs' \<longrightarrow>
            rotation st = rotation st')
       \<and> (track Keyframe.opacity kfs = track Keyframe.opacity kfs' \<longrightarrow>
            opacity st = opacity st')
       \<and> (track Keyframe.fill kfs = track Keyframe.fill kfs' \<longrightarrow>
            fill st = fill st' \<and> fillGradient st = fillGradient st')
       \<and> (track Keyframe.stroke kfs = track Keyframe.stroke kfs'
            \<and> gradIdCounter w1 = gradIdCounter w1' \<longrightarrow>
            stroke st = stroke st' \<and> strokeGradient st = strokeGradient st')
       \<and> (track Keyframe.strokeWidth kfs = track Keyframe.strokeWidth kfs' \<longrightarrow>
            strokeWidth st = strokeWidth st')
       \<and> (track Keyframe.strokeAlign kfs = track Keyframe.strokeAlign kfs' \<longrightarrow>
            strokeAlign st = strokeAlign st')
       \<and> (track Keyframe.blurRadius kfs = track Keyframe.blurRadius kfs' \<longrightarrow>
            blurRadius st = blurRadius st')
       \<and> (track Keyframe.backdropBlur kfs = track Keyframe.backdropBlur kfs' \<longrightarrow>
            backdropBlur st = backdropBlur st')
       \<and> (track Keyframe.width kfs = track Keyframe.width kfs' \<longrightarrow> width st = width st')
       \<and> (track Keyframe.height kfs = track Keyframe.height kfs' \<longrightarrow> height st = height st')
       \<and> (track Keyframe.pathD kfs = track Keyframe.pathD kfs' \<longrightarrow> pathD st = pathD st')" .
    qed
    from interpolate_channels_never [OF a] tracks
    show "((never_defines kfs Keyframe.fill \<longrightarrow> fill st = None \<and> fillGradient st = None)
      \<and> (never_defines kfs Keyframe.stroke \<longrightarrow> stroke st = None \<and> strokeGradient st = None)
      \<and> (never_defines kfs Keyframe.strokeWidth \<longrightarrow> strokeWidth st = None)
      \<and> (never_defines kfs Keyframe.strokeAlign \<longrightarrow> strokeAlign st = None)
      \<and> (never_defines kfs Keyframe.blurRadius \<longrightarrow> blurRadius st = None)
      \<and> (never_defines kfs Keyframe.backdropBlur \<longrightarrow> backdropBlur st = None)
      \<and> (never_defines kfs Keyframe.width \<longrightarrow> width st = None)
      \<and> (never_defines kfs Keyframe.height \<longrightarrow> height st = None)
      \<and> (never_defines kfs Keyframe.pathD \<longrightarrow> pathD st = None)
      \<and> (never_defines kfs Keyframe.position \<longrightarrow> position st = \<lparr>Point.x = 0, Point.y = 0\<rparr>)
      \<and> (never_defines kfs Keyframe.scale \<longrightarrow> scale st = ScaleNumber 1)
      \<and> (never_defines kfs Keyframe.rotation \<longrightarrow> rotation st = 0)
      \<and> (never_defines kfs Keyframe.opacity \<longrightarrow> opacity st = 1))
     \<and> (interpolateKeyframes reg h ps kfs' t opts w = Some (st', w1') \<longrightarrow>
         (track Keyframe.position kfs = track Keyframe.position kfs' \<longrightarrow>
            position st = position st')
       \<and> (track Keyframe.scale kfs = track Keyframe.scale kfs' \<longrightarrow> scale st = scale st')
       \<and> (track Keyframe.rotation kfs = track Keyframe.rotation kfs' \<longrightarrow>
            rotation st = rotation st')
       \<and> (track Keyframe.opacity kfs = track Keyframe.opacity kfs' \<longrightarrow>
            opacity st = opacity st')
       \<and> (track Keyframe.fill kfs = track Keyframe.fill kfs' \<longrightarrow>
            fill st = fill st' \<and> fillGradient st = fillGradient st')
       \<and> (track Keyframe.stroke kfs = track Keyframe.stroke kfs'
            \<and> gradIdCounter w1 = gradIdCounter w1' \<longrightarrow>
            stroke st = stroke st' \<and> strokeGradient st = strokeGradient st')
       \<and> (track Keyframe.strokeWidth kfs = track Keyframe.strokeWidth kfs' \<longrightarrow>
            strokeWidth st = strokeWidth st')
       \<and> (track Keyframe.strokeAlign kfs = track Keyframe.strokeAlign kfs' \<longrightarrow>
            strokeAlign st = strokeAlign st')
       \<and> (track Keyframe.blurRadius kfs = track Keyframe.blurRadius kfs' \<longrightarrow>
            blurRadius st = blurRadius st')
       \<and> (track Keyframe.backdropBlur kfs = track Keyframe.backdropBlur kfs' \<longrightarrow>
            backdropBlur st = backdropBlur st')
       \<and> (track Keyframe.width kfs = track Keyframe.width kfs' \<longrightarrow> width st = width st')
       \<and> (track Keyframe.height kfs = track Keyframe.height kfs' \<longrightarrow> height st = height st')
       \<and> (track Keyframe.pathD kfs = track Keyframe.pathD kfs' \<longrightarrow> pathD st = pathD st'))"
      by (rule conjI)
  qed
  from channels never state show ?thesis
    by (intro conjI [OF channels] conjI [OF never]) 
qed

theorem interpolate_undefined_property_witness:
  "track Keyframe.opacity fade_with_fill = track Keyframe.opacity fade_out
   \<and> never_defines fade_with_fill Keyframe.strokeWidth
   \<and> never_defines fade_with_fill Keyframe.position
   \<and> (\<exists>st w1 st' w1'.
        interpolateKeyframes easingFunctions example_host [] fade_with_fill 250 None no_effects
          = Some (st, w1)
        \<and> interpolateKeyframes easingFunctions example_host [] fade_out 250 None no_effects
          = Some (st', w1')
        \<and> opacity st' = 3 / 4 \<and> opacity st = 3 / 4 \<and> strokeWidth st = None
        \<and> position st = \<lparr>Point.x = 0, Point.y = 0\<rparr>)"
proof -
  let ?st' = "default_state\<lparr>opacity := 3 / 4\<rparr>"
  have nb: "\<not> has_beforeInterpolate []" and na: "\<not> has_afterInterpolate []"
    by (simp_all add: has_beforeInterpolate_def has_afterInterpolate_def)
  have tr: "track Keyframe.opacity fade_with_fill = track Keyframe.opacity fade_out"
    by (simp add: track_def fade_with_fill_def fade_out_def keyframe_at_def)
  have nd: "never_defines fade_with_fill Keyframe.strokeWidth"
    "never_defines fade_with_fill Keyframe.position"
    by (simp_all add: never_defines_def fade_with_fill_def keyframe_at_def)
  from fade_with_fill_returns obtain st w1 where
    res: "interpolateKeyframes easingFunctions example_host [] fade_with_fill 250 None
      no_effects = Some (st, w1)"
    by blast
  note all = interpolate_undefined_property [OF nb na, where kfs = fade_with_fill
      and kfs' = fade_out and reg = easingFunctions and h = example_host and t = 250
      and opts = None and w = no_effects and st = st and ?w1.0 = w1 and st' = ?st'
      and w1' = no_effects, THEN conjunct2, THEN conjunct2, THEN mp, OF res]
  from all [THEN conjunct1] nd
  have 1: "strokeWidth st = None" "position st = \<lparr>Point.x = 0, Point.y = 0\<rparr>"
    by (elim conjE, simp)+
  from all [THEN conjunct2, THEN mp, OF fade_out_result] tr
  have "opacity st = opacity ?st'"
    by (elim conjE, simp)
  then have 2: "opacity st = 3 / 4" by simp
  have 3: "opacity ?st' = 3 / 4" by simp
  from tr nd res fade_out_result 1 2 3 show ?thesis by blast
qed

text \<open>The id of a blended gradient carries the counter.\<close>

lemma gradient_id_lerpGradientDef:
  "gradient_id (fst (lerpGradientDef h a b t c))
    = ''__interp_'' @ showNat (Suc c) @ ''_'' @ dateNow36 h (Suc c)"
  by (cases a; cases b) (simp_all add: lerpGradientDef_def Let_def)

lemma showNat_2: "showNat (Suc (Suc 0)) = ''2''"
  by (simp add: showNat.simps)

lemma stroke_blend_result:
  "map_option (\<lambda>res. stroke (fst res))
      (interpolateKeyframes easingFunctions url_host [] stroke_blend 500 (Some two_gradients)
         no_effects)
    = Some (Some ''url(#__interp_1_mh1w2k3z)'')"
  by (simp add: interpolateKeyframes_def interpolate_channels_def has_beforeInterpolate_def
      has_afterInterpolate_def stroke_blend_def keyframe_at_def no_effects_def
      two_gradients_def url_host_def example_host_def gradient_0_def gradient_180_def
      interpColor_def interpPoint_def interpScale_def interpNum_def interpOptNum_def
      interpPath_def interpSnap_def findBracket_def easedT_def getEasingFunction_def
      property_def easingFunctions_linear lerpColorOrGradient_def falsy_def
      startsWith_url_def resolveGradient_def Let_def gradient_id_lerpGradientDef
      snd_lerpGradientDef showNat_1)

lemma fill_stroke_blend_result:
  "map_option (\<lambda>res. stroke (fst res))
      (interpolateKeyframes easingFunctions url_host [] fill_stroke_blend 500
         (Some two_gradients) no_effects)
    = Some (Some ''url(#__interp_2_mh1w2k3z)'')"
  by (simp add: interpolateKeyframes_def interpolate_channels_def has_beforeInterpolate_def
      has_afterInterpolate_def fill_stroke_blend_def keyframe_at_def no_effects_def
      two_gradients_def url_host_def example_host_def gradient_0_def gradient_180_def
      interpColor_def interpPoint_def interpScale_def interpNum_def interpOptNum_def
      interpPath_def interpSnap_def findBracket_def easedT_def getEasingFunction_def
      property_def easingFunctions_linear lerpColorOrGradient_def falsy_def
      startsWith_url_def resolveGradient_def Let_def gradient_id_lerpGradientDef
      snd_lerpGradientDef showNat_2)

text \<open>
  The claim as stated fails in three ways.  The result for a property that no keyframe
  defines is not absent for the four required properties: in
  \<open>[{at:0, fill:'#ff0000'}]\<close> no keyframe defines opacity, rotation, scale or
  position, and the state has the values 1, 0, 1 and \<open>(0,0)\<close> for them.  It is not
  absent either when a plugin implements \<open>afterInterpolate\<close>: the hook of
  \<open>outline_plugin\<close> sets a stroke width that no keyframe defines.  And the stroke is not
  resolved from the keyframes that define it alone: two lists with the same stroke
  track, of which one also blends the fill between two gradients, give strokes that
  differ in the generated id.
\<close>

theorem interpolate_undefined_property_counterexample:
  "never_defines fill_only Keyframe.opacity
   \<and> never_defines fill_only Keyframe.rotation
   \<and> never_defines fill_only Keyframe.scale
   \<and> never_defines fill_only Keyframe.position
   \<and> map_option (\<lambda>res. (opacity (fst res), rotation (fst res), scale (fst res), position (fst res)))
        (interpolateKeyframes easingFunctions example_host [] fill_only 0 None no_effects)
      = Some (1, 0, ScaleNumber 1, \<lparr>Point.x = 0, Point.y = 0\<rparr>)
   \<and> never_defines fill_only Keyframe.strokeWidth
   \<and> map_option (\<lambda>res. strokeWidth (fst res))
        (interpolateKeyframes easingFunctions example_host [outline_plugin] fill_only 0 None
           no_effects)
      = Some (Some 2)
   \<and> track Keyframe.stroke stroke_blend = track Keyframe.stroke fill_stroke_blend
   \<and> map_option (\<lambda>res. stroke (fst res))
        (interpolateKeyframes easingFunctions url_host [] stroke_blend 500 (Some two_gradients)
           no_effects)
      = Some (Some ''url(#__interp_1_mh1w2k3z)'')
   \<and> map_option (\<lambda>res. stroke (fst res))
        (interpolateKeyframes easingFunctions url_host [] fill_stroke_blend 500
           (Some two_gradients) no_effects)
      = Some (Some ''url(#__interp_2_mh1w2k3z)'')"
proof -
  have nd: "never_defines fill_only Keyframe.opacity" "never_defines fill_only Keyframe.rotation"
    "never_defines fill_only Keyframe.scale" "never_defines fill_only Keyframe.position"
    "never_defines fill_only Keyframe.strokeWidth"
    by (simp_all add: never_defines_def fill_only_def keyframe_at_def)
  have plain: "map_option (\<lambda>res. (opacity (fst res), rotation (fst res), scale (fst res), position (fst res)))
        (interpolateKeyframes easingFunctions example_host [] fill_only 0 None no_effects)
      = Some (1, 0, ScaleNumber 1, \<lparr>Point.x = 0, Point.y = 0\<rparr>)"
    by (simp add: fill_only_result default_state_def)
  have hooked: "map_option (\<lambda>res. strokeWidth (fst res))
        (interpolateKeyframes easingFunctions example_host [outline_plugin] fill_only 0 None
           no_effects)
      = Some (Some 2)"
    by (simp add: interpolateKeyframes_def interpolate_channels_def has_beforeInterpolate_def
      has_afterInterpolate_def run_afterInterpolate_def outline_plugin_def
      fill_only_def keyframe_at_def no_effects_def
      interpColor_def interpPoint_def interpScale_def interpNum_def interpOptNum_def
      interpPath_def interpSnap_def findBracket_def resolveResult_def startsWith_url_def)
  have tr: "track Keyframe.stroke stroke_blend = track Keyframe.stroke fill_stroke_blend"
    by (simp add: track_def stroke_blend_def fill_stroke_blend_def keyframe_at_def)
  from nd plain hooked tr stroke_blend_result fill_stroke_blend_result show ?thesis
    by (intro conjI)
qed

section \<open>Blending two linear gradients\<close>

subsection \<open>The angle of a vector\<close>









subsection \<open>The measured length\<close>







subsection \<open>The blend\<close>







section \<open>Playback: the iteration budget\<close>

lemma emitted_emit:
  "emitted ty (emit ty' extra c) = emitted ty c + (if ty' = ty then 1 else 0)"
  by (simp add: emitted_def emit_def)

lemma emit_fields:
  "state (emit ty extra c) = state c" "iterationCount (emit ty extra c) = iterationCount c"
  "loopIterations (emit ty extra c) = loopIterations c"
  "loopDirection (emit ty extra c) = loopDirection c"
  "loopDelay (emit ty extra c) = loopDelay c"
  "currentTime (emit ty extra c) = currentTime c"
  "totalDuration (emit ty extra c) = totalDuration c"
  "direction (emit ty extra c) = direction c"
  "events (emit ty extra c) \<noteq> []"
  "PlaybackEvent.type' (last (events (emit ty extra c))) = ty"
  by (simp_all add: emit_def)

lemma requestAnimationFrame_fields:
  "state (requestAnimationFrame c) = state c"
  "iterationCount (requestAnimationFrame c) = iterationCount c"
  "loopIterations (requestAnimationFrame c) = loopIterations c"
  "currentTime (requestAnimationFrame c) = currentTime c"
  "totalDuration (requestAnimationFrame c) = totalDuration c"
  "direction (requestAnimationFrame c) = direction c"
  "events (requestAnimationFrame c) = events c"
  "emitted ty (requestAnimationFrame c) = emitted ty c"
  by (simp_all add: requestAnimationFrame_def emitted_def)


lemma emitted_update:
  "emitted ty (c\<lparr>state := st\<rparr>) = emitted ty c"
  "emitted ty (c\<lparr>completions := n\<rparr>) = emitted ty c"
  "emitted ty (c\<lparr>direction := d\<rparr>) = emitted ty c"
  "emitted ty (c\<lparr>currentTime := t\<rparr>) = emitted ty c"
  "emitted ty (c\<lparr>timers := k\<rparr>) = emitted ty c"
  "emitted ty (c\<lparr>iterationCount := i\<rparr>) = emitted ty c"
  "emitted ty (c\<lparr>lastFrameTime := l\<rparr>) = emitted ty c"
  "emitted ty (c\<lparr>frames := fs\<rparr>) = emitted ty c"
  "emitted ty (c\<lparr>updates := u\<rparr>) = emitted ty c"
  "emitted ty (c\<lparr>effects := w\<rparr>) = emitted ty c"
  by (simp_all add: emitted_def)

















lemma never_defines_mock:
  "get (keyframe_at 0) = None \<Longrightarrow> get (keyframe_at 1000) = None
   \<Longrightarrow> never_defines (Timeline.keyframes mockTimeline) get"
  by (simp add: never_defines_def mockTimeline_def)

lemma interpolate_channels_mock:
  "interpolate_channels reg h (Timeline.keyframes mockTimeline) t gs n = Some (default_state, n)"
proof -
  let ?kfs = "Timeline.keyframes mockTimeline"
  have nd: "never_defines ?kfs Keyframe.fill" "never_defines ?kfs Keyframe.stroke"
    "never_defines ?kfs Keyframe.position" "never_defines ?kfs Keyframe.scale"
    "never_defines ?kfs Keyframe.rotation" "never_defines ?kfs Keyframe.opacity"
    "never_defines ?kfs Keyframe.strokeWidth" "never_defines ?kfs Keyframe.strokeAlign"
    "never_defines ?kfs Keyframe.blurRadius" "never_defines ?kfs Keyframe.backdropBlur"
    "never_defines ?kfs Keyframe.width" "never_defines ?kfs Keyframe.height"
    "never_defines ?kfs Keyframe.pathD"
    by (rule never_defines_mock; simp add: keyframe_at_def)+
  show ?thesis
    by (simp add: interpolate_channels_def nd interpColor_never interpPoint_never
        interpScale_never interpNum_never interpOptNum_never interpSnap_never
        interpPath_never default_state_def)
qed

lemma getActorStateAtTime_mock:
  "getActorStateAtTime reg h [] mockTimeline t opts w = Some (default_state, w)"
proof -
  have "Timeline.keyframes mockTimeline \<noteq> []" by (simp add: mockTimeline_def)
  then show ?thesis
    by (simp add: getActorStateAtTime_def interpolateKeyframes_no_hooks
        has_beforeInterpolate_def has_afterInterpolate_def interpolate_channels_mock)
qed

lemma emitUpdate_mock:
  "tl' c = mockTimeline \<Longrightarrow>
   emitUpdate reg h [] t c = Some (c\<lparr>updates := updates c @ [(default_state, t)]\<rparr>)"
  by (simp add: emitUpdate_def getActorStateAtTime_mock)

lemmas run_simps = mock_run_def createPlayback_def loop_options_def bare_config_def play_def
  tick_def upper_bound_hit_def lower_bound_hit_def emit_def requestAnimationFrame_def
  emitUpdate_mock Let_def emitted_def

lemma mockTimeline_duration: "duration mockTimeline = 1000"
  by (simp add: mockTimeline_def)




section \<open>Playback: the loop direction at a time bound\<close>

text \<open>
  What a repeat does to the direction and the time cursor.  At the upper bound,
  \<open>alternate\<close> and \<open>reverse\<close> both set the direction to backward and leave the cursor
  at the total duration, and any other direction sets the cursor to 0.  At the lower
  bound, where the cursor is 0, \<open>alternate\<close> sets the direction to forward; for every
  other direction, \<open>reverse\<close> included, neither the direction nor the cursor changes.
\<close>

lemma upper_bound_repeat:
  assumes "\<not> count_reaches (iterationCount c) (loopIterations c)"
  shows "(loopDirection c = ''alternate'' \<or> loopDirection c = ''reverse'' \<longrightarrow>
            direction (upper_bound_hit c) = - 1
            \<and> currentTime (upper_bound_hit c) = totalDuration c)
       \<and> (loopDirection c \<noteq> ''alternate'' \<and> loopDirection c \<noteq> ''reverse'' \<longrightarrow>
            direction (upper_bound_hit c) = direction c
            \<and> currentTime (upper_bound_hit c) = 0)
       \<and> emitted ''repeat'' (upper_bound_hit c) = emitted ''repeat'' c + 1"
  using assms
  by (simp add: upper_bound_hit_def Let_def emit_fields requestAnimationFrame_fields
      emitted_emit emitted_update)

lemma lower_bound_repeat:
  assumes "\<not> count_reaches (iterationCount c) (loopIterations c)"
  shows "(loopDirection c = ''alternate'' \<longrightarrow>
            direction (lower_bound_hit c) = 1 \<and> currentTime (lower_bound_hit c) = 0)
       \<and> (loopDirection c \<noteq> ''alternate'' \<longrightarrow>
            direction (lower_bound_hit c) = direction c
            \<and> currentTime (lower_bound_hit c) = currentTime c)
       \<and> emitted ''repeat'' (lower_bound_hit c) = emitted ''repeat'' c + 1"
  using assms
  by (simp add: lower_bound_hit_def Let_def emit_fields requestAnimationFrame_fields
      emitted_emit emitted_update)

text \<open>
  C9.  A repeat with loop direction \<open>reverse\<close> is to flip the direction and to reset
  the cursor to the far bound, at the lower bound as at the upper one.  On a timeline
  of 1000 ms with three iterations, the frame at 1000 ms hits the upper bound: the
  first repeat, after which the direction is backward and the cursor is at 1000.  The
  frame at 2000 ms hits the lower bound: the second repeat, not the last, after which
  the direction is still backward and the cursor is at 0.
\<close>

theorem reverse_at_lower_bound:
  "map_option (\<lambda>c. (state c, direction c, currentTime c, iterationCount c, emitted ''repeat'' c))
      (mock_run ''reverse'' [Frame 1 0, Frame 2 1000])
     = Some (playing, - 1, 1000, 1, 1)
   \<and> map_option (\<lambda>c. (state c, direction c, currentTime c, iterationCount c, emitted ''repeat'' c))
      (mock_run ''reverse'' [Frame 1 0, Frame 2 1000, Frame 3 2000])
     = Some (playing, - 1, 0, 2, 2)"
  by (simp add: run_simps mockTimeline_duration)

end
